theory Spec2Isabelle
  imports Complex_Main
begin

section \<open>JavaScript values as the routes see them\<close>

text \<open>
  The route handlers of \<^verbatim>\<open>codeExecution.route.ts\<close> and \<^verbatim>\<open>examAttempt.route.ts\<close> work on
  untyped data: the parsed JSON body of the request, the JSON column \<^verbatim>\<open>exam.testCases\<close>
  and whatever the execution service resolves to. A value is therefore one of the JSON
  kinds or \<^verbatim>\<open>undefined\<close> (the value of a missing property). A number is a finite
  double, held as the rational it denotes (\<^verbatim>\<open>-0\<close> and \<^verbatim>\<open>0\<close> coincide, as they do for
  \<^verbatim>\<open>===\<close> and for truthiness); the arithmetic of the routes rounds as doubles do, see
  below. A string is the list of its UTF-16 code units, each a number below 65536.
  Property names are kept as plain text: the routes read names in ASCII only, and a
  property of any other name is never read.
\<close>

type_synonym jstring = "nat list"

text \<open>The code units of an ASCII (or Latin-1) text.\<close>

definition ascii :: "string \<Rightarrow> jstring" where
  "ascii s = map of_char s"

datatype jsval =
    JUndefined
  | JNull
  | JBool bool
  | JNum rat
  | JStr jstring
  | JArr "jsval list"
  | JObj "(string \<times> jsval) list"

text \<open>A thrown \<^verbatim>\<open>Error\<close>, with its \<^verbatim>\<open>message\<close>.\<close>

datatype exn = JsError jstring

fun message :: "exn \<Rightarrow> jstring" where
  "message (JsError m) = m"

text \<open>Sequencing of steps that may throw: the first throw ends the block.\<close>

fun bind_exn :: "exn + 'a \<Rightarrow> ('a \<Rightarrow> exn + 'b) \<Rightarrow> exn + 'b" where
  "bind_exn (Inl e) f = Inl e"
| "bind_exn (Inr v) f = f v"

text \<open>\<^verbatim>\<open>!!v\<close>: the falsy values are undefined, null, false, 0 and the empty string.\<close>

fun truthy :: "jsval \<Rightarrow> bool" where
  "truthy JUndefined = False"
| "truthy JNull = False"
| "truthy (JBool b) = b"
| "truthy (JNum n) = (n \<noteq> 0)"
| "truthy (JStr s) = (s \<noteq> [])"
| "truthy (JArr xs) = True"
| "truthy (JObj kvs) = True"

text \<open>\<^verbatim>\<open>a || b\<close>\<close>

fun or_else :: "jsval \<Rightarrow> jsval \<Rightarrow> jsval" where
  "or_else a b = (if truthy a then a else b)"

text \<open>\<^verbatim>\<open>v === undefined || v === null\<close>\<close>

fun nullish :: "jsval \<Rightarrow> bool" where
  "nullish JUndefined = True"
| "nullish JNull = True"
| "nullish v = False"

text \<open>
  \<^verbatim>\<open>v.k\<close> for the property names the routes read (\<^verbatim>\<open>input\<close>, \<^verbatim>\<open>expectedOutput\<close>,
  \<^verbatim>\<open>description\<close>, \<^verbatim>\<open>output\<close>, \<^verbatim>\<open>error\<close>, \<^verbatim>\<open>exitCode\<close>, \<^verbatim>\<open>executionTime\<close>, \<^verbatim>\<open>valid\<close>,
  \<^verbatim>\<open>errors\<close>): none of them is inherited from a prototype, so the read gives the own
  property of an object, undefined on any other value, and throws a TypeError on
  undefined and null, with V8's message for it.
\<close>

fun get_prop :: "jsval \<Rightarrow> string \<Rightarrow> exn + jsval" where
  "get_prop JUndefined k =
     Inl (JsError (ascii (''Cannot read properties of undefined (reading '' @ [CHR 0x27] @ k
                             @ [CHR 0x27] @ '')'')))"
| "get_prop JNull k =
     Inl (JsError (ascii (''Cannot read properties of null (reading '' @ [CHR 0x27] @ k
                             @ [CHR 0x27] @ '')'')))"
| "get_prop (JObj kvs) k = Inr (case map_of kvs k of None \<Rightarrow> JUndefined | Some v \<Rightarrow> v)"
| "get_prop v k = Inr JUndefined"

text \<open>
  The request body after \<^verbatim>\<open>express.json()\<close> is an object; destructuring
  \<^verbatim>\<open>const { code, language } = req.body\<close> reads its own properties.
\<close>

type_synonym reqbody = "(string \<times> jsval) list"

fun field :: "reqbody \<Rightarrow> string \<Rightarrow> jsval" where
  "field body k = (case map_of body k of None \<Rightarrow> JUndefined | Some v \<Rightarrow> v)"

subsection \<open>String.prototype.trim\<close>

text \<open>
  The code points that \<^verbatim>\<open>trim\<close> strips are the ECMAScript WhiteSpace and LineTerminator
  code points: TAB, LF, VT, FF, CR, SPACE, NO-BREAK SPACE, U+1680, U+2000 to U+200A,
  U+2028, U+2029, U+202F, U+205F, U+3000 and U+FEFF. All of them are single code units.
\<close>

fun js_space :: "nat \<Rightarrow> bool" where
  "js_space c =
     (c \<in> {0x9, 0xA, 0xB, 0xC, 0xD, 0x20, 0xA0, 0x1680, 0x2028, 0x2029, 0x202F, 0x205F, 0x3000,
            0xFEFF}
      \<or> (0x2000 \<le> c \<and> c \<le> 0x200A))"

fun js_trim :: "jstring \<Rightarrow> jstring" where
  "js_trim s = rev (dropWhile js_space (rev (dropWhile js_space s)))"

text \<open>
  \<^verbatim>\<open>r?.trim()\<close> for a receiver written \<open>r\<close> in the source, of value \<open>v\<close>: undefined on
  undefined and null, a TypeError on any other non-string. The message is the one V8
  gives for the call as the source writes it; a compiler that lowers the optional
  chain changes its wording.
\<close>

fun opt_trim :: "string \<Rightarrow> jsval \<Rightarrow> exn + jsval" where
  "opt_trim r JUndefined = Inr JUndefined"
| "opt_trim r JNull = Inr JUndefined"
| "opt_trim r (JStr s) = Inr (JStr (js_trim s))"
| "opt_trim r v = Inl (JsError (ascii (r @ ''?.trim is not a function'')))"

text \<open>
  \<^verbatim>\<open>(r || '').trim()\<close>: the receiver is never undefined or null; a truthy non-string
  (a number, \<^verbatim>\<open>true\<close>, an array, an object) has no callable \<^verbatim>\<open>trim\<close>.
\<close>

fun trim_or_empty :: "string \<Rightarrow> jsval \<Rightarrow> exn + jstring" where
  "trim_or_empty r v =
     (case or_else v (JStr []) of
        JStr s \<Rightarrow> Inr (js_trim s)
      | _ \<Rightarrow> Inl (JsError (ascii (''('' @ r @ '' || \"\").trim is not a function''))))"

subsection \<open>Arithmetic on doubles\<close>

text \<open>
  The routes compute \<^verbatim>\<open>(passed / total) * 100\<close> on numbers, which are IEEE 754 doubles:
  each of the two operations gives the double nearest to the exact result, ties to the
  even significand. A positive double is held here as a pair \<open>(m, e)\<close> that stands for
  \<open>m * 2 ^ e\<close>, with \<open>2 ^ 52 \<le> m \<le> 2 ^ 53\<close>. The operands of the routes are counts below
  \<open>2 ^ 53\<close>, so they are doubles themselves, and every result lies between \<open>2 ^ -53\<close> and
  100, far from overflow and from the subnormal range, which are left out.
\<close>

text \<open>The number of binary digits of a positive integer.\<close>

function bitlen :: "int \<Rightarrow> int" where
  "bitlen a = (if 0 < a then bitlen (a div 2) + 1 else 0)"
  by pat_completeness auto
termination
  by (relation "measure nat") auto

declare bitlen.simps [simp del]

text \<open>The integer nearest to \<open>n / d\<close> for \<open>0 \<le> n\<close> and \<open>0 < d\<close>, a tie going to the even one.\<close>

definition round_div :: "int \<Rightarrow> int \<Rightarrow> int" where
  "round_div n d =
     (let q = n div d; r = n mod d
      in if 2 * r < d then q else if d < 2 * r then q + 1 else if even q then q else q + 1)"

text \<open>
  The double nearest to \<open>a / b\<close> for \<open>0 \<le> a\<close> and \<open>0 < b\<close>: \<open>l\<close> is the binary exponent
  of the quotient, \<open>2 ^ l \<le> a / b < 2 ^ (l + 1)\<close>.
\<close>

definition nearest_double :: "int \<Rightarrow> int \<Rightarrow> int \<times> int" where
  "nearest_double a b =
     (if a = 0 then (0, 0)
      else let k = bitlen a - bitlen b;
               l = (if (if 0 \<le> k then b * 2 ^ nat k \<le> a else b \<le> a * 2 ^ nat (- k)) then k
                    else k - 1);
               e = l - 52
           in (if 0 \<le> e then round_div a (b * 2 ^ nat e) else round_div (a * 2 ^ nat (- e)) b, e))"

text \<open>The product of a double and a non-negative integer, rounded.\<close>

definition double_times :: "int \<times> int \<Rightarrow> int \<Rightarrow> int \<times> int" where
  "double_times d c =
     (if 0 \<le> snd d then nearest_double (fst d * c * 2 ^ nat (snd d)) 1
      else nearest_double (fst d * c) (2 ^ nat (- snd d)))"

definition double_value :: "int \<times> int \<Rightarrow> rat" where
  "double_value d =
     (if 0 \<le> snd d then of_int (fst d) * 2 ^ nat (snd d) else of_int (fst d) / 2 ^ nat (- snd d))"

text \<open>\<^verbatim>\<open>(count / total) * 100\<close> as the routes compute it, for \<open>0 < total\<close>.\<close>

definition percentage :: "nat \<Rightarrow> nat \<Rightarrow> rat" where
  "percentage count total_count =
     double_value (double_times (nearest_double (int count) (int total_count)) 100)"

section \<open>The execution service\<close>

text \<open>
  \<^verbatim>\<open>services/codeExecution.service\<close> is injected into the routes and is not part of them.
  It is a parameter here: a call is answered, depending on the calls made before it, by
  a resolved value or by a thrown error. The list of calls made so far is the state the
  routes thread through; a call appends itself to it.
\<close>

datatype call =
    ExecuteCode jsval jsval jsval
  | ValidateSyntax jsval jsval

type_synonym service = "call list \<Rightarrow> call \<Rightarrow> exn + jsval"

fun invoke :: "service \<Rightarrow> call list \<Rightarrow> call \<Rightarrow> (exn + jsval) \<times> call list" where
  "invoke svc h c = (svc h c, h @ [c])"

text \<open>The option objects of the two callers of \<^verbatim>\<open>executeCode\<close>.\<close>

fun route_options :: "jsval \<Rightarrow> jsval" where
  "route_options inp =
     JObj [(''timeout'', JNum 10000), (''maxMemory'', JStr (ascii ''128m'')), (''input'', inp)]"

fun finish_options :: "jsval \<Rightarrow> jsval" where
  "finish_options inp = JObj [(''input'', inp), (''timeout'', JNum 10000)]"

section \<open>Responses\<close>

datatype response = Json (status: nat) (payload: jsval)

definition msg_required :: jstring where
  "msg_required = ascii (''C'' @ [CHR 0xF3] @ ''digo y lenguaje son requeridos'')"

definition msg_unsupported :: jstring where
  "msg_unsupported = ascii ''Lenguaje no soportado. Use \"python\" o \"javascript\"''"

definition msg_internal_run :: jstring where
  "msg_internal_run = ascii (''Error interno al ejecutar c'' @ [CHR 0xF3] @ ''digo'')"

definition msg_internal_validate :: jstring where
  "msg_internal_validate = ascii (''Error interno al validar c'' @ [CHR 0xF3] @ ''digo'')"

fun bad_request :: "jstring \<Rightarrow> response" where
  "bad_request m = Json 400 (JObj [(''error'', JStr m)])"

fun internal_error :: "jstring \<Rightarrow> exn \<Rightarrow> response" where
  "internal_error m e = Json 500 (JObj [(''error'', JStr m), (''details'', JStr (message e))])"

text \<open>\<^verbatim>\<open>['python', 'javascript'].includes(language)\<close>\<close>

fun supported :: "jsval \<Rightarrow> bool" where
  "supported language = (language = JStr (ascii ''python'') \<or> language = JStr (ascii ''javascript''))"

section \<open>The database behind the Prisma client\<close>

text \<open>
  The Prisma client is injected into the routes as well. Its tables are lists of rows;
  the columns are the ones the two routes read or write (the schema file is not part of
  the routes, the column types follow their use: \<^verbatim>\<open>testCases\<close>, \<^verbatim>\<open>testResults\<close> and
  \<^verbatim>\<open>respuestas\<close> are JSON columns, \<^verbatim>\<open>lenguajeProgramacion\<close>, \<^verbatim>\<open>content\<close> and
  \<^verbatim>\<open>codigoProgramacion\<close> hold a string or null).
\<close>

record pregunta =
  correcta :: int

record exam =
  exam_id :: int
  tipo :: string
  lenguajeProgramacion :: jsval
  testCases :: jsval
  preguntas :: "pregunta list"

record examFile =
  file_examId :: int
  file_userId :: int
  filename :: string
  version :: string
  content :: jsval
  updatedAt :: nat

record examAttempt =
  attempt_id :: int
  attempt_userId :: int
  attempt_examId :: int
  estado :: string
  finishedAt :: "nat option"
  codigoProgramacion :: jsval
  puntaje :: "rat option"
  testResults :: jsval
  respuestas :: jsval

record db =
  exams :: "exam list"
  examFiles :: "examFile list"
  examAttempts :: "examAttempt list"

text \<open>
  \<^verbatim>\<open>prisma.exam.findUnique({ where: { id } })\<close>. The id comes from \<^verbatim>\<open>parseInt\<close>, which
  gives an integer or NaN (\<open>None\<close>); Prisma rejects NaN with a validation error.
\<close>

fun exam_findUnique :: "db \<Rightarrow> int option \<Rightarrow> exn + exam option" where
  "exam_findUnique d None = Inl (JsError (ascii ''Invalid value for argument id''))"
| "exam_findUnique d (Some i) = Inr (find (\<lambda>e. exam_id e = i) (exams d))"

section \<open>POST /code-execution/run\<close>

definition msg_exam_not_found :: jstring where
  "msg_exam_not_found = ascii ''Examen no encontrado''"

definition msg_not_programming :: jstring where
  "msg_not_programming = ascii (''Este examen no es de tipo programaci'' @ [CHR 0xF3] @ ''n'')"

text \<open>
  The check of \<^verbatim>\<open>examId\<close>: \<open>Inr None\<close> lets the request through, \<open>Inr (Some r)\<close> answers
  it, \<open>Inl\<close> is a throw. \<^verbatim>\<open>parseInt\<close> is the ECMAScript builtin, a parameter.
\<close>

definition run_exam_check ::
  "(jsval \<Rightarrow> int option) \<Rightarrow> db \<Rightarrow> jsval \<Rightarrow> exn + response option" where
  "run_exam_check parseInt d examId =
     (if truthy examId then
        bind_exn (exam_findUnique d (parseInt examId)) (\<lambda>found.
          case found of
            None \<Rightarrow> Inr (Some (Json 404 (JObj [(''error'', JStr msg_exam_not_found)])))
          | Some e \<Rightarrow>
              if tipo e \<noteq> ''programming'' then Inr (Some (bad_request msg_not_programming))
              else Inr None)
      else Inr None)"

text \<open>
  \<^verbatim>\<open>res.json({ success, output: result.output, error: result.error, exitCode:
  result.exitCode, executionTime: result.executionTime })\<close>
\<close>

definition result_payload :: "jsval \<Rightarrow> jsval \<Rightarrow> exn + response" where
  "result_payload success result =
     bind_exn (get_prop result ''output'') (\<lambda>out.
     bind_exn (get_prop result ''error'') (\<lambda>err.
     bind_exn (get_prop result ''exitCode'') (\<lambda>ec.
     bind_exn (get_prop result ''executionTime'') (\<lambda>t.
       Inr (Json 200 (JObj [(''success'', success), (''output'', out), (''error'', err),
                            (''exitCode'', ec), (''executionTime'', t)]))))))"

text \<open>One run of \<^verbatim>\<open>executeCode\<close> answered with \<^verbatim>\<open>success: true\<close> (route \<^verbatim>\<open>/run\<close>).\<close>

definition run_once :: "service \<Rightarrow> call list \<Rightarrow> jsval \<Rightarrow> jsval \<Rightarrow> jsval \<Rightarrow> response \<times> call list" where
  "run_once svc h code language inp =
     (case invoke svc h (ExecuteCode code language (route_options inp)) of
        (Inl e, h') \<Rightarrow> (internal_error msg_internal_run e, h')
      | (Inr result, h') \<Rightarrow>
          (case result_payload (JBool True) result of
             Inl e \<Rightarrow> (internal_error msg_internal_run e, h')
           | Inr r \<Rightarrow> (r, h')))"

definition run_route ::
  "(jsval \<Rightarrow> int option) \<Rightarrow> db \<Rightarrow> service \<Rightarrow> call list \<Rightarrow> reqbody \<Rightarrow> response \<times> call list" where
  "run_route parseInt d svc h body =
     (let code = field body ''code''; language = field body ''language'';
          examId = field body ''examId''; inp = field body ''input''
      in if \<not> truthy code \<or> \<not> truthy language then (bad_request msg_required, h)
         else if \<not> supported language then (bad_request msg_unsupported, h)
         else (case run_exam_check parseInt d examId of
                 Inl e \<Rightarrow> (internal_error msg_internal_run e, h)
               | Inr (Some r) \<Rightarrow> (r, h)
               | Inr None \<Rightarrow> run_once svc h code language (or_else inp (JStr []))))"

section \<open>POST /code-execution/validate\<close>

definition validate_route :: "service \<Rightarrow> call list \<Rightarrow> reqbody \<Rightarrow> response \<times> call list" where
  "validate_route svc h body =
     (let code = field body ''code''; language = field body ''language''
      in if \<not> truthy code \<or> \<not> truthy language then (bad_request msg_required, h)
         else (case invoke svc h (ValidateSyntax code language) of
                 (Inl e, h') \<Rightarrow> (internal_error msg_internal_validate e, h')
               | (Inr result, h') \<Rightarrow>
                   (case bind_exn (get_prop result ''valid'') (\<lambda>v.
                         bind_exn (get_prop result ''errors'') (\<lambda>errs.
                           Inr (Json 200 (JObj [(''valid'', v), (''errors'', errs)])))) of
                      Inl e \<Rightarrow> (internal_error msg_internal_validate e, h')
                    | Inr r \<Rightarrow> (r, h'))))"

section \<open>POST /code-execution/execute\<close>

text \<open>
  The comparison of the route,
  \<^verbatim>\<open>result.output?.trim() === testCase.expectedOutput?.trim()\<close>, evaluated left to right.
  Both sides are undefined or a string, so \<^verbatim>\<open>===\<close> is equality of values.
\<close>

definition execute_passed :: "jsval \<Rightarrow> jsval \<Rightarrow> exn + bool" where
  "execute_passed result testCase =
     bind_exn (get_prop result ''output'') (\<lambda>out.
     bind_exn (opt_trim ''result.output'' out) (\<lambda>actual.
     bind_exn (get_prop testCase ''expectedOutput'') (\<lambda>expected.
     bind_exn (opt_trim ''testCase.expectedOutput'' expected) (\<lambda>wanted.
       Inr (actual = wanted)))))"

text \<open>
  The body of the \<^verbatim>\<open>try\<close> block after \<^verbatim>\<open>executeCode\<close> has resolved: whether the case
  passed, and the entry pushed to \<^verbatim>\<open>testResults\<close>. Nothing is pushed or counted before
  the last step that can throw.
\<close>

definition execute_entry :: "jsval \<Rightarrow> jsval \<Rightarrow> exn + (bool \<times> jsval)" where
  "execute_entry testCase result =
     bind_exn (execute_passed result testCase) (\<lambda>passed.
     bind_exn (get_prop testCase ''input'') (\<lambda>inp.
     bind_exn (get_prop testCase ''expectedOutput'') (\<lambda>expected.
     bind_exn (get_prop result ''output'') (\<lambda>out.
     bind_exn (opt_trim ''result.output'' out) (\<lambda>actual.
     bind_exn (get_prop result ''error'') (\<lambda>err.
     bind_exn (get_prop result ''executionTime'') (\<lambda>t.
       Inr (passed,
            JObj [(''input'', inp), (''expectedOutput'', expected),
                  (''actualOutput'', actual), (''passed'', JBool passed),
                  (''error'', err), (''executionTime'', t)]))))))))"

definition execute_try ::
  "service \<Rightarrow> call list \<Rightarrow> jsval \<Rightarrow> jsval \<Rightarrow> jsval \<Rightarrow> (exn + (bool \<times> jsval)) \<times> call list" where
  "execute_try svc h code language testCase =
     (case get_prop testCase ''input'' of
        Inl e \<Rightarrow> (Inl e, h)
      | Inr inp \<Rightarrow>
          (case invoke svc h (ExecuteCode code language (route_options (or_else inp (JStr [])))) of
             (Inl e, h') \<Rightarrow> (Inl e, h')
           | (Inr result, h') \<Rightarrow> (execute_entry testCase result, h')))"

text \<open>The \<^verbatim>\<open>catch\<close> block of one case; it reads the test case again and can throw itself.\<close>

definition execute_catch :: "jsval \<Rightarrow> exn \<Rightarrow> exn + jsval" where
  "execute_catch testCase err =
     bind_exn (get_prop testCase ''input'') (\<lambda>inp.
     bind_exn (get_prop testCase ''expectedOutput'') (\<lambda>expected.
       Inr (JObj [(''input'', inp), (''expectedOutput'', expected), (''passed'', JBool False),
                  (''error'', or_else (JStr (message err)) (JStr (ascii ''Error desconocido'')))])))"

text \<open>One iteration of the \<^verbatim>\<open>for\<close> loop: \<open>Inl\<close> only when the catch block threw.\<close>

definition execute_case ::
  "service \<Rightarrow> call list \<Rightarrow> jsval \<Rightarrow> jsval \<Rightarrow> jsval \<Rightarrow> (exn + (bool \<times> jsval)) \<times> call list" where
  "execute_case svc h code language testCase =
     (case execute_try svc h code language testCase of
        (Inr r, h') \<Rightarrow> (Inr r, h')
      | (Inl err, h') \<Rightarrow>
          (case execute_catch testCase err of
             Inl e \<Rightarrow> (Inl e, h')
           | Inr entry \<Rightarrow> (Inr (False, entry), h')))"

text \<open>
  The loop over \<^verbatim>\<open>testCases\<close>, with the two variables it updates:
  \<^verbatim>\<open>testResults\<close> and \<^verbatim>\<open>passedTests\<close>.
\<close>

fun execute_loop ::
  "service \<Rightarrow> jsval \<Rightarrow> jsval \<Rightarrow> jsval list \<Rightarrow> jsval list \<Rightarrow> nat \<Rightarrow> call list
     \<Rightarrow> (exn + (jsval list \<times> nat)) \<times> call list" where
  "execute_loop svc code language [] results passedTests h = (Inr (results, passedTests), h)"
| "execute_loop svc code language (testCase # rest) results passedTests h =
     (case execute_case svc h code language testCase of
        (Inl e, h') \<Rightarrow> (Inl e, h')
      | (Inr (passed, entry), h') \<Rightarrow>
          execute_loop svc code language rest (results @ [entry])
            (if passed then passedTests + 1 else passedTests) h')"

text \<open>\<^verbatim>\<open>res.json({ success: true, score, passedTests, totalTests: testCases.length, testResults })\<close>\<close>

definition batch_response :: "jsval list \<Rightarrow> nat \<Rightarrow> nat \<Rightarrow> response" where
  "batch_response results passedTests totalTests =
     Json 200 (JObj [(''success'', JBool True),
                     (''score'', JNum (percentage passedTests totalTests)),
                     (''passedTests'', JNum (of_nat passedTests)),
                     (''totalTests'', JNum (of_nat totalTests)),
                     (''testResults'', JArr results)])"

text \<open>One run answered with \<^verbatim>\<open>success: !result.error\<close> (custom input, or no input at all).\<close>

definition execute_once :: "service \<Rightarrow> call list \<Rightarrow> jsval \<Rightarrow> jsval \<Rightarrow> jsval \<Rightarrow> response \<times> call list" where
  "execute_once svc h code language inp =
     (case invoke svc h (ExecuteCode code language (route_options inp)) of
        (Inl e, h') \<Rightarrow> (internal_error msg_internal_run e, h')
      | (Inr result, h') \<Rightarrow>
          (case bind_exn (get_prop result ''error'') (\<lambda>err.
                  result_payload (JBool (\<not> truthy err)) result) of
             Inl e \<Rightarrow> (internal_error msg_internal_run e, h')
           | Inr r \<Rightarrow> (r, h')))"

definition execute_batch ::
  "service \<Rightarrow> call list \<Rightarrow> jsval \<Rightarrow> jsval \<Rightarrow> jsval list \<Rightarrow> response \<times> call list" where
  "execute_batch svc h code language tcs =
     (case execute_loop svc code language tcs [] 0 h of
        (Inl e, h') \<Rightarrow> (internal_error msg_internal_run e, h')
      | (Inr (results, passedTests), h') \<Rightarrow>
          (batch_response results passedTests (length tcs), h'))"

definition execute_route :: "service \<Rightarrow> call list \<Rightarrow> reqbody \<Rightarrow> response \<times> call list" where
  "execute_route svc h body =
     (let code = field body ''code''; language = field body ''language'';
          testCases = field body ''testCases''; customInput = field body ''customInput''
      in if \<not> truthy code \<or> \<not> truthy language then (bad_request msg_required, h)
         else if \<not> supported language then (bad_request msg_unsupported, h)
         else if customInput \<noteq> JUndefined \<and> customInput \<noteq> JNull
           then execute_once svc h code language customInput
         else (case testCases of
                 JArr tcs \<Rightarrow>
                   if tcs \<noteq> [] then execute_batch svc h code language tcs
                   else execute_once svc h code language (JStr [])
               | _ \<Rightarrow> execute_once svc h code language (JStr [])))"

section \<open>PUT /exam-attempts/:attemptId/finish\<close>

subsection \<open>Queries\<close>

text \<open>
  \<^verbatim>\<open>prisma.examAttempt.findUnique({ where: { id }, include: { exam: true } })\<close>: the
  relation is required, Prisma throws when the exam row is missing.
\<close>

definition attempt_findUnique :: "db \<Rightarrow> int \<Rightarrow> exn + (examAttempt \<times> exam) option" where
  "attempt_findUnique d i =
     (case find (\<lambda>a. attempt_id a = i) (examAttempts d) of
        None \<Rightarrow> Inr None
      | Some a \<Rightarrow>
          (case find (\<lambda>e. exam_id e = attempt_examId a) (exams d) of
             None \<Rightarrow> Inl (JsError (ascii ''Inconsistent query result: Field exam is required''))
           | Some e \<Rightarrow> Inr (Some (a, e))))"

text \<open>
  \<^verbatim>\<open>prisma.examFile.findFirst({ where: { examId, userId, filename, version },
  orderBy: { updatedAt: 'desc' } })\<close>: the first of the matching rows in descending
  order of \<^verbatim>\<open>updatedAt\<close>; among rows updated at the same time, the first of the table.
\<close>

definition examFile_where :: "db \<Rightarrow> int \<Rightarrow> int \<Rightarrow> string \<Rightarrow> string \<Rightarrow> examFile list" where
  "examFile_where d examId userId name ver =
     filter (\<lambda>f. file_examId f = examId \<and> file_userId f = userId \<and>
                  filename f = name \<and> version f = ver) (examFiles d)"

definition examFile_findFirst :: "db \<Rightarrow> int \<Rightarrow> int \<Rightarrow> string \<Rightarrow> string \<Rightarrow> examFile option" where
  "examFile_findFirst d examId userId name ver =
     (case examFile_where d examId userId name ver of
        [] \<Rightarrow> None
      | f # fs \<Rightarrow> Some (fold (\<lambda>g best. if updatedAt best < updatedAt g then g else best) fs f))"

text \<open>The object \<^verbatim>\<open>updateData\<close>: two properties from the start, the others when set.\<close>

record updateData =
  upd_finishedAt :: nat
  upd_estado :: string
  upd_codigoProgramacion :: "jsval option"
  upd_puntaje :: "rat option"
  upd_testResults :: "jsval option"
  upd_respuestas :: "jsval option"

definition apply_update :: "updateData \<Rightarrow> examAttempt \<Rightarrow> examAttempt" where
  "apply_update u a =
     a\<lparr>finishedAt := Some (upd_finishedAt u),
       estado := upd_estado u,
       codigoProgramacion := (case upd_codigoProgramacion u of None \<Rightarrow> codigoProgramacion a | Some c \<Rightarrow> c),
       puntaje := (case upd_puntaje u of None \<Rightarrow> puntaje a | Some p \<Rightarrow> Some p),
       testResults := (case upd_testResults u of None \<Rightarrow> testResults a | Some r \<Rightarrow> r),
       respuestas := (case upd_respuestas u of None \<Rightarrow> respuestas a | Some r \<Rightarrow> r)\<rparr>"

text \<open>\<^verbatim>\<open>prisma.examAttempt.update({ where: { id }, data })\<close>; it throws when no row has the id.\<close>

definition examAttempt_update :: "db \<Rightarrow> int \<Rightarrow> updateData \<Rightarrow> exn + (examAttempt \<times> db)" where
  "examAttempt_update d i u =
     (case find (\<lambda>a. attempt_id a = i) (examAttempts d) of
        None \<Rightarrow> Inl (JsError (ascii ''Record to update not found.''))
      | Some a \<Rightarrow>
          Inr (apply_update u a,
               d\<lparr>examAttempts :=
                    map (\<lambda>b. if attempt_id b = i then apply_update u b else b) (examAttempts d)\<rparr>))"

text \<open>The updated row as \<^verbatim>\<open>res.json\<close> sends it (the date as its timestamp).\<close>

definition attempt_json :: "examAttempt \<Rightarrow> jsval" where
  "attempt_json a =
     JObj [(''id'', JNum (of_int (attempt_id a))),
           (''userId'', JNum (of_int (attempt_userId a))),
           (''examId'', JNum (of_int (attempt_examId a))),
           (''estado'', JStr (ascii (estado a))),
           (''finishedAt'', (case finishedAt a of None \<Rightarrow> JNull | Some t \<Rightarrow> JNum (of_nat t))),
           (''codigoProgramacion'', codigoProgramacion a),
           (''puntaje'', (case puntaje a of None \<Rightarrow> JNull | Some p \<Rightarrow> JNum p)),
           (''testResults'', testResults a),
           (''respuestas'', respuestas a)]"

subsection \<open>Grading a programming exam\<close>

definition msg_sin_descripcion :: jstring where
  "msg_sin_descripcion = ascii (''Test sin descripci'' @ [CHR 0xF3] @ ''n'')"

text \<open>
  \<^verbatim>\<open>expectedOutput = (testCase.expectedOutput || '').trim()\<close>,
  \<^verbatim>\<open>actualOutput = (result.output || '').trim()\<close>,
  \<^verbatim>\<open>passed = actualOutput === expectedOutput && result.exitCode === 0\<close>.
\<close>

definition finish_passed :: "jsval \<Rightarrow> jsval \<Rightarrow> exn + (bool \<times> jstring \<times> jstring)" where
  "finish_passed result testCase =
     bind_exn (get_prop testCase ''expectedOutput'') (\<lambda>e.
     bind_exn (trim_or_empty ''testCase.expectedOutput'' e) (\<lambda>expectedOutput.
     bind_exn (get_prop result ''output'') (\<lambda>out.
     bind_exn (trim_or_empty ''result.output'' out) (\<lambda>actualOutput.
       if actualOutput = expectedOutput
       then bind_exn (get_prop result ''exitCode'') (\<lambda>exitCode.
              Inr (exitCode = JNum 0, expectedOutput, actualOutput))
       else Inr (False, expectedOutput, actualOutput)))))"

definition finish_entry :: "jsval \<Rightarrow> jsval \<Rightarrow> exn + (bool \<times> jsval)" where
  "finish_entry testCase result =
     bind_exn (finish_passed result testCase) (\<lambda>(passed, expectedOutput, actualOutput).
     bind_exn (get_prop testCase ''description'') (\<lambda>descr.
     bind_exn (get_prop result ''error'') (\<lambda>err.
     bind_exn (get_prop result ''executionTime'') (\<lambda>t.
       Inr (passed,
            JObj [(''description'', or_else descr (JStr msg_sin_descripcion)),
                  (''passed'', JBool passed), (''expected'', JStr expectedOutput),
                  (''actual'', JStr actualOutput), (''error'', err),
                  (''executionTime'', t)])))))"

definition finish_try ::
  "service \<Rightarrow> call list \<Rightarrow> jsval \<Rightarrow> jsval \<Rightarrow> jsval \<Rightarrow> (exn + (bool \<times> jsval)) \<times> call list" where
  "finish_try svc h code language testCase =
     (case get_prop testCase ''input'' of
        Inl e \<Rightarrow> (Inl e, h)
      | Inr inp \<Rightarrow>
          (case invoke svc h (ExecuteCode code language (finish_options (or_else inp (JStr [])))) of
             (Inl e, h') \<Rightarrow> (Inl e, h')
           | (Inr result, h') \<Rightarrow> (finish_entry testCase result, h')))"

definition finish_catch :: "jsval \<Rightarrow> exn \<Rightarrow> exn + jsval" where
  "finish_catch testCase err =
     bind_exn (get_prop testCase ''description'') (\<lambda>descr.
     bind_exn (get_prop testCase ''expectedOutput'') (\<lambda>expected.
       Inr (JObj [(''description'', or_else descr (JStr msg_sin_descripcion)),
                  (''passed'', JBool False), (''expected'', expected),
                  (''actual'', JStr []), (''error'', JStr (message err)),
                  (''executionTime'', JNum 0)])))"

definition finish_case ::
  "service \<Rightarrow> call list \<Rightarrow> jsval \<Rightarrow> jsval \<Rightarrow> jsval \<Rightarrow> (exn + (bool \<times> jsval)) \<times> call list" where
  "finish_case svc h code language testCase =
     (case finish_try svc h code language testCase of
        (Inr r, h') \<Rightarrow> (Inr r, h')
      | (Inl err, h') \<Rightarrow>
          (case finish_catch testCase err of
             Inl e \<Rightarrow> (Inl e, h')
           | Inr entry \<Rightarrow> (Inr (False, entry), h')))"

fun finish_loop ::
  "service \<Rightarrow> jsval \<Rightarrow> jsval \<Rightarrow> jsval list \<Rightarrow> jsval list \<Rightarrow> nat \<Rightarrow> call list
     \<Rightarrow> (exn + (jsval list \<times> nat)) \<times> call list" where
  "finish_loop svc code language [] results testsPasados h = (Inr (results, testsPasados), h)"
| "finish_loop svc code language (testCase # rest) results testsPasados h =
     (case finish_case svc h code language testCase of
        (Inl e, h') \<Rightarrow> (Inl e, h')
      | (Inr (passed, entry), h') \<Rightarrow>
          finish_loop svc code language rest (results @ [entry])
            (if passed then testsPasados + 1 else testsPasados) h')"

definition msg_must_save :: "string \<Rightarrow> jstring" where
  "msg_must_save mainFileName =
     ascii (''Debes guardar el archivo principal \"'' @ mainFileName
            @ ''\" antes de finalizar el examen'')"

text \<open>\<^verbatim>\<open>exam.lenguajeProgramacion === 'python' ? 'main.py' : 'main.js'\<close>\<close>

definition mainFileName :: "exam \<Rightarrow> string" where
  "mainFileName e =
     (if lenguajeProgramacion e = JStr (ascii ''python'') then ''main.py'' else ''main.js'')"

text \<open>\<^verbatim>\<open>codigoParaEvaluar = mainFile.content || ''\<close>\<close>

definition codigoParaEvaluar :: "examFile \<Rightarrow> jsval" where
  "codigoParaEvaluar mainFile = or_else (content mainFile) (JStr [])"

text \<open>
  The branch \<^verbatim>\<open>attempt.exam.tipo === 'programming'\<close>. It throws (\<open>Inl\<close>), answers the
  request itself (\<open>Inr (Inl r)\<close>) or hands on the completed \<^verbatim>\<open>updateData\<close>.
\<close>

definition finish_programming ::
  "service \<Rightarrow> call list \<Rightarrow> db \<Rightarrow> int \<Rightarrow> examAttempt \<Rightarrow> updateData
     \<Rightarrow> (exn + (response + updateData)) \<times> call list" where
  "finish_programming svc h d userId attempt upd =
     (case exam_findUnique d (Some (attempt_examId attempt)) of
        Inl e \<Rightarrow> (Inl e, h)
      | Inr None \<Rightarrow> (Inr (Inl (Json 404 (JObj [(''error'', JStr msg_exam_not_found)]))), h)
      | Inr (Some ex) \<Rightarrow>
          (case examFile_findFirst d (attempt_examId attempt) userId (mainFileName ex) ''manual'' of
             None \<Rightarrow> (Inr (Inl (bad_request (msg_must_save (mainFileName ex)))), h)
           | Some mainFile \<Rightarrow>
               (let code = codigoParaEvaluar mainFile;
                    upd1 = upd\<lparr>upd_codigoProgramacion := Some code\<rparr>
                in case testCases ex of
                     JArr tcs \<Rightarrow>
                       if tcs \<noteq> [] then
                         (case finish_loop svc code (lenguajeProgramacion ex) tcs [] 0 h of
                            (Inl e, h') \<Rightarrow> (Inl e, h')
                          | (Inr (results, testsPasados), h') \<Rightarrow>
                              (Inr (Inr (upd1\<lparr>upd_puntaje :=
                                               Some (percentage testsPasados (length tcs)),
                                             upd_testResults := Some (JArr results)\<rparr>)), h'))
                       else (Inr (Inr upd1), h)
                   | _ \<Rightarrow> (Inr (Inr upd1), h))))"

subsection \<open>Grading a multiple-choice exam\<close>

fun show_nat :: "nat \<Rightarrow> string" where
  "show_nat n =
     (if n < 10 then [char_of (48 + n)] else show_nat (n div 10) @ [char_of (48 + n mod 10)])"

declare show_nat.simps [simp del]

text \<open>\<^verbatim>\<open>respuestas?.[index]\<close>\<close>

fun opt_index :: "jsval \<Rightarrow> nat \<Rightarrow> jsval" where
  "opt_index (JArr xs) i = (if i < length xs then xs ! i else JUndefined)"
| "opt_index (JObj kvs) i = (case map_of kvs (show_nat i) of None \<Rightarrow> JUndefined | Some v \<Rightarrow> v)"
| "opt_index (JStr s) i = (if i < length s then JStr [s ! i] else JUndefined)"
| "opt_index v i = JUndefined"

text \<open>
  The \<^verbatim>\<open>forEach\<close> over \<^verbatim>\<open>exam.preguntas\<close>; \<^verbatim>\<open>pregunta.correcta\<close> is a number, so
  \<^verbatim>\<open>===\<close> holds for that number only.
\<close>

fun contar_correctas :: "jsval \<Rightarrow> pregunta list \<Rightarrow> nat \<Rightarrow> nat \<Rightarrow> nat" where
  "contar_correctas resp [] index correctas = correctas"
| "contar_correctas resp (p # ps) index correctas =
     contar_correctas resp ps (index + 1)
       (let respuestaEstudiante = opt_index resp index
        in if respuestaEstudiante \<noteq> JUndefined \<and> respuestaEstudiante = JNum (of_int (correcta p))
           then correctas + 1 else correctas)"

definition finish_multiple_choice :: "db \<Rightarrow> examAttempt \<Rightarrow> jsval \<Rightarrow> updateData \<Rightarrow> exn + updateData" where
  "finish_multiple_choice d attempt resp upd =
     (let upd1 = upd\<lparr>upd_respuestas := Some (or_else resp (JObj []))\<rparr>
      in case exam_findUnique d (Some (attempt_examId attempt)) of
           Inl e \<Rightarrow> Inl e
         | Inr None \<Rightarrow> Inr upd1
         | Inr (Some ex) \<Rightarrow>
             if preguntas ex \<noteq> [] then
               Inr (upd1\<lparr>upd_puntaje :=
                           Some (percentage (contar_correctas resp (preguntas ex) 0 0)
                                   (length (preguntas ex)))\<rparr>)
             else Inr upd1)"

subsection \<open>The handler\<close>

definition msg_finish_failed :: jstring where
  "msg_finish_failed = ascii ''Error finalizando intento de examen''"

definition finish_failed :: response where
  "finish_failed = Json 500 (JObj [(''error'', JStr msg_finish_failed)])"

definition finish_grade ::
  "service \<Rightarrow> call list \<Rightarrow> db \<Rightarrow> int \<Rightarrow> examAttempt \<Rightarrow> exam \<Rightarrow> jsval \<Rightarrow> updateData
     \<Rightarrow> (exn + (response + updateData)) \<times> call list" where
  "finish_grade svc h d userId attempt ex resp upd =
     (if tipo ex = ''programming'' then finish_programming svc h d userId attempt upd
      else if tipo ex = ''multiple_choice'' then
        (case finish_multiple_choice d attempt resp upd of
           Inl e \<Rightarrow> (Inl e, h)
         | Inr u \<Rightarrow> (Inr (Inr u), h))
      else (Inr (Inr upd), h))"

text \<open>\<^verbatim>\<open>const updateData = { finishedAt: new Date(), estado: "finalizado" }\<close>\<close>

definition initial_update :: "nat \<Rightarrow> updateData" where
  "initial_update now =
     \<lparr>upd_finishedAt = now, upd_estado = ''finalizado'', upd_codigoProgramacion = None,
      upd_puntaje = None, upd_testResults = None, upd_respuestas = None\<rparr>"

text \<open>
  The handler, for the authenticated student \<open>userId\<close>. \<open>now\<close> is \<^verbatim>\<open>new Date()\<close>. It
  gives the response, the database afterwards and the calls of the service.
\<close>

definition finish_route ::
  "(jsval \<Rightarrow> int option) \<Rightarrow> nat \<Rightarrow> service \<Rightarrow> call list \<Rightarrow> db \<Rightarrow> int \<Rightarrow> jstring \<Rightarrow> reqbody
     \<Rightarrow> response \<times> db \<times> call list" where
  "finish_route parseInt now svc h d userId attemptIdParam body =
     (let resp = field body ''respuestas''; codigoEnviado = field body ''codigoProgramacion''
      in case parseInt (JStr attemptIdParam) of
           None \<Rightarrow> (bad_request (ascii (''ID de intento inv'' @ [CHR 0xE1] @ ''lido'')), d, h)
         | Some attemptId \<Rightarrow>
             (case attempt_findUnique d attemptId of
                Inl e \<Rightarrow> (finish_failed, d, h)
              | Inr None \<Rightarrow> (Json 404 (JObj [(''error'', JStr (ascii ''Intento no encontrado''))]), d, h)
              | Inr (Some (attempt, ex)) \<Rightarrow>
                  if attempt_userId attempt \<noteq> userId
                    then (Json 403 (JObj [(''error'', JStr (ascii ''No autorizado''))]), d, h)
                  else if estado attempt \<noteq> ''en_progreso''
                    then (bad_request (ascii ''El intento ya fue finalizado''), d, h)
                  else
                    (case finish_grade svc h d userId attempt ex resp (initial_update now) of
                       (Inl e, h') \<Rightarrow> (finish_failed, d, h')
                     | (Inr (Inl r), h') \<Rightarrow> (r, d, h')
                     | (Inr (Inr u), h') \<Rightarrow>
                         (case examAttempt_update d attemptId u of
                            Inl e \<Rightarrow> (finish_failed, d, h')
                          | Inr (updated, d') \<Rightarrow> (Json 200 (attempt_json updated), d', h')))))"

section \<open>Vocabulary of the properties\<close>

text \<open>
  Both loops have one shape: run the cases in order, append the entry of each, count
  the passed ones, stop when the handling of a case throws.
\<close>

fun run_cases ::
  "(call list \<Rightarrow> jsval \<Rightarrow> (exn + (bool \<times> jsval)) \<times> call list) \<Rightarrow> jsval list \<Rightarrow> jsval list \<Rightarrow> nat
     \<Rightarrow> call list \<Rightarrow> (exn + (jsval list \<times> nat)) \<times> call list" where
  "run_cases f [] results passedTests h = (Inr (results, passedTests), h)"
| "run_cases f (testCase # rest) results passedTests h =
     (case f h testCase of
        (Inl e, h') \<Rightarrow> (Inl e, h')
      | (Inr (passed, entry), h') \<Rightarrow>
          run_cases f rest (results @ [entry]) (if passed then passedTests + 1 else passedTests) h')"

text \<open>The number of entries with \<^verbatim>\<open>passed: true\<close>.\<close>

definition passed_entries :: "jsval list \<Rightarrow> nat" where
  "passed_entries rs = length (filter (\<lambda>e. get_prop e ''passed'' = Inr (JBool True)) rs)"

text \<open>A property of a value that is not undefined or null.\<close>

definition prop_of :: "jsval \<Rightarrow> string \<Rightarrow> jsval" where
  "prop_of v k = (case get_prop v k of Inl e \<Rightarrow> JUndefined | Inr x \<Rightarrow> x)"

text \<open>
  The property names of an object as \<^verbatim>\<open>res.json\<close> sends it and as the JSON column stores
  it, in order: \<^verbatim>\<open>JSON.stringify\<close> leaves out a property whose value is undefined.
\<close>

fun json_fields :: "jsval \<Rightarrow> string list" where
  "json_fields (JObj kvs) = map fst (filter (\<lambda>kv. snd kv \<noteq> JUndefined) kvs)"
| "json_fields v = []"

text \<open>The call of \<^verbatim>\<open>executeCode\<close> that each route makes for a test case.\<close>

definition execute_call :: "jsval \<Rightarrow> jsval \<Rightarrow> jsval \<Rightarrow> call" where
  "execute_call code language testCase =
     ExecuteCode code language (route_options (or_else (prop_of testCase ''input'') (JStr [])))"

definition finish_call :: "jsval \<Rightarrow> jsval \<Rightarrow> jsval \<Rightarrow> call" where
  "finish_call code language testCase =
     ExecuteCode code language (finish_options (or_else (prop_of testCase ''input'') (JStr [])))"

text \<open>The same calls, in terms of the request and of the graded file.\<close>

definition request_call :: "reqbody \<Rightarrow> jsval \<Rightarrow> call" where
  "request_call body testCase = execute_call (field body ''code'') (field body ''language'') testCase"

definition grading_call :: "exam \<Rightarrow> examFile \<Rightarrow> jsval \<Rightarrow> call" where
  "grading_call ex mainFile testCase =
     finish_call (codigoParaEvaluar mainFile) (lenguajeProgramacion ex) testCase"

text \<open>
  A request to \<^verbatim>\<open>/execute\<close> that reaches the loop over its test cases \<open>tcs\<close>: it passes
  the validation, has no custom input, and \<^verbatim>\<open>testCases\<close> is a non-empty array.
\<close>

definition batch_request :: "reqbody \<Rightarrow> jsval list \<Rightarrow> bool" where
  "batch_request body tcs \<longleftrightarrow>
     truthy (field body ''code'') \<and> supported (field body ''language'') \<and>
     nullish (field body ''customInput'') \<and> field body ''testCases'' = JArr tcs \<and> tcs \<noteq> []"

text \<open>
  A finish request of the student \<open>userId\<close> on their own attempt, in progress, of a
  programming exam.
\<close>

definition programming_finish ::
  "(jsval \<Rightarrow> int option) \<Rightarrow> db \<Rightarrow> int \<Rightarrow> jstring \<Rightarrow> examAttempt \<Rightarrow> exam \<Rightarrow> bool" where
  "programming_finish parseInt d userId attemptIdParam attempt ex \<longleftrightarrow>
     parseInt (JStr attemptIdParam) = Some (attempt_id attempt) \<and>
     attempt_findUnique d (attempt_id attempt) = Inr (Some (attempt, ex)) \<and>
     attempt_userId attempt = userId \<and> estado attempt = ''en_progreso'' \<and>
     tipo ex = ''programming''"

text \<open>The saved main files of the attempt's student: what \<^verbatim>\<open>findFirst\<close> selects from.\<close>

definition main_files :: "db \<Rightarrow> int \<Rightarrow> examAttempt \<Rightarrow> exam \<Rightarrow> examFile list" where
  "main_files d userId attempt ex =
     examFile_where d (attempt_examId attempt) userId (mainFileName ex) ''manual''"

text \<open>Such a request that reaches the loop: the main file is saved, the exam has test cases.\<close>

definition graded_finish ::
  "(jsval \<Rightarrow> int option) \<Rightarrow> db \<Rightarrow> int \<Rightarrow> jstring \<Rightarrow> examAttempt \<Rightarrow> exam \<Rightarrow> examFile \<Rightarrow> jsval list \<Rightarrow> bool" where
  "graded_finish parseInt d userId attemptIdParam attempt ex mainFile tcs \<longleftrightarrow>
     programming_finish parseInt d userId attemptIdParam attempt ex \<and>
     examFile_findFirst d (attempt_examId attempt) userId (mainFileName ex) ''manual'' = Some mainFile \<and>
     testCases ex = JArr tcs \<and> tcs \<noteq> []"

text \<open>The \<^verbatim>\<open>updateData\<close> of a graded programming exam.\<close>

definition graded_update :: "nat \<Rightarrow> jsval \<Rightarrow> nat \<Rightarrow> nat \<Rightarrow> jsval list \<Rightarrow> updateData" where
  "graded_update now code testsPasados totalTests results =
     \<lparr>upd_finishedAt = now, upd_estado = ''finalizado'', upd_codigoProgramacion = Some code,
      upd_puntaje = Some (percentage testsPasados totalTests),
      upd_testResults = Some (JArr results), upd_respuestas = None\<rparr>"

text \<open>The table of attempts after the update of one row.\<close>

definition db_after :: "db \<Rightarrow> examAttempt \<Rightarrow> updateData \<Rightarrow> db" where
  "db_after d attempt u =
     d\<lparr>examAttempts :=
          map (\<lambda>b. if attempt_id b = attempt_id attempt then apply_update u b else b) (examAttempts d)\<rparr>"

subsection \<open>Service doubles and sample data, in the manner of the test suite\<close>

definition svc_returning :: "jsval \<Rightarrow> service" where
  "svc_returning r h c = Inr r"

definition svc_throwing :: "jstring \<Rightarrow> service" where
  "svc_throwing m h c = Inl (JsError m)"

text \<open>The \<open>n\<close>-th call (from 0) throws, the others resolve.\<close>

definition svc_throwing_at :: "nat \<Rightarrow> jstring \<Rightarrow> jsval \<Rightarrow> service" where
  "svc_throwing_at n m r h c = (if length h = n then Inl (JsError m) else Inr r)"

text \<open>A program that prints its input and exits with 0.\<close>

definition svc_echo :: service where
  "svc_echo h c =
     (case c of
        ExecuteCode code language opts \<Rightarrow>
          Inr (JObj [(''output'', prop_of opts ''input''), (''error'', JNull),
                     (''exitCode'', JNum 0), (''executionTime'', JNum 1)])
      | ValidateSyntax code language \<Rightarrow> Inr (JObj [(''valid'', JBool True), (''errors'', JArr [])]))"

definition sample_cases :: "jsval list" where
  "sample_cases =
     [JObj [(''input'', JStr (ascii ''a'')), (''expectedOutput'', JStr (ascii ''a''))],
      JObj [(''input'', JStr (ascii ''b'')), (''expectedOutput'', JStr (ascii ''c''))]]"

definition sample_body :: reqbody where
  "sample_body =
     [(''code'', JStr (ascii ''print(input())'')), (''language'', JStr (ascii ''python'')),
      (''testCases'', JArr sample_cases)]"

definition sample_exam :: exam where
  "sample_exam =
     \<lparr>exam_id = 1, tipo = ''programming'', lenguajeProgramacion = JStr (ascii ''python''),
      testCases = JArr sample_cases, preguntas = []\<rparr>"

definition sample_file :: examFile where
  "sample_file =
     \<lparr>file_examId = 1, file_userId = 3, filename = ''main.py'', version = ''manual'',
      content = JStr (ascii ''print(input())''), updatedAt = 20\<rparr>"

definition sample_attempt :: examAttempt where
  "sample_attempt =
     \<lparr>attempt_id = 7, attempt_userId = 3, attempt_examId = 1, estado = ''en_progreso'',
      finishedAt = None, codigoProgramacion = JNull, puntaje = None, testResults = JNull,
      respuestas = JObj []\<rparr>"

definition sample_db :: db where
  "sample_db =
     \<lparr>exams = [sample_exam],
      examFiles = [sample_file\<lparr>content := JStr (ascii ''pass''), updatedAt := 10\<rparr>, sample_file],
      examAttempts = [sample_attempt]\<rparr>"

text \<open>The same database with one saved main file, which is empty.\<close>

definition sample_db_empty_file :: db where
  "sample_db_empty_file = sample_db\<lparr>examFiles := [sample_file\<lparr>content := JStr []\<rparr>]\<rparr>"

text \<open>The same database with no saved file at all.\<close>

definition sample_db_no_files :: db where
  "sample_db_no_files = sample_db\<lparr>examFiles := []\<rparr>"

text \<open>
  The result of a run that prints U+FEFF, the letter \<^verbatim>\<open>a\<close> and a line feed, and exits with 0.
\<close>

definition padded_result :: jsval where
  "padded_result =
     JObj [(''output'', JStr ([0xFEFF] @ ascii ''a'' @ [0xA])), (''error'', JNull),
           (''exitCode'', JNum 0), (''executionTime'', JNum 1)]"

text \<open>A request with three test cases, of which the echoing program passes the first only.\<close>

definition three_cases :: "jsval list" where
  "three_cases =
     sample_cases @ [JObj [(''input'', JStr (ascii ''d'')), (''expectedOutput'', JStr (ascii ''e''))]]"

definition three_body :: reqbody where
  "three_body =
     [(''code'', JStr (ascii ''print(input())'')), (''language'', JStr (ascii ''python'')),
      (''testCases'', JArr three_cases)]"

text \<open>Three test cases, the second of which is \<^verbatim>\<open>null\<close>, and an exam that has them.\<close>

definition cases_with_null :: "jsval list" where
  "cases_with_null =
     [JObj [(''input'', JStr (ascii ''a'')), (''expectedOutput'', JStr (ascii ''a''))],
      JNull,
      JObj [(''input'', JStr (ascii ''b'')), (''expectedOutput'', JStr (ascii ''c''))]]"

definition sample_db_null_case :: db where
  "sample_db_null_case = sample_db\<lparr>exams := [sample_exam\<lparr>testCases := JArr cases_with_null\<rparr>]\<rparr>"

definition sample_parseInt :: "jsval \<Rightarrow> int option" where
  "sample_parseInt v = (if v = JStr (ascii ''7'') then Some 7 else None)"

section \<open>Strings and numbers\<close>

lemma ascii_eq_iff [simp]: "ascii s = ascii t \<longleftrightarrow> s = t"
  by (simp add: ascii_def inj_map_eq_map [OF inj_of_char])

lemma ascii_Nil [simp]: "ascii [] = []"
  by (simp add: ascii_def)

lemma ascii_eq_Nil_iff [simp]: "ascii s = [] \<longleftrightarrow> s = []"
  by (simp add: ascii_def)

lemma Nil_eq_ascii_iff [simp]: "[] = ascii s \<longleftrightarrow> s = []"
  by (auto simp add: ascii_def)

lemmas double_eval =
  percentage_def double_value_def double_times_def nearest_double_def round_div_def bitlen.simps
  Let_def

lemma percentage_samples:
  "percentage 0 2 = 0" "percentage 1 2 = 50" "percentage 1 1 = 100" "percentage 2 2 = 100"
  "percentage (Suc 0) 2 = 50" "percentage (Suc 0) (Suc 0) = 100"
  by (simp_all add: double_eval)

text \<open>Where the quotient is no double, or its product with 100 is none, the result is rounded.\<close>

lemma percentage_rounded:
  "percentage 11 20 = 55 + 1 / 2 ^ 47" "percentage 7 100 = 7 + 1 / 2 ^ 50"
  "percentage 57 100 = 57 - 1 / 2 ^ 47" "percentage 2 3 = 2345624805922133 / 2 ^ 45"
  by (simp_all add: double_eval)

text \<open>
  A product that lies halfway between two doubles goes to the one with the even
  significand. This takes counts beyond \<open>2 ^ 48\<close>: here \<open>100 * (2 ^ 52 + 8) / 64\<close> is
  \<open>100 * 2 ^ 46 + 12\<close> and a half.
\<close>

lemma percentage_tie:
  "percentage (2 ^ 52 + 8) (2 ^ 53) = (100 * 2 ^ 46 + 12) / 2 ^ 47"
  by (simp add: double_eval)

section \<open>The loops\<close>

lemma execute_loop_run_cases:
  "execute_loop svc code language tcs rs p h = run_cases (\<lambda>h. execute_case svc h code language) tcs rs p h"
  by (induction tcs arbitrary: rs p h) (auto split: prod.splits sum.splits)

lemma finish_loop_run_cases:
  "finish_loop svc code language tcs rs p h = run_cases (\<lambda>h. finish_case svc h code language) tcs rs p h"
  by (induction tcs arbitrary: rs p h) (auto split: prod.splits sum.splits)

lemma passed_entries_Cons:
  "passed_entries (e # rs) = (if get_prop e ''passed'' = Inr (JBool True) then 1 else 0) + passed_entries rs"
  by (simp add: passed_entries_def)

lemma run_cases_returned:
  assumes flag: "\<And>h tc b e h'. f h tc = (Inr (b, e), h') \<Longrightarrow> get_prop e ''passed'' = Inr (JBool b)"
  shows "run_cases f tcs acc p h = (Inr (rs', q), h') \<Longrightarrow>
         \<exists>rs. rs' = acc @ rs \<and> length rs = length tcs \<and> q = p + passed_entries rs \<and>
              (\<forall>i<length tcs. \<exists>b hi hi'. f hi (tcs ! i) = (Inr (b, rs ! i), hi'))"
proof (induction tcs arbitrary: acc p h)
  case Nil
  then show ?case by (simp add: passed_entries_def)
next
  case (Cons tc rest)
  from Cons.prems obtain b e h1 where step: "f h tc = (Inr (b, e), h1)"
    and loop: "run_cases f rest (acc @ [e]) (if b then p + 1 else p) h1 = (Inr (rs', q), h')"
    by (auto split: prod.splits sum.splits)
  from Cons.IH [OF loop] obtain rs0 where
    r0: "rs' = (acc @ [e]) @ rs0" "length rs0 = length rest"
        "q = (if b then p + 1 else p) + passed_entries rs0"
    and nth0: "\<forall>i<length rest. \<exists>b hi hi'. f hi (rest ! i) = (Inr (b, rs0 ! i), hi')"
    by blast
  have pf: "get_prop e ''passed'' = Inr (JBool b)" using flag [OF step] .
  have "\<forall>i<length (tc # rest). \<exists>b hi hi'. f hi ((tc # rest) ! i) = (Inr (b, (e # rs0) ! i), hi')"
  proof (intro allI impI)
    fix i assume "i < length (tc # rest)"
    then show "\<exists>b hi hi'. f hi ((tc # rest) ! i) = (Inr (b, (e # rs0) ! i), hi')"
      using step nth0 by (cases i) auto
  qed
  moreover have "q = p + passed_entries (e # rs0)"
    using r0(3) pf by (simp add: passed_entries_Cons)
  ultimately show ?case using r0 by (intro exI [of _ "e # rs0"]) simp
qed

lemma run_cases_total:
  assumes ok: "\<And>h tc. tc \<in> set tcs \<Longrightarrow> \<exists>r. f h tc = (Inr r, h @ [g tc])"
  shows "\<exists>rs q. run_cases f tcs acc p h = (Inr (acc @ rs, q), h @ map g tcs) \<and>
           length rs = length tcs \<and>
           (\<forall>i<length tcs. \<exists>b. f (h @ map g (take i tcs)) (tcs ! i) = (Inr (b, rs ! i), h @ map g (take (Suc i) tcs)))"
  using ok
proof (induction tcs arbitrary: acc p h)
  case Nil
  then show ?case by simp
next
  case (Cons tc rest)
  from Cons.prems [of tc h] obtain b e where step: "f h tc = (Inr (b, e), h @ [g tc])"
    by auto
  have "\<And>h tc. tc \<in> set rest \<Longrightarrow> \<exists>r. f h tc = (Inr r, h @ [g tc])"
    using Cons.prems by simp
  from Cons.IH [OF this, of "acc @ [e]" "if b then p + 1 else p" "h @ [g tc]"]
  obtain rs0 q where
    loop: "run_cases f rest (acc @ [e]) (if b then p + 1 else p) (h @ [g tc]) =
             (Inr ((acc @ [e]) @ rs0, q), (h @ [g tc]) @ map g rest)"
    and len: "length rs0 = length rest"
    and nth0: "\<forall>i<length rest. \<exists>b. f ((h @ [g tc]) @ map g (take i rest)) (rest ! i) =
                 (Inr (b, rs0 ! i), (h @ [g tc]) @ map g (take (Suc i) rest))"
    by blast
  have "\<forall>i<length (tc # rest). \<exists>b. f (h @ map g (take i (tc # rest))) ((tc # rest) ! i) =
          (Inr (b, (e # rs0) ! i), h @ map g (take (Suc i) (tc # rest)))"
  proof (intro allI impI)
    fix i assume "i < length (tc # rest)"
    then show "\<exists>b. f (h @ map g (take i (tc # rest))) ((tc # rest) ! i) =
          (Inr (b, (e # rs0) ! i), h @ map g (take (Suc i) (tc # rest)))"
      using step nth0 by (cases i) auto
  qed
  then show ?case using step loop len
    by (intro exI [of _ "e # rs0"] exI [of _ q]) simp
qed

lemma bind_exn_Inr_iff: "bind_exn m f = Inr y \<longleftrightarrow> (\<exists>x. m = Inr x \<and> f x = Inr y)"
  by (cases m) auto

lemma bind_exn_Inl_iff: "bind_exn m f = Inl e \<longleftrightarrow> m = Inl e \<or> (\<exists>x. m = Inr x \<and> f x = Inl e)"
  by (cases m) auto

lemma get_prop_total: "\<not> nullish v \<Longrightarrow> get_prop v k = Inr (prop_of v k)"
  by (cases v) (auto simp: prop_of_def)

lemma get_prop_Inr_D: "get_prop v k = Inr x \<Longrightarrow> \<not> nullish v \<and> x = prop_of v k"
  by (cases v) (auto simp: prop_of_def)

lemma execute_try_entry:
  assumes "execute_try svc h code language tc = (Inr (b, e), h')"
  shows "\<exists>actual err t.
           e = JObj [(''input'', prop_of tc ''input''), (''expectedOutput'', prop_of tc ''expectedOutput''),
                     (''actualOutput'', actual), (''passed'', JBool b),
                     (''error'', err), (''executionTime'', t)]
           \<and> \<not> nullish tc \<and> h' = h @ [execute_call code language tc]"
  using assms
  by (auto simp: execute_try_def execute_entry_def execute_call_def bind_exn_Inr_iff
           dest!: get_prop_Inr_D split: sum.splits prod.splits)

lemma execute_try_history:
  "snd (execute_try svc h code language tc) =
     (if nullish tc then h else h @ [execute_call code language tc])"
  by (cases tc) (auto simp: execute_try_def execute_call_def prop_of_def split: sum.splits prod.splits)

lemma execute_catch_entry:
  assumes "execute_catch tc err = Inr e"
  shows "e = JObj [(''input'', prop_of tc ''input''), (''expectedOutput'', prop_of tc ''expectedOutput''),
                   (''passed'', JBool False),
                   (''error'', JStr (if message err = [] then ascii ''Error desconocido'' else message err))]
         \<and> \<not> nullish tc"
  using assms
  by (auto simp: execute_catch_def bind_exn_Inr_iff dest!: get_prop_Inr_D)

lemma execute_catch_total:
  "\<not> nullish tc \<Longrightarrow> \<exists>e. execute_catch tc err = Inr e"
  by (simp add: execute_catch_def get_prop_total)

lemma execute_case_cases:
  assumes "execute_case svc h code language tc = (Inr (b, e), h')"
  shows "execute_try svc h code language tc = (Inr (b, e), h') \<or>
         (\<exists>err. execute_try svc h code language tc = (Inl err, h') \<and> execute_catch tc err = Inr e \<and> b = False)"
  using assms by (auto simp: execute_case_def split: sum.splits prod.splits)

lemma execute_case_flag:
  assumes "execute_case svc h code language tc = (Inr (b, e), h')"
  shows "get_prop e ''passed'' = Inr (JBool b)"
  using execute_case_cases [OF assms]
  by (auto dest!: execute_try_entry execute_catch_entry)

lemma execute_case_total:
  assumes "\<not> nullish tc"
  shows "\<exists>r. execute_case svc h code language tc = (Inr r, h @ [execute_call code language tc])"
proof (cases "execute_try svc h code language tc")
  case (Pair res h1)
  have h1: "h1 = h @ [execute_call code language tc]"
    using execute_try_history [of svc h code language tc] Pair assms by simp
  show ?thesis
  proof (cases res)
    case (Inl err)
    from execute_catch_total [OF assms, of err] obtain e where "execute_catch tc err = Inr e" ..
    then show ?thesis using Pair Inl h1 by (auto simp: execute_case_def)
  next
    case (Inr r)
    then show ?thesis using Pair h1 by (simp add: execute_case_def)
  qed
qed

lemma execute_case_thrown:
  assumes "\<not> nullish tc" and "svc h (execute_call code language tc) = Inl err"
  shows "execute_case svc h code language tc =
           (Inr (False, JObj [(''input'', prop_of tc ''input''), (''expectedOutput'', prop_of tc ''expectedOutput''),
                   (''passed'', JBool False),
                   (''error'', JStr (if message err = [] then ascii ''Error desconocido'' else message err))]),
            h @ [execute_call code language tc])"
  using assms
  by (simp add: execute_case_def execute_try_def execute_catch_def get_prop_total execute_call_def)

lemma finish_try_entry:
  assumes "finish_try svc h code language tc = (Inr (b, e), h')"
  shows "\<exists>expected actual err t.
           e = JObj [(''description'', or_else (prop_of tc ''description'') (JStr msg_sin_descripcion)),
                     (''passed'', JBool b), (''expected'', expected), (''actual'', actual),
                     (''error'', err), (''executionTime'', t)]
           \<and> \<not> nullish tc \<and> h' = h @ [finish_call code language tc]"
  using assms
  by (auto simp: finish_try_def finish_entry_def finish_call_def bind_exn_Inr_iff
           dest!: get_prop_Inr_D split: sum.splits prod.splits)

lemma finish_try_history:
  "snd (finish_try svc h code language tc) =
     (if nullish tc then h else h @ [finish_call code language tc])"
  by (cases tc) (auto simp: finish_try_def finish_call_def prop_of_def split: sum.splits prod.splits)

lemma finish_catch_entry:
  assumes "finish_catch tc err = Inr e"
  shows "e = JObj [(''description'', or_else (prop_of tc ''description'') (JStr msg_sin_descripcion)),
                   (''passed'', JBool False), (''expected'', prop_of tc ''expectedOutput''),
                   (''actual'', JStr []), (''error'', JStr (message err)),
                   (''executionTime'', JNum 0)]
         \<and> \<not> nullish tc"
  using assms
  by (auto simp: finish_catch_def bind_exn_Inr_iff dest!: get_prop_Inr_D)

lemma finish_catch_total:
  "\<not> nullish tc \<Longrightarrow> \<exists>e. finish_catch tc err = Inr e"
  by (simp add: finish_catch_def get_prop_total)

lemma finish_case_cases:
  assumes "finish_case svc h code language tc = (Inr (b, e), h')"
  shows "finish_try svc h code language tc = (Inr (b, e), h') \<or>
         (\<exists>err. finish_try svc h code language tc = (Inl err, h') \<and> finish_catch tc err = Inr e \<and> b = False)"
  using assms by (auto simp: finish_case_def split: sum.splits prod.splits)

lemma finish_case_flag:
  assumes "finish_case svc h code language tc = (Inr (b, e), h')"
  shows "get_prop e ''passed'' = Inr (JBool b)"
  using finish_case_cases [OF assms]
  by (auto dest!: finish_try_entry finish_catch_entry)

lemma finish_case_total:
  assumes "\<not> nullish tc"
  shows "\<exists>r. finish_case svc h code language tc = (Inr r, h @ [finish_call code language tc])"
proof (cases "finish_try svc h code language tc")
  case (Pair res h1)
  have h1: "h1 = h @ [finish_call code language tc]"
    using finish_try_history [of svc h code language tc] Pair assms by simp
  show ?thesis
  proof (cases res)
    case (Inl err)
    from finish_catch_total [OF assms, of err] obtain e where "finish_catch tc err = Inr e" ..
    then show ?thesis using Pair Inl h1 by (auto simp: finish_case_def)
  next
    case (Inr r)
    then show ?thesis using Pair h1 by (simp add: finish_case_def)
  qed
qed

lemma finish_case_thrown:
  assumes "\<not> nullish tc" and "svc h (finish_call code language tc) = Inl err"
  shows "finish_case svc h code language tc =
           (Inr (False, JObj [(''description'', or_else (prop_of tc ''description'') (JStr msg_sin_descripcion)),
                   (''passed'', JBool False), (''expected'', prop_of tc ''expectedOutput''),
                   (''actual'', JStr []), (''error'', JStr (message err)),
                   (''executionTime'', JNum 0)]),
            h @ [finish_call code language tc])"
  using assms
  by (simp add: finish_case_def finish_try_def finish_catch_def get_prop_total finish_call_def)

lemma run_cases_total_count:
  assumes ok: "\<And>h tc. tc \<in> set tcs \<Longrightarrow> \<exists>r. f h tc = (Inr r, h @ [g tc])"
      and flag: "\<And>h tc b e h'. f h tc = (Inr (b, e), h') \<Longrightarrow> get_prop e ''passed'' = Inr (JBool b)"
  shows "\<exists>rs. run_cases f tcs acc p h = (Inr (acc @ rs, p + passed_entries rs), h @ map g tcs) \<and>
           length rs = length tcs \<and>
           (\<forall>i<length tcs. \<exists>b. f (h @ map g (take i tcs)) (tcs ! i) = (Inr (b, rs ! i), h @ map g (take (Suc i) tcs)))"
proof -
  from run_cases_total [of tcs f g acc p h, OF ok] obtain rs q where
    run: "run_cases f tcs acc p h = (Inr (acc @ rs, q), h @ map g tcs)"
    and rest: "length rs = length tcs"
      "\<forall>i<length tcs. \<exists>b. f (h @ map g (take i tcs)) (tcs ! i) = (Inr (b, rs ! i), h @ map g (take (Suc i) tcs))"
    by blast
  from run_cases_returned [of f tcs acc p h "acc @ rs" q, OF flag run]
  have "q = p + passed_entries rs" by auto
  with run rest show ?thesis by blast
qed

lemma run_cases_returned_cases:
  assumes "run_cases f tcs acc p h = (Inr (rs', q), h')" and "tc \<in> set tcs"
  shows "\<exists>r hi hi'. f hi tc = (Inr r, hi')"
  using assms
proof (induction tcs arbitrary: acc p h)
  case Nil
  then show ?case by simp
next
  case (Cons t rest)
  from Cons.prems(1) obtain b e h1 where step: "f h t = (Inr (b, e), h1)"
    and loop: "run_cases f rest (acc @ [e]) (if b then p + 1 else p) h1 = (Inr (rs', q), h')"
    by (auto split: prod.splits sum.splits)
  show ?case
  proof (cases "tc = t")
    case True
    then show ?thesis using step by blast
  next
    case False
    then have "tc \<in> set rest" using Cons.prems(2) by simp
    from Cons.IH [OF loop this] show ?thesis .
  qed
qed

lemma execute_case_Inr_not_nullish:
  "execute_case svc h code language tc = (Inr r, h') \<Longrightarrow> \<not> nullish tc"
  by (cases r) (auto dest!: execute_case_cases execute_try_entry execute_catch_entry)

lemma finish_case_Inr_not_nullish:
  "finish_case svc h code language tc = (Inr r, h') \<Longrightarrow> \<not> nullish tc"
  by (cases r) (auto dest!: finish_case_cases finish_try_entry finish_catch_entry)

lemma execute_loop_total:
  assumes wf: "\<forall>tc\<in>set tcs. \<not> nullish tc"
  shows "\<exists>rs. execute_loop svc code language tcs [] 0 h =
                 (Inr (rs, passed_entries rs), h @ map (execute_call code language) tcs) \<and>
           length rs = length tcs \<and>
           (\<forall>i<length tcs. \<exists>b. execute_case svc (h @ map (execute_call code language) (take i tcs)) code language (tcs ! i) =
                (Inr (b, rs ! i), h @ map (execute_call code language) (take (Suc i) tcs)))"
  using run_cases_total_count [of tcs "\<lambda>h. execute_case svc h code language" "execute_call code language" "[]" 0 h]
    wf execute_case_total [of _ svc _ code language] execute_case_flag [of svc _ code language]
  unfolding execute_loop_run_cases by auto

lemma execute_loop_returned_wf:
  assumes "execute_loop svc code language tcs [] 0 h = (Inr r, h')"
  shows "\<forall>tc\<in>set tcs. \<not> nullish tc"
proof
  fix tc assume "tc \<in> set tcs"
  from assms obtain rs q where "run_cases (\<lambda>h. execute_case svc h code language) tcs [] 0 h = (Inr (rs, q), h')"
    unfolding execute_loop_run_cases by (cases r) auto
  from run_cases_returned_cases [OF this \<open>tc \<in> set tcs\<close>]
  show "\<not> nullish tc" using execute_case_Inr_not_nullish by blast
qed

lemma finish_loop_total:
  assumes wf: "\<forall>tc\<in>set tcs. \<not> nullish tc"
  shows "\<exists>rs. finish_loop svc code language tcs [] 0 h =
                 (Inr (rs, passed_entries rs), h @ map (finish_call code language) tcs) \<and>
           length rs = length tcs \<and>
           (\<forall>i<length tcs. \<exists>b. finish_case svc (h @ map (finish_call code language) (take i tcs)) code language (tcs ! i) =
                (Inr (b, rs ! i), h @ map (finish_call code language) (take (Suc i) tcs)))"
  using run_cases_total_count [of tcs "\<lambda>h. finish_case svc h code language" "finish_call code language" "[]" 0 h]
    wf finish_case_total [of _ svc _ code language] finish_case_flag [of svc _ code language]
  unfolding finish_loop_run_cases by auto

lemma finish_loop_returned_wf:
  assumes "finish_loop svc code language tcs [] 0 h = (Inr r, h')"
  shows "\<forall>tc\<in>set tcs. \<not> nullish tc"
proof
  fix tc assume "tc \<in> set tcs"
  from assms obtain rs q where "run_cases (\<lambda>h. finish_case svc h code language) tcs [] 0 h = (Inr (rs, q), h')"
    unfolding finish_loop_run_cases by (cases r) auto
  from run_cases_returned_cases [OF this \<open>tc \<in> set tcs\<close>]
  show "\<not> nullish tc" using finish_case_Inr_not_nullish by blast
qed

section \<open>The routes around the loops\<close>

lemma nullish_iff: "nullish v \<longleftrightarrow> v = JUndefined \<or> v = JNull"
  by (cases v) auto

lemma supported_truthy: "supported l \<Longrightarrow> truthy l"
  by auto

lemma execute_route_batch:
  assumes "batch_request body tcs"
  shows "execute_route svc h body =
           execute_batch svc h (field body ''code'') (field body ''language'') tcs"
proof -
  from assms have c: "truthy (field body ''code'')" and s: "supported (field body ''language'')"
    and n: "field body ''customInput'' = JUndefined \<or> field body ''customInput'' = JNull"
    and t: "field body ''testCases'' = JArr tcs" "tcs \<noteq> []"
    by (simp_all add: batch_request_def nullish_iff del: field.simps supported.simps)
  from s have l: "truthy (field body ''language'')" by (rule supported_truthy)
  show ?thesis
    unfolding execute_route_def Let_def using c s l n t
    by (auto simp del: field.simps supported.simps)
qed

lemma execute_batch_total:
  assumes "\<forall>tc\<in>set tcs. \<not> nullish tc"
  shows "\<exists>rs. execute_batch svc h code language tcs =
                 (batch_response rs (passed_entries rs) (length tcs),
                  h @ map (execute_call code language) tcs) \<and>
           length rs = length tcs \<and>
           (\<forall>i<length tcs. \<exists>b.
              execute_case svc (h @ map (execute_call code language) (take i tcs)) code language (tcs ! i) =
                (Inr (b, rs ! i), h @ map (execute_call code language) (take (Suc i) tcs)))"
proof -
  from execute_loop_total [OF assms, of svc code language h] obtain rs where
    loop: "execute_loop svc code language tcs [] 0 h =
             (Inr (rs, passed_entries rs), h @ map (execute_call code language) tcs)"
    and rest: "length rs = length tcs"
      "\<forall>i<length tcs. \<exists>b.
              execute_case svc (h @ map (execute_call code language) (take i tcs)) code language (tcs ! i) =
                (Inr (b, rs ! i), h @ map (execute_call code language) (take (Suc i) tcs))"
    by blast
  have "execute_batch svc h code language tcs =
          (batch_response rs (passed_entries rs) (length tcs), h @ map (execute_call code language) tcs)"
    by (simp add: execute_batch_def loop)
  with rest show ?thesis by blast
qed

lemma execute_batch_200_wf:
  assumes "execute_batch svc h code language tcs = (Json 200 p, h')"
  shows "\<forall>tc\<in>set tcs. \<not> nullish tc"
proof (cases "execute_loop svc code language tcs [] 0 h")
  case (Pair res h1)
  show ?thesis
  proof (cases res)
    case (Inl e)
    with Pair assms show ?thesis by (simp add: execute_batch_def)
  next
    case (Inr r)
    with Pair show ?thesis using execute_loop_returned_wf by blast
  qed
qed

lemma attempt_findUnique_SomeD:
  assumes "attempt_findUnique d i = Inr (Some (a, ex))"
  shows "find (\<lambda>b. attempt_id b = i) (examAttempts d) = Some a"
    and "exam_findUnique d (Some (attempt_examId a)) = Inr (Some ex)"
  using assms by (auto simp: attempt_findUnique_def split: option.splits)

lemma finish_route_programming:
  assumes "programming_finish parseInt d userId param attempt ex"
  shows "finish_route parseInt now svc h d userId param body =
     (case finish_programming svc h d userId attempt (initial_update now) of
        (Inl e, h') \<Rightarrow> (finish_failed, d, h')
      | (Inr (Inl r), h') \<Rightarrow> (r, d, h')
      | (Inr (Inr u), h') \<Rightarrow>
          (Json 200 (attempt_json (apply_update u attempt)), db_after d attempt u, h'))"
proof -
  from assms have p: "parseInt (JStr param) = Some (attempt_id attempt)"
    and f: "attempt_findUnique d (attempt_id attempt) = Inr (Some (attempt, ex))"
    and u: "attempt_userId attempt = userId" and e: "estado attempt = ''en_progreso''"
    and t: "tipo ex = ''programming''"
    by (simp_all add: programming_finish_def)
  note fa = attempt_findUnique_SomeD(1) [OF f]
  show ?thesis
    unfolding finish_route_def Let_def
    by (simp add: p f u e t fa finish_grade_def examAttempt_update_def db_after_def
          split: prod.splits sum.splits del: field.simps)
qed

lemma finish_programming_no_file:
  assumes "programming_finish parseInt d userId param attempt ex"
      and "main_files d userId attempt ex = []"
  shows "finish_programming svc h d userId attempt upd =
           (Inr (Inl (bad_request (msg_must_save (mainFileName ex)))), h)"
proof -
  from assms(1) have f: "attempt_findUnique d (attempt_id attempt) = Inr (Some (attempt, ex))"
    by (simp add: programming_finish_def)
  note fe = attempt_findUnique_SomeD(2) [OF f]
  from assms(2) have "examFile_findFirst d (attempt_examId attempt) userId (mainFileName ex) ''manual'' = None"
    by (simp add: examFile_findFirst_def main_files_def)
  then show ?thesis
    unfolding finish_programming_def by (simp add: fe del: exam_findUnique.simps)
qed

lemma finish_programming_graded:
  assumes "graded_finish parseInt d userId param attempt ex mainFile tcs"
  shows "finish_programming svc h d userId attempt (initial_update now) =
     (case finish_loop svc (codigoParaEvaluar mainFile) (lenguajeProgramacion ex) tcs [] 0 h of
        (Inl e, h') \<Rightarrow> (Inl e, h')
      | (Inr (rs, q), h') \<Rightarrow>
          (Inr (Inr (graded_update now (codigoParaEvaluar mainFile) q (length tcs) rs)), h'))"
proof -
  from assms have f: "attempt_findUnique d (attempt_id attempt) = Inr (Some (attempt, ex))"
    and m: "examFile_findFirst d (attempt_examId attempt) userId (mainFileName ex) ''manual'' = Some mainFile"
    and t: "testCases ex = JArr tcs" "tcs \<noteq> []"
    by (simp_all add: graded_finish_def programming_finish_def)
  note fe = attempt_findUnique_SomeD(2) [OF f]
  show ?thesis
    unfolding finish_programming_def Let_def
    by (simp add: fe m t initial_update_def graded_update_def
          split: prod.splits sum.splits del: exam_findUnique.simps)
qed

lemma finish_route_graded:
  assumes "graded_finish parseInt d userId param attempt ex mainFile tcs"
  shows "finish_route parseInt now svc h d userId param body =
     (case finish_loop svc (codigoParaEvaluar mainFile) (lenguajeProgramacion ex) tcs [] 0 h of
        (Inl e, h') \<Rightarrow> (finish_failed, d, h')
      | (Inr (rs, q), h') \<Rightarrow>
          (Json 200 (attempt_json (apply_update
               (graded_update now (codigoParaEvaluar mainFile) q (length tcs) rs) attempt)),
           db_after d attempt (graded_update now (codigoParaEvaluar mainFile) q (length tcs) rs), h'))"
proof -
  from assms have pf: "programming_finish parseInt d userId param attempt ex"
    by (simp add: graded_finish_def)
  show ?thesis
    unfolding finish_route_programming [OF pf] finish_programming_graded [OF assms]
    by (simp split: prod.splits sum.splits)
qed

lemma finish_route_graded_total:
  assumes g: "graded_finish parseInt d userId param attempt ex mainFile tcs"
      and wf: "\<forall>tc\<in>set tcs. \<not> nullish tc"
  shows "\<exists>rs. finish_route parseInt now svc h d userId param body =
             (Json 200 (attempt_json (apply_update
                  (graded_update now (codigoParaEvaluar mainFile) (passed_entries rs) (length tcs) rs) attempt)),
              db_after d attempt
                  (graded_update now (codigoParaEvaluar mainFile) (passed_entries rs) (length tcs) rs),
              h @ map (finish_call (codigoParaEvaluar mainFile) (lenguajeProgramacion ex)) tcs) \<and>
           length rs = length tcs \<and>
           (\<forall>i<length tcs. \<exists>b.
              finish_case svc (h @ map (finish_call (codigoParaEvaluar mainFile) (lenguajeProgramacion ex)) (take i tcs))
                  (codigoParaEvaluar mainFile) (lenguajeProgramacion ex) (tcs ! i) =
                (Inr (b, rs ! i),
                 h @ map (finish_call (codigoParaEvaluar mainFile) (lenguajeProgramacion ex)) (take (Suc i) tcs)))"
proof -
  from finish_loop_total [OF wf, of svc "codigoParaEvaluar mainFile" "lenguajeProgramacion ex" h]
  obtain rs where
    loop: "finish_loop svc (codigoParaEvaluar mainFile) (lenguajeProgramacion ex) tcs [] 0 h =
             (Inr (rs, passed_entries rs),
              h @ map (finish_call (codigoParaEvaluar mainFile) (lenguajeProgramacion ex)) tcs)"
    and rest: "length rs = length tcs"
      "\<forall>i<length tcs. \<exists>b.
              finish_case svc (h @ map (finish_call (codigoParaEvaluar mainFile) (lenguajeProgramacion ex)) (take i tcs))
                  (codigoParaEvaluar mainFile) (lenguajeProgramacion ex) (tcs ! i) =
                (Inr (b, rs ! i),
                 h @ map (finish_call (codigoParaEvaluar mainFile) (lenguajeProgramacion ex)) (take (Suc i) tcs))"
    by blast
  have "finish_route parseInt now svc h d userId param body =
             (Json 200 (attempt_json (apply_update
                  (graded_update now (codigoParaEvaluar mainFile) (passed_entries rs) (length tcs) rs) attempt)),
              db_after d attempt
                  (graded_update now (codigoParaEvaluar mainFile) (passed_entries rs) (length tcs) rs),
              h @ map (finish_call (codigoParaEvaluar mainFile) (lenguajeProgramacion ex)) tcs)"
    by (simp add: finish_route_graded [OF g] loop)
  with rest show ?thesis by blast
qed

lemma finish_route_graded_200_wf:
  assumes g: "graded_finish parseInt d userId param attempt ex mainFile tcs"
      and ok: "finish_route parseInt now svc h d userId param body = (Json 200 p, d', h')"
  shows "\<forall>tc\<in>set tcs. \<not> nullish tc"
proof (cases "finish_loop svc (codigoParaEvaluar mainFile) (lenguajeProgramacion ex) tcs [] 0 h")
  case (Pair res h1)
  show ?thesis
  proof (cases res)
    case (Inl e)
    with Pair ok show ?thesis by (simp add: finish_route_graded [OF g] finish_failed_def)
  next
    case (Inr r)
    with Pair show ?thesis using finish_loop_returned_wf by blast
  qed
qed

section \<open>Trimming\<close>

lemma trim_right_dropWhile:
  "rev (dropWhile P (rev (dropWhile P s))) = dropWhile P (rev (dropWhile P (rev s)))"
proof (induction s)
  case Nil
  then show ?case by simp
next
  case (Cons x xs)
  show ?case
  proof (cases "P x")
    case False
    then show ?thesis by (simp add: dropWhile_append)
  next
    case True
    show ?thesis
    proof (cases "\<forall>y\<in>set xs. P y")
      case all: True
      with True have A: "\<forall>y\<in>set (x # xs). P y" by simp
      then have 1: "dropWhile P (x # xs) = []"
        by (simp only: dropWhile_eq_Nil_conv)
      from A have "\<forall>y\<in>set (rev (x # xs)). P y" by (simp only: set_rev)
      then have 2: "dropWhile P (rev (x # xs)) = []"
        by (simp only: dropWhile_eq_Nil_conv)
      show ?thesis unfolding 1 2 by simp
    next
      case False
      then have "dropWhile P (rev xs @ [x]) = dropWhile P (rev xs) @ [x]"
        by (simp add: dropWhile_append)
      then show ?thesis using True Cons.IH by simp
    qed
  qed
qed

lemma js_trim_left: "\<forall>c\<in>set l. js_space c \<Longrightarrow> js_trim (l @ s) = js_trim s"
  by (simp add: dropWhile_append2 del: js_space.simps)

lemma js_trim_right:
  assumes "\<forall>c\<in>set r. js_space c"
  shows "js_trim (s @ r) = js_trim s"
proof -
  have "js_trim (s @ r) = dropWhile js_space (rev (dropWhile js_space (rev r @ rev s)))"
    by (simp add: trim_right_dropWhile del: js_space.simps)
  also have "dropWhile js_space (rev r @ rev s) = dropWhile js_space (rev s)"
    using assms by (intro dropWhile_append2) simp
  finally show ?thesis by (simp add: trim_right_dropWhile del: js_space.simps)
qed

lemma js_trim_edges:
  assumes "\<forall>c\<in>set (l @ r). js_space c"
  shows "js_trim (l @ s @ r) = js_trim s"
proof -
  from assms have l: "\<forall>c\<in>set l. js_space c" and r: "\<forall>c\<in>set r. js_space c" by auto
  show ?thesis using js_trim_left [OF l] js_trim_right [OF r] by simp
qed

lemma js_trim_fixed:
  assumes "s = [] \<or> (\<not> js_space (hd s) \<and> \<not> js_space (last s))"
  shows "js_trim s = s"
proof (cases "s = []")
  case True
  then show ?thesis by simp
next
  case False
  with assms have h: "\<not> js_space (hd s)" and l: "\<not> js_space (hd (rev s))"
    by (simp_all only: hd_rev) simp_all
  from h have 1: "dropWhile js_space s = s"
    by (simp only: dropWhile_eq_self_iff) simp
  from l have 2: "dropWhile js_space (rev s) = rev s"
    by (simp only: dropWhile_eq_self_iff) simp
  show ?thesis unfolding js_trim.simps 1 2 by simp
qed

lemma trim_or_empty_JStr: "trim_or_empty r (JStr s) = Inr (js_trim s)"
  by simp

section \<open>What a returned batch looks like\<close>

lemma execute_case_fields:
  assumes "execute_case svc h code language tc = (Inr (b, e), h')"
  shows "get_prop e ''input'' = get_prop tc ''input''"
    and "get_prop e ''expectedOutput'' = get_prop tc ''expectedOutput''"
  using execute_case_cases [OF assms]
  by (auto dest!: execute_try_entry execute_catch_entry simp: get_prop_total)

lemma finish_case_fields:
  assumes "finish_case svc h code language tc = (Inr (b, e), h')"
  shows "get_prop e ''description'' = Inr (or_else (prop_of tc ''description'') (JStr msg_sin_descripcion))"
  using finish_case_cases [OF assms]
  by (auto dest!: finish_try_entry finish_catch_entry)

text \<open>
  A test case that is \<^verbatim>\<open>null\<close> is the one thing that ends a loop early: reading its
  \<^verbatim>\<open>input\<close> throws in the \<^verbatim>\<open>try\<close> block and again in the \<^verbatim>\<open>catch\<close> block, before the
  service is called.
\<close>

lemma null_case_ends_loop:
  assumes "nullish tc"
  shows "\<exists>e. execute_case svc h code language tc = (Inl e, h)"
    and "\<exists>e. finish_case svc h code language tc = (Inl e, h)"
  using assms
  by (cases tc; simp add: execute_case_def execute_try_def execute_catch_def
        finish_case_def finish_try_def finish_catch_def)+

text \<open>
  A \<^verbatim>\<open>TypeError\<close> raised inside the \<^verbatim>\<open>try\<close> block is recorded like a throw of the
  service: an output that is a number has no \<^verbatim>\<open>trim\<close>.
\<close>

lemma non_string_output_recorded:
  "fst (execute_case (svc_returning (JObj [(''output'', JNum 5)])) h code language
          (JObj [(''input'', JStr (ascii ''a'')), (''expectedOutput'', JStr (ascii ''a''))])) =
     Inr (False, JObj [(''input'', JStr (ascii ''a'')), (''expectedOutput'', JStr (ascii ''a'')),
                       (''passed'', JBool False),
                       (''error'', JStr (ascii ''result.output?.trim is not a function''))])"
  "fst (finish_case (svc_returning (JObj [(''output'', JNum 5)])) h code language
          (JObj [(''input'', JStr (ascii ''a'')), (''expectedOutput'', JStr (ascii ''a''))])) =
     Inr (False, JObj [(''description'', JStr msg_sin_descripcion), (''passed'', JBool False),
                       (''expected'', JStr (ascii ''a'')), (''actual'', JStr []),
                       (''error'', JStr (ascii ''(result.output || \"\").trim is not a function'')),
                       (''executionTime'', JNum 0)])"
  by (simp_all add: execute_case_def execute_try_def execute_entry_def execute_passed_def
        execute_catch_def finish_case_def finish_try_def finish_entry_def finish_passed_def
        finish_catch_def svc_returning_def)

lemma execute_route_batch_200:
  assumes b: "batch_request body tcs"
      and ok: "execute_route svc h body = (Json 200 p, h')"
  shows "\<exists>rs. p = payload (batch_response rs (passed_entries rs) (length tcs)) \<and>
              h' = h @ map (execute_call (field body ''code'') (field body ''language'')) tcs \<and>
              length rs = length tcs \<and>
              (\<forall>i<length tcs. \<exists>b.
                 execute_case svc (h @ map (execute_call (field body ''code'') (field body ''language'')) (take i tcs))
                     (field body ''code'') (field body ''language'') (tcs ! i) =
                   (Inr (b, rs ! i),
                    h @ map (execute_call (field body ''code'') (field body ''language'')) (take (Suc i) tcs)))"
proof -
  from ok have ok': "execute_batch svc h (field body ''code'') (field body ''language'') tcs = (Json 200 p, h')"
    by (simp only: execute_route_batch [OF b])
  from execute_batch_total [OF execute_batch_200_wf [OF ok'],
         of svc h "field body ''code''" "field body ''language''"]
  obtain rs where
    eq: "execute_batch svc h (field body ''code'') (field body ''language'') tcs =
           (batch_response rs (passed_entries rs) (length tcs),
            h @ map (execute_call (field body ''code'') (field body ''language'')) tcs)"
    and rest: "length rs = length tcs"
      "\<forall>i<length tcs. \<exists>b.
                 execute_case svc (h @ map (execute_call (field body ''code'') (field body ''language'')) (take i tcs))
                     (field body ''code'') (field body ''language'') (tcs ! i) =
                   (Inr (b, rs ! i),
                    h @ map (execute_call (field body ''code'') (field body ''language'')) (take (Suc i) tcs))"
    by blast
  from eq ok' have "p = payload (batch_response rs (passed_entries rs) (length tcs))"
    and "h' = h @ map (execute_call (field body ''code'') (field body ''language'')) tcs"
    by (simp_all add: batch_response_def)
  with rest show ?thesis by blast
qed

lemma finish_route_graded_200:
  assumes g: "graded_finish parseInt d userId param attempt ex mainFile tcs"
      and ok: "finish_route parseInt now svc h d userId param body = (Json 200 p, d', h')"
  shows "\<exists>rs. p = attempt_json (apply_update
                  (graded_update now (codigoParaEvaluar mainFile) (passed_entries rs) (length tcs) rs) attempt) \<and>
              d' = db_after d attempt
                  (graded_update now (codigoParaEvaluar mainFile) (passed_entries rs) (length tcs) rs) \<and>
              h' = h @ map (finish_call (codigoParaEvaluar mainFile) (lenguajeProgramacion ex)) tcs \<and>
              length rs = length tcs \<and>
              (\<forall>i<length tcs. \<exists>b.
                 finish_case svc (h @ map (finish_call (codigoParaEvaluar mainFile) (lenguajeProgramacion ex)) (take i tcs))
                     (codigoParaEvaluar mainFile) (lenguajeProgramacion ex) (tcs ! i) =
                   (Inr (b, rs ! i),
                    h @ map (finish_call (codigoParaEvaluar mainFile) (lenguajeProgramacion ex)) (take (Suc i) tcs)))"
proof -
  from finish_route_graded_total [OF g finish_route_graded_200_wf [OF g ok], of now svc h body]
  obtain rs where
    eq: "finish_route parseInt now svc h d userId param body =
             (Json 200 (attempt_json (apply_update
                  (graded_update now (codigoParaEvaluar mainFile) (passed_entries rs) (length tcs) rs) attempt)),
              db_after d attempt
                  (graded_update now (codigoParaEvaluar mainFile) (passed_entries rs) (length tcs) rs),
              h @ map (finish_call (codigoParaEvaluar mainFile) (lenguajeProgramacion ex)) tcs)"
    and rest: "length rs = length tcs"
      "\<forall>i<length tcs. \<exists>b.
                 finish_case svc (h @ map (finish_call (codigoParaEvaluar mainFile) (lenguajeProgramacion ex)) (take i tcs))
                     (codigoParaEvaluar mainFile) (lenguajeProgramacion ex) (tcs ! i) =
                   (Inr (b, rs ! i),
                    h @ map (finish_call (codigoParaEvaluar mainFile) (lenguajeProgramacion ex)) (take (Suc i) tcs))"
    by blast
  from eq ok have "p = attempt_json (apply_update
                  (graded_update now (codigoParaEvaluar mainFile) (passed_entries rs) (length tcs) rs) attempt)"
    and "d' = db_after d attempt
                  (graded_update now (codigoParaEvaluar mainFile) (passed_entries rs) (length tcs) rs)"
    and "h' = h @ map (finish_call (codigoParaEvaluar mainFile) (lenguajeProgramacion ex)) tcs"
    by simp_all
  with rest show ?thesis by blast
qed

lemma batch_payload_props:
  "get_prop (payload (batch_response rs q n)) ''testResults'' = Inr (JArr rs)"
  "get_prop (payload (batch_response rs q n)) ''totalTests'' = Inr (JNum (of_nat n))"
  "get_prop (payload (batch_response rs q n)) ''passedTests'' = Inr (JNum (of_nat q))"
  "get_prop (payload (batch_response rs q n)) ''score'' = Inr (JNum (percentage q n))"
  by (simp_all add: batch_response_def)

lemma graded_payload_props:
  "get_prop (attempt_json (apply_update (graded_update now code q n rs) a)) ''testResults'' = Inr (JArr rs)"
  "get_prop (attempt_json (apply_update (graded_update now code q n rs) a)) ''puntaje'' =
     Inr (JNum (percentage q n))"
  "get_prop (attempt_json (apply_update (graded_update now code q n rs) a)) ''codigoProgramacion'' = Inr code"
  "get_prop (attempt_json (apply_update (graded_update now code q n rs) a)) ''estado'' = Inr (JStr (ascii ''finalizado''))"
  by (simp_all add: attempt_json_def apply_update_def graded_update_def)

subsection \<open>The sample data\<close>

lemma sample_batch_request: "batch_request sample_body sample_cases"
  by (simp add: batch_request_def sample_body_def sample_cases_def)

lemma three_batch_request: "batch_request three_body three_cases"
  by (simp add: batch_request_def three_body_def three_cases_def sample_cases_def)

lemma sample_cases_wf: "\<forall>tc\<in>set sample_cases. \<not> nullish tc"
  by (simp add: sample_cases_def)

lemma sample_graded_finish:
  "graded_finish sample_parseInt sample_db 3 (ascii ''7'') sample_attempt sample_exam sample_file sample_cases"
  by (simp add: graded_finish_def programming_finish_def sample_parseInt_def sample_db_def
        sample_attempt_def sample_exam_def sample_file_def sample_cases_def attempt_findUnique_def
        examFile_findFirst_def examFile_where_def mainFileName_def)

subsection \<open>The comparison inside the loops\<close>

lemma execute_case_compared:
  assumes call: "svc h (execute_call code language tc) = Inr result"
      and out: "get_prop result ''output'' = Inr (JStr actual)"
      and exp: "get_prop tc ''expectedOutput'' = Inr (JStr expected)"
      and c: "execute_case svc h code language tc = (Inr (b, e), h')"
  shows "get_prop e ''passed'' = Inr (JBool (js_trim actual = js_trim expected))"
proof -
  from exp have nn: "\<not> nullish tc" by (auto dest: get_prop_Inr_D)
  from out have nr: "\<not> nullish result" by (auto dest: get_prop_Inr_D)
  from out have po: "prop_of result ''output'' = JStr actual" by (simp add: prop_of_def)
  from exp have pe: "prop_of tc ''expectedOutput'' = JStr expected" by (simp add: prop_of_def)
  have "execute_case svc h code language tc =
          (Inr (js_trim actual = js_trim expected,
                JObj [(''input'', prop_of tc ''input''), (''expectedOutput'', JStr expected),
                      (''actualOutput'', JStr (js_trim actual)),
                      (''passed'', JBool (js_trim actual = js_trim expected)),
                      (''error'', prop_of result ''error''),
                      (''executionTime'', prop_of result ''executionTime'')]),
           h @ [execute_call code language tc])"
    using call
    by (simp add: execute_case_def execute_try_def execute_entry_def execute_passed_def
          execute_call_def po pe get_prop_total [OF nn] get_prop_total [OF nr]
          del: js_trim.simps get_prop.simps)
  with c show ?thesis by (auto simp del: js_trim.simps)
qed

lemma finish_case_compared:
  assumes call: "svc h (finish_call code language tc) = Inr result"
      and out: "get_prop result ''output'' = Inr (JStr actual)"
      and exp: "get_prop tc ''expectedOutput'' = Inr (JStr expected)"
      and c: "finish_case svc h code language tc = (Inr (b, e), h')"
  shows "get_prop e ''passed'' =
           Inr (JBool (js_trim actual = js_trim expected \<and> prop_of result ''exitCode'' = JNum 0))"
proof -
  from exp have nn: "\<not> nullish tc" by (auto dest: get_prop_Inr_D)
  from out have nr: "\<not> nullish result" by (auto dest: get_prop_Inr_D)
  from out have po: "prop_of result ''output'' = JStr actual" by (simp add: prop_of_def)
  from exp have pe: "prop_of tc ''expectedOutput'' = JStr expected" by (simp add: prop_of_def)
  have "finish_case svc h code language tc =
          (Inr (js_trim actual = js_trim expected \<and> prop_of result ''exitCode'' = JNum 0,
                JObj [(''description'', or_else (prop_of tc ''description'') (JStr msg_sin_descripcion)),
                      (''passed'', JBool (js_trim actual = js_trim expected \<and>
                                          prop_of result ''exitCode'' = JNum 0)),
                      (''expected'', JStr (js_trim expected)), (''actual'', JStr (js_trim actual)),
                      (''error'', prop_of result ''error''),
                      (''executionTime'', prop_of result ''executionTime'')]),
           h @ [finish_call code language tc])"
    using call
    by (auto simp add: finish_case_def finish_try_def finish_entry_def finish_passed_def
          finish_call_def po pe get_prop_total [OF nn] get_prop_total [OF nr]
          trim_or_empty_JStr
          simp del: js_trim.simps get_prop.simps trim_or_empty.simps)
  with c show ?thesis by (auto simp del: js_trim.simps)
qed

subsection \<open>Throws of the service\<close>

text \<open>
  In a batch over test cases that are objects (none is \<^verbatim>\<open>null\<close>), a throw of the
  execution service in one case does not end the loop: the service is called for every
  case, in order, the response carries an entry for each, and the entry of a case whose
  call threw has \<^verbatim>\<open>passed: false\<close> and the message of the error (on \<^verbatim>\<open>/execute\<close> the text
  \<^verbatim>\<open>Error desconocido\<close> stands in for an empty message).
\<close>

lemma thrown_cases_isolated:
  "(batch_request body tcs \<and> (\<forall>tc\<in>set tcs. \<not> nullish tc) \<longrightarrow>
      (\<exists>rs. execute_route svc h body =
               (batch_response rs (passed_entries rs) (length tcs), h @ map (request_call body) tcs) \<and>
            length rs = length tcs \<and>
            (\<forall>i<length tcs. \<forall>err.
               svc (h @ map (request_call body) (take i tcs)) (request_call body (tcs ! i)) = Inl err \<longrightarrow>
               get_prop (rs ! i) ''passed'' = Inr (JBool False) \<and>
               get_prop (rs ! i) ''error'' =
                 Inr (JStr (if message err = [] then ascii ''Error desconocido'' else message err))))) \<and>
   (graded_finish parseInt d userId param attempt ex mainFile tcs \<and> (\<forall>tc\<in>set tcs. \<not> nullish tc) \<longrightarrow>
      (\<exists>rs. finish_route parseInt now svc h d userId param fbody =
               (Json 200 (attempt_json (apply_update
                    (graded_update now (codigoParaEvaluar mainFile) (passed_entries rs) (length tcs) rs)
                    attempt)),
                db_after d attempt
                    (graded_update now (codigoParaEvaluar mainFile) (passed_entries rs) (length tcs) rs),
                h @ map (grading_call ex mainFile) tcs) \<and>
            length rs = length tcs \<and>
            (\<forall>i<length tcs. \<forall>err.
               svc (h @ map (grading_call ex mainFile) (take i tcs)) (grading_call ex mainFile (tcs ! i)) = Inl err \<longrightarrow>
               get_prop (rs ! i) ''passed'' = Inr (JBool False) \<and>
               get_prop (rs ! i) ''error'' = Inr (JStr (message err)))))"
proof (intro conjI impI; elim conjE)
  assume b: "batch_request body tcs" and wf: "\<forall>tc\<in>set tcs. \<not> nullish tc"
  have rc: "request_call body = execute_call (field body ''code'') (field body ''language'')"
    by (rule ext) (simp only: request_call_def)
  from execute_batch_total [OF wf, of svc h "field body ''code''" "field body ''language''"]
  obtain rs where
    eq: "execute_route svc h body =
           (batch_response rs (passed_entries rs) (length tcs), h @ map (request_call body) tcs)"
    and len: "length rs = length tcs"
    and nth: "\<forall>i<length tcs. \<exists>b.
                 execute_case svc (h @ map (request_call body) (take i tcs))
                     (field body ''code'') (field body ''language'') (tcs ! i) =
                   (Inr (b, rs ! i), h @ map (request_call body) (take (Suc i) tcs))"
    unfolding rc execute_route_batch [OF b] by blast
  have "\<forall>i<length tcs. \<forall>err.
               svc (h @ map (request_call body) (take i tcs)) (request_call body (tcs ! i)) = Inl err \<longrightarrow>
               get_prop (rs ! i) ''passed'' = Inr (JBool False) \<and>
               get_prop (rs ! i) ''error'' =
                 Inr (JStr (if message err = [] then ascii ''Error desconocido'' else message err))"
  proof (intro allI impI)
    fix i err
    assume i: "i < length tcs"
      and thrown: "svc (h @ map (request_call body) (take i tcs)) (request_call body (tcs ! i)) = Inl err"
    from i wf have nn: "\<not> nullish (tcs ! i)" by simp
    from nth i obtain b where
      c: "execute_case svc (h @ map (request_call body) (take i tcs))
             (field body ''code'') (field body ''language'') (tcs ! i) =
            (Inr (b, rs ! i), h @ map (request_call body) (take (Suc i) tcs))"
      by blast
    from execute_case_thrown
           [where svc = svc
              and h = "h @ map (execute_call (field body ''code'') (field body ''language'')) (take i tcs)"
              and code = "field body ''code''" and language = "field body ''language''",
            OF nn thrown [unfolded rc]] c
    have "rs ! i = JObj [(''input'', prop_of (tcs ! i) ''input''),
                         (''expectedOutput'', prop_of (tcs ! i) ''expectedOutput''),
                         (''passed'', JBool False),
                         (''error'', JStr (if message err = [] then ascii ''Error desconocido'' else message err))]"
      unfolding rc by simp
    then show "get_prop (rs ! i) ''passed'' = Inr (JBool False) \<and>
               get_prop (rs ! i) ''error'' =
                 Inr (JStr (if message err = [] then ascii ''Error desconocido'' else message err))"
      by simp
  qed
  with eq len show "\<exists>rs. execute_route svc h body =
               (batch_response rs (passed_entries rs) (length tcs), h @ map (request_call body) tcs) \<and>
            length rs = length tcs \<and>
            (\<forall>i<length tcs. \<forall>err.
               svc (h @ map (request_call body) (take i tcs)) (request_call body (tcs ! i)) = Inl err \<longrightarrow>
               get_prop (rs ! i) ''passed'' = Inr (JBool False) \<and>
               get_prop (rs ! i) ''error'' =
                 Inr (JStr (if message err = [] then ascii ''Error desconocido'' else message err)))"
    by blast
next
  assume g: "graded_finish parseInt d userId param attempt ex mainFile tcs"
    and wf: "\<forall>tc\<in>set tcs. \<not> nullish tc"
  have gc: "grading_call ex mainFile = finish_call (codigoParaEvaluar mainFile) (lenguajeProgramacion ex)"
    by (rule ext) (simp only: grading_call_def)
  from finish_route_graded_total [OF g wf, of now svc h fbody]
  obtain rs where
    eq: "finish_route parseInt now svc h d userId param fbody =
               (Json 200 (attempt_json (apply_update
                    (graded_update now (codigoParaEvaluar mainFile) (passed_entries rs) (length tcs) rs)
                    attempt)),
                db_after d attempt
                    (graded_update now (codigoParaEvaluar mainFile) (passed_entries rs) (length tcs) rs),
                h @ map (grading_call ex mainFile) tcs)"
    and len: "length rs = length tcs"
    and nth: "\<forall>i<length tcs. \<exists>b.
                 finish_case svc (h @ map (grading_call ex mainFile) (take i tcs))
                     (codigoParaEvaluar mainFile) (lenguajeProgramacion ex) (tcs ! i) =
                   (Inr (b, rs ! i), h @ map (grading_call ex mainFile) (take (Suc i) tcs))"
    unfolding gc by blast
  have "\<forall>i<length tcs. \<forall>err.
               svc (h @ map (grading_call ex mainFile) (take i tcs)) (grading_call ex mainFile (tcs ! i)) = Inl err \<longrightarrow>
               get_prop (rs ! i) ''passed'' = Inr (JBool False) \<and>
               get_prop (rs ! i) ''error'' = Inr (JStr (message err))"
  proof (intro allI impI)
    fix i err
    assume i: "i < length tcs"
      and thrown: "svc (h @ map (grading_call ex mainFile) (take i tcs)) (grading_call ex mainFile (tcs ! i)) = Inl err"
    from i wf have nn: "\<not> nullish (tcs ! i)" by simp
    from nth i obtain b where
      c: "finish_case svc (h @ map (grading_call ex mainFile) (take i tcs))
             (codigoParaEvaluar mainFile) (lenguajeProgramacion ex) (tcs ! i) =
            (Inr (b, rs ! i), h @ map (grading_call ex mainFile) (take (Suc i) tcs))"
      by blast
    from finish_case_thrown
           [where svc = svc
              and h = "h @ map (finish_call (codigoParaEvaluar mainFile) (lenguajeProgramacion ex)) (take i tcs)"
              and code = "codigoParaEvaluar mainFile" and language = "lenguajeProgramacion ex",
            OF nn thrown [unfolded gc]] c
    have "rs ! i = JObj [(''description'', or_else (prop_of (tcs ! i) ''description'') (JStr msg_sin_descripcion)),
                   (''passed'', JBool False), (''expected'', prop_of (tcs ! i) ''expectedOutput''),
                   (''actual'', JStr []), (''error'', JStr (message err)),
                   (''executionTime'', JNum 0)]"
      unfolding gc by simp
    then show "get_prop (rs ! i) ''passed'' = Inr (JBool False) \<and>
               get_prop (rs ! i) ''error'' = Inr (JStr (message err))"
      by simp
  qed
  with eq len show "\<exists>rs. finish_route parseInt now svc h d userId param fbody =
               (Json 200 (attempt_json (apply_update
                    (graded_update now (codigoParaEvaluar mainFile) (passed_entries rs) (length tcs) rs)
                    attempt)),
                db_after d attempt
                    (graded_update now (codigoParaEvaluar mainFile) (passed_entries rs) (length tcs) rs),
                h @ map (grading_call ex mainFile) tcs) \<and>
            length rs = length tcs \<and>
            (\<forall>i<length tcs. \<forall>err.
               svc (h @ map (grading_call ex mainFile) (take i tcs)) (grading_call ex mainFile (tcs ! i)) = Inl err \<longrightarrow>
               get_prop (rs ! i) ''passed'' = Inr (JBool False) \<and>
               get_prop (rs ! i) ''error'' = Inr (JStr (message err)))"
    by blast
qed

section \<open>Validation and single runs\<close>

lemma rejected_without_code:
  assumes "\<not> truthy (field body ''code'')"
  shows "run_route parseInt d svc h body = (bad_request msg_required, h)"
    and "execute_route svc h body = (bad_request msg_required, h)"
    and "validate_route svc h body = (bad_request msg_required, h)"
  using assms
  by (simp_all add: run_route_def execute_route_def validate_route_def Let_def del: field.simps)

text \<open>
  The routes \<^verbatim>\<open>/run\<close> and \<^verbatim>\<open>/execute\<close> answer any language other than the two supported
  ones with 400, and call nothing.
\<close>

lemma unsupported_language_rejected:
  assumes "\<not> supported (field body ''language'')"
  shows "status (fst (run_route parseInt d svc h body)) = 400 \<and>
         snd (run_route parseInt d svc h body) = h \<and>
         status (fst (execute_route svc h body)) = 400 \<and>
         snd (execute_route svc h body) = h"
  using assms
  by (simp add: run_route_def execute_route_def Let_def del: field.simps supported.simps)

lemma execute_route_custom:
  assumes "truthy (field body ''code'')" and "supported (field body ''language'')"
      and "\<not> nullish (field body ''customInput'')"
  shows "execute_route svc h body =
           execute_once svc h (field body ''code'') (field body ''language'') (field body ''customInput'')"
  using assms supported_truthy [OF assms(2)]
  by (simp add: execute_route_def Let_def nullish_iff del: field.simps supported.simps)

lemma execute_once_history:
  "snd (execute_once svc h code language inp) = h @ [ExecuteCode code language (route_options inp)]"
  by (simp add: execute_once_def split: sum.splits prod.splits)

lemma result_payload_total:
  assumes "\<not> nullish result"
  shows "result_payload success result =
           Inr (Json 200 (JObj [(''success'', success), (''output'', prop_of result ''output''),
                                (''error'', prop_of result ''error''),
                                (''exitCode'', prop_of result ''exitCode''),
                                (''executionTime'', prop_of result ''executionTime'')]))"
  by (simp add: result_payload_def get_prop_total [OF assms])

text \<open>The finish route passes only with exit code 0; \<^verbatim>\<open>/execute\<close> does not look at it.\<close>

lemma finish_passed_exit_code:
  assumes "finish_passed result testCase = Inr (passed, expectedOutput, actualOutput)"
  shows "passed \<longleftrightarrow> actualOutput = expectedOutput \<and> get_prop result ''exitCode'' = Inr (JNum 0)"
  using assms
  by (auto simp: finish_passed_def bind_exn_Inr_iff
           simp del: trim_or_empty.simps get_prop.simps split: if_splits)

lemma execute_passed_ignores_exit_code:
  assumes "get_prop result ''output'' = get_prop result' ''output''"
  shows "execute_passed result testCase = execute_passed result' testCase"
  using assms by (simp add: execute_passed_def)

section \<open>The graded code\<close>

lemma newest_fold:
  "fold (\<lambda>g best. if updatedAt best < updatedAt g then g else best) fs f \<in> set (f # fs) \<and>
   (\<forall>g\<in>set (f # fs).
      updatedAt g \<le> updatedAt (fold (\<lambda>g best. if updatedAt best < updatedAt g then g else best) fs f))"
proof (induction fs arbitrary: f)
  case Nil
  then show ?case by simp
next
  case (Cons x xs)
  show ?case
  proof (cases "updatedAt f < updatedAt x")
    case True
    with Cons.IH [of x] show ?thesis by auto
  next
    case False
    with Cons.IH [of f] show ?thesis by auto
  qed
qed

lemma examFile_findFirst_Some:
  assumes "examFile_findFirst d examId userId name ver = Some f"
  shows "f \<in> set (examFile_where d examId userId name ver)"
    and "\<forall>g\<in>set (examFile_where d examId userId name ver). updatedAt g \<le> updatedAt f"
proof -
  from assms obtain x xs where w: "examFile_where d examId userId name ver = x # xs"
    and f: "f = fold (\<lambda>g best. if updatedAt best < updatedAt g then g else best) xs x"
    by (auto simp: examFile_findFirst_def split: list.splits)
  from newest_fold [of xs x] show "f \<in> set (examFile_where d examId userId name ver)"
    unfolding w f by blast
  from newest_fold [of xs x]
  show "\<forall>g\<in>set (examFile_where d examId userId name ver). updatedAt g \<le> updatedAt f"
    unfolding w f by blast
qed

lemma examFile_findFirst_None:
  "examFile_findFirst d examId userId name ver = None \<longleftrightarrow> examFile_where d examId userId name ver = []"
  by (simp add: examFile_findFirst_def split: list.splits)

lemma examFile_where_iff:
  "f \<in> set (examFile_where d examId userId name ver) \<longleftrightarrow>
     f \<in> set (examFiles d) \<and> file_examId f = examId \<and> file_userId f = userId \<and>
     filename f = name \<and> version f = ver"
  by (auto simp: examFile_where_def)

lemma run_cases_history:
  assumes "\<And>h tc. \<exists>cs. snd (f h tc) = h @ cs \<and> list_all P cs"
  shows "\<exists>cs. snd (run_cases f tcs acc p h) = h @ cs \<and> list_all P cs"
proof (induction tcs arbitrary: acc p h)
  case Nil
  then show ?case by simp
next
  case (Cons tc rest)
  from assms [of h tc] obtain cs where cs: "snd (f h tc) = h @ cs" "list_all P cs" by blast
  show ?case
  proof (cases "f h tc")
    case (Pair res h1)
    with cs have h1: "h1 = h @ cs" by simp
    show ?thesis
    proof (cases res)
      case (Inl e)
      with Pair h1 cs show ?thesis by auto
    next
      case (Inr r)
      obtain b e where r: "r = (b, e)" by (cases r)
      from Cons.IH [of "acc @ [e]" "if b then p + 1 else p" h1] obtain cs' where
        "snd (run_cases f rest (acc @ [e]) (if b then p + 1 else p) h1) = h1 @ cs'" "list_all P cs'"
        by blast
      with Pair Inr r h1 cs show ?thesis
        by (intro exI [of _ "cs @ cs'"]) simp
    qed
  qed
qed

lemma finish_case_history:
  "\<exists>cs. snd (finish_case svc h code language tc) = h @ cs \<and>
        list_all (\<lambda>c. \<exists>opts. c = ExecuteCode code language opts) cs"
proof -
  have "snd (finish_case svc h code language tc) = snd (finish_try svc h code language tc)"
    by (simp add: finish_case_def split: prod.splits sum.splits)
  then show ?thesis
    unfolding finish_try_history by (cases "nullish tc") (simp_all add: finish_call_def)
qed

lemma finish_loop_history:
  "\<exists>cs. snd (finish_loop svc code language tcs rs p h) = h @ cs \<and>
        list_all (\<lambda>c. \<exists>opts. c = ExecuteCode code language opts) cs"
  unfolding finish_loop_run_cases
  by (rule run_cases_history) (rule finish_case_history)

lemma finish_programming_file:
  assumes e: "exam_findUnique d (Some (attempt_examId attempt)) = Inr (Some ex)"
      and m: "examFile_findFirst d (attempt_examId attempt) userId (mainFileName ex) ''manual'' = Some mainFile"
  shows "\<exists>cs. snd (finish_programming svc h d userId attempt upd) = h @ cs \<and>
              list_all (\<lambda>c. \<exists>opts. c = ExecuteCode (codigoParaEvaluar mainFile)
                                           (lenguajeProgramacion ex) opts) cs"
    and "fst (finish_programming svc h d userId attempt upd) \<noteq> Inr (Inl r)"
    and "fst (finish_programming svc h d userId attempt upd) = Inr (Inr u) \<Longrightarrow>
           upd_codigoProgramacion u = Some (codigoParaEvaluar mainFile)"
proof -
  obtain res h1 where
    l: "finish_loop svc (codigoParaEvaluar mainFile) (lenguajeProgramacion ex)
          (case testCases ex of JArr tcs \<Rightarrow> tcs | _ \<Rightarrow> []) [] 0 h = (res, h1)"
    by (cases "finish_loop svc (codigoParaEvaluar mainFile) (lenguajeProgramacion ex)
          (case testCases ex of JArr tcs \<Rightarrow> tcs | _ \<Rightarrow> []) [] 0 h")
  from finish_loop_history [of svc "codigoParaEvaluar mainFile" "lenguajeProgramacion ex"
         "case testCases ex of JArr tcs \<Rightarrow> tcs | _ \<Rightarrow> []" "[]" 0 h] l
  obtain cs where cs: "h1 = h @ cs"
      "list_all (\<lambda>c. \<exists>opts. c = ExecuteCode (codigoParaEvaluar mainFile)
                                  (lenguajeProgramacion ex) opts) cs"
    by auto
  show "\<exists>cs. snd (finish_programming svc h d userId attempt upd) = h @ cs \<and>
              list_all (\<lambda>c. \<exists>opts. c = ExecuteCode (codigoParaEvaluar mainFile)
                                           (lenguajeProgramacion ex) opts) cs"
    using l cs
    by (cases "testCases ex")
       (auto simp: finish_programming_def e m Let_def simp del: exam_findUnique.simps
             split: sum.splits prod.splits)
  show "fst (finish_programming svc h d userId attempt upd) \<noteq> Inr (Inl r)"
    by (cases "testCases ex")
       (auto simp: finish_programming_def e m Let_def simp del: exam_findUnique.simps
             split: sum.splits prod.splits)
  show "fst (finish_programming svc h d userId attempt upd) = Inr (Inr u) \<Longrightarrow>
           upd_codigoProgramacion u = Some (codigoParaEvaluar mainFile)"
    by (cases "testCases ex")
       (auto simp: finish_programming_def e m Let_def simp del: exam_findUnique.simps
             split: sum.splits prod.splits if_splits)
qed

lemma attempt_json_codigo:
  "upd_codigoProgramacion u = Some c \<Longrightarrow>
     get_prop (attempt_json (apply_update u a)) ''codigoProgramacion'' = Inr c"
  by (simp add: attempt_json_def apply_update_def)

section \<open>Evaluating the sample data\<close>

lemmas execute_eval =
  execute_route_def execute_batch_def execute_once_def execute_case_def execute_try_def
  execute_entry_def execute_passed_def execute_catch_def batch_response_def result_payload_def
  Let_def

lemmas finish_eval =
  finish_route_def finish_grade_def finish_programming_def finish_case_def finish_try_def
  finish_entry_def finish_passed_def finish_catch_def examAttempt_update_def
  attempt_findUnique_def examFile_findFirst_def examFile_where_def mainFileName_def
  codigoParaEvaluar_def initial_update_def apply_update_def attempt_json_def finish_failed_def
  Let_def

lemmas sample_defs =
  svc_echo_def svc_returning_def svc_throwing_def svc_throwing_at_def sample_body_def
  sample_cases_def sample_exam_def sample_file_def sample_attempt_def sample_db_def
  sample_parseInt_def prop_of_def

lemma sample_execute_200:
  "execute_route svc_echo [] sample_body =
     (Json 200 (payload (fst (execute_route svc_echo [] sample_body))),
      snd (execute_route svc_echo [] sample_body))"
  by (simp add: execute_eval sample_defs)

lemma three_execute_200:
  "execute_route svc_echo [] three_body =
     (Json 200 (payload (fst (execute_route svc_echo [] three_body))),
      snd (execute_route svc_echo [] three_body))"
  by (simp add: execute_eval sample_defs three_body_def three_cases_def)

lemma sample_finish_200:
  "finish_route sample_parseInt 99 svc_echo [] sample_db 3 (ascii ''7'') [] =
     (Json 200 (payload (fst (finish_route sample_parseInt 99 svc_echo [] sample_db 3 (ascii ''7'') []))),
      fst (snd (finish_route sample_parseInt 99 svc_echo [] sample_db 3 (ascii ''7'') [])),
      snd (snd (finish_route sample_parseInt 99 svc_echo [] sample_db 3 (ascii ''7'') [])))"
  by (simp add: finish_eval sample_defs)

section \<open>The claims\<close>

text \<open>
  C1, on the code. A run of \<^verbatim>\<open>POST /code-execution/execute\<close> whose output matches the
  expected output is counted as passed whatever its exit code is: with exit code 1 and
  an error text the case is reported with \<^verbatim>\<open>passed: true\<close> and the score is 100.
\<close>

theorem execute_passes_crashed_run:
  "execute_route
     (svc_returning (JObj [(''output'', JStr (ascii ''4'')), (''error'', err), (''exitCode'', exitCode),
                           (''executionTime'', t)]))
     h
     [(''code'', JStr (ascii ''print(4); exit(1)'')), (''language'', JStr (ascii ''python'')),
      (''testCases'', JArr [JObj [(''input'', JStr []), (''expectedOutput'', JStr (ascii ''4''))]])] =
   (Json 200
      (JObj [(''success'', JBool True), (''score'', JNum 100), (''passedTests'', JNum 1),
             (''totalTests'', JNum 1),
             (''testResults'',
              JArr [JObj [(''input'', JStr []), (''expectedOutput'', JStr (ascii ''4'')),
                          (''actualOutput'', JStr (ascii ''4'')), (''passed'', JBool True),
                          (''error'', err), (''executionTime'', t)]])]),
    h @ [ExecuteCode (JStr (ascii ''print(4); exit(1)'')) (JStr (ascii ''python'')) (route_options (JStr []))])"
  by (simp add: execute_eval svc_returning_def percentage_samples ascii_def)

theorem execute_passes_crashed_run_witness:
  "get_prop (payload (fst (execute_route
     (svc_returning (JObj [(''output'', JStr (ascii ''4'')), (''error'', JStr (ascii ''Traceback'')),
                           (''exitCode'', JNum 1), (''executionTime'', JNum 5)]))
     []
     [(''code'', JStr (ascii ''print(4); exit(1)'')), (''language'', JStr (ascii ''python'')),
      (''testCases'', JArr [JObj [(''input'', JStr []), (''expectedOutput'', JStr (ascii ''4''))]])])))
     ''passedTests'' = Inr (JNum 1)"
  using execute_passes_crashed_run [of "JStr (ascii ''Traceback'')" "JNum 1" "JNum 5" "[]"]
  by simp

text \<open>
  C2, on the code. A \<^verbatim>\<open>null\<close> among the test cases aborts the batch. In a batch over
  three test cases whose second is \<^verbatim>\<open>null\<close>, whatever the service does for the first
  case, also when it throws: the first case is executed, then reading \<^verbatim>\<open>testCase.input\<close>
  of the second throws in the \<^verbatim>\<open>try\<close> block and again in the \<^verbatim>\<open>catch\<close> block, which has no
  handler around it; the third case is never executed, no per-case result is returned
  and the answer is 500. On the finish route the attempt is not finished either.
\<close>

theorem null_case_aborts_batch:
  "execute_route svc h
     [(''code'', JStr (ascii ''print(input())'')), (''language'', JStr (ascii ''python'')),
      (''testCases'', JArr cases_with_null)] =
     (Json 500
        (JObj [(''error'', JStr msg_internal_run),
               (''details'',
                JStr (ascii (''Cannot read properties of null (reading '' @ [CHR 0x27] @ ''input''
                               @ [CHR 0x27] @ '')'')))]),
      h @ [ExecuteCode (JStr (ascii ''print(input())'')) (JStr (ascii ''python''))
             (route_options (JStr (ascii ''a'')))]) \<and>
   finish_route sample_parseInt now svc h sample_db_null_case 3 (ascii ''7'') body =
     (Json 500 (JObj [(''error'', JStr msg_finish_failed)]), sample_db_null_case,
      h @ [ExecuteCode (JStr (ascii ''print(input())'')) (JStr (ascii ''python''))
             (finish_options (JStr (ascii ''a'')))]) \<and>
   length cases_with_null = 3"
proof -
  have 1: "execute_route svc h
     [(''code'', JStr (ascii ''print(input())'')), (''language'', JStr (ascii ''python'')),
      (''testCases'', JArr cases_with_null)] =
     (Json 500
        (JObj [(''error'', JStr msg_internal_run),
               (''details'',
                JStr (ascii (''Cannot read properties of null (reading '' @ [CHR 0x27] @ ''input''
                               @ [CHR 0x27] @ '')'')))]),
      h @ [ExecuteCode (JStr (ascii ''print(input())'')) (JStr (ascii ''python''))
             (route_options (JStr (ascii ''a'')))])"
    by (cases "svc h (ExecuteCode (JStr (ascii ''print(input())'')) (JStr (ascii ''python''))
                       (route_options (JStr (ascii ''a''))))")
       (simp_all add: execute_eval cases_with_null_def bind_exn_Inr_iff
          split: sum.splits prod.splits)
  have 2: "finish_route sample_parseInt now svc h sample_db_null_case 3 (ascii ''7'') body =
     (Json 500 (JObj [(''error'', JStr msg_finish_failed)]), sample_db_null_case,
      h @ [ExecuteCode (JStr (ascii ''print(input())'')) (JStr (ascii ''python''))
             (finish_options (JStr (ascii ''a'')))])"
    by (cases "svc h (ExecuteCode (JStr (ascii ''print(input())'')) (JStr (ascii ''python''))
                       (finish_options (JStr (ascii ''a''))))")
       (simp_all add: finish_eval sample_defs sample_db_null_case_def cases_with_null_def
          bind_exn_Inr_iff split: sum.splits prod.splits)
  have 3: "length cases_with_null = 3" by (simp add: cases_with_null_def)
  from 1 2 3 show ?thesis by blast
qed

text \<open>The same with a service whose first call throws and whose other calls would resolve.\<close>

theorem null_case_aborts_batch_witness:
  "status (fst (execute_route (svc_throwing_at 0 (ascii ''boom'') JNull) []
     [(''code'', JStr (ascii ''print(input())'')), (''language'', JStr (ascii ''python'')),
      (''testCases'', JArr cases_with_null)])) = 500 \<and>
   length (snd (execute_route (svc_throwing_at 0 (ascii ''boom'') JNull) []
     [(''code'', JStr (ascii ''print(input())'')), (''language'', JStr (ascii ''python'')),
      (''testCases'', JArr cases_with_null)])) = 1 \<and>
   status (fst (finish_route sample_parseInt 99 (svc_throwing_at 0 (ascii ''boom'') JNull) []
                  sample_db_null_case 3 (ascii ''7'') [])) = 500 \<and>
   length (snd (snd (finish_route sample_parseInt 99 (svc_throwing_at 0 (ascii ''boom'') JNull) []
                       sample_db_null_case 3 (ascii ''7'') []))) = 1"
  using null_case_aborts_batch [of "svc_throwing_at 0 (ascii ''boom'') JNull" "[]" 99 "[]"]
  by simp

text \<open>
  C3. When a batch over the non-empty list \<open>tcs\<close> is answered, \<^verbatim>\<open>totalTests\<close> is the
  number of test cases, \<^verbatim>\<open>passedTests\<close> is the number of entries of \<^verbatim>\<open>testResults\<close>
  with \<^verbatim>\<open>passed: true\<close>, and \<^verbatim>\<open>score\<close> is \<^verbatim>\<open>passedTests / totalTests * 100\<close> of these
  final counts, as doubles compute it: the quotient rounded, then the product rounded.
  The finish route stores the same number as \<^verbatim>\<open>puntaje\<close>, next to the entries it is
  computed from. The score of 1 of 2 is 50 and that of 3 of 3 is 100; the score of 11 of
  20 is the double next above 55, which prints as \<^verbatim>\<open>55.00000000000001\<close>, and that of 1 of 3
  is \<^verbatim>\<open>33.33333333333333\<close>, the double \<open>4691249611844266 / 2 ^ 47\<close>.
\<close>

theorem batch_totals:
  "(batch_request body tcs \<and> execute_route svc h body = (Json 200 p, h') \<longrightarrow>
      (\<exists>rs. get_prop p ''testResults'' = Inr (JArr rs) \<and> length rs = length tcs \<and>
            get_prop p ''totalTests'' = Inr (JNum (of_nat (length tcs))) \<and>
            get_prop p ''passedTests'' = Inr (JNum (of_nat (passed_entries rs))) \<and>
            get_prop p ''score'' =
              Inr (JNum (percentage (passed_entries rs) (length tcs))))) \<and>
   (graded_finish parseInt d userId param attempt ex mainFile tcs \<and>
    finish_route parseInt now svc h d userId param fbody = (Json 200 q, d', h'') \<longrightarrow>
      (\<exists>rs. get_prop q ''testResults'' = Inr (JArr rs) \<and> length rs = length tcs \<and>
            get_prop q ''puntaje'' =
              Inr (JNum (percentage (passed_entries rs) (length tcs))))) \<and>
   percentage 1 2 = 50 \<and> percentage 3 3 = 100 \<and> percentage 11 20 = 55 + 1 / 2 ^ 47 \<and>
   percentage 1 3 = 4691249611844266 / 2 ^ 47"
proof (intro conjI impI; (elim conjE)?)
  assume b: "batch_request body tcs" and ok: "execute_route svc h body = (Json 200 p, h')"
  from execute_route_batch_200 [OF b ok] obtain rs where
    "p = payload (batch_response rs (passed_entries rs) (length tcs))" "length rs = length tcs"
    by blast
  then show "\<exists>rs. get_prop p ''testResults'' = Inr (JArr rs) \<and> length rs = length tcs \<and>
            get_prop p ''totalTests'' = Inr (JNum (of_nat (length tcs))) \<and>
            get_prop p ''passedTests'' = Inr (JNum (of_nat (passed_entries rs))) \<and>
            get_prop p ''score'' =
              Inr (JNum (percentage (passed_entries rs) (length tcs)))"
    using batch_payload_props by blast
next
  assume g: "graded_finish parseInt d userId param attempt ex mainFile tcs"
    and ok: "finish_route parseInt now svc h d userId param fbody = (Json 200 q, d', h'')"
  from finish_route_graded_200 [OF g ok] obtain rs where
    "q = attempt_json (apply_update
           (graded_update now (codigoParaEvaluar mainFile) (passed_entries rs) (length tcs) rs) attempt)"
    "length rs = length tcs"
    by blast
  then show "\<exists>rs. get_prop q ''testResults'' = Inr (JArr rs) \<and> length rs = length tcs \<and>
            get_prop q ''puntaje'' =
              Inr (JNum (percentage (passed_entries rs) (length tcs)))"
    using graded_payload_props by blast
next
  show "percentage 1 2 = 50" by (simp add: double_eval)
next
  show "percentage 3 3 = 100" by (simp add: double_eval)
next
  show "percentage 11 20 = 55 + 1 / 2 ^ 47" by (simp add: double_eval)
next
  show "percentage 1 3 = 4691249611844266 / 2 ^ 47" by (simp add: double_eval)
qed

theorem batch_totals_witness:
  "(\<exists>rs. get_prop (payload (fst (execute_route svc_echo [] three_body))) ''testResults'' = Inr (JArr rs) \<and>
         length rs = 3 \<and> passed_entries rs = 1 \<and>
         get_prop (payload (fst (execute_route svc_echo [] three_body))) ''totalTests'' = Inr (JNum 3) \<and>
         get_prop (payload (fst (execute_route svc_echo [] three_body))) ''passedTests'' = Inr (JNum 1) \<and>
         get_prop (payload (fst (execute_route svc_echo [] three_body))) ''score'' =
           Inr (JNum (4691249611844266 / 2 ^ 47))) \<and>
   (\<exists>rs. get_prop (payload (fst (finish_route sample_parseInt 99 svc_echo [] sample_db 3 (ascii ''7'') [])))
            ''testResults'' = Inr (JArr rs) \<and>
         length rs = 2 \<and> passed_entries rs = 1 \<and>
         get_prop (payload (fst (finish_route sample_parseInt 99 svc_echo [] sample_db 3 (ascii ''7'') [])))
            ''puntaje'' = Inr (JNum 50))"
proof -
  note inst = batch_totals [where body = three_body and tcs = three_cases and svc = svc_echo and h = "[]"
      and p = "payload (fst (execute_route svc_echo [] three_body))"
      and h' = "snd (execute_route svc_echo [] three_body)"]
  note finst = batch_totals [where tcs = sample_cases and svc = svc_echo and h = "[]"
      and parseInt = sample_parseInt and d = sample_db and userId = 3 and param = "ascii ''7''"
      and attempt = sample_attempt and ex = sample_exam and mainFile = sample_file and now = 99
      and fbody = "[]"
      and q = "payload (fst (finish_route sample_parseInt 99 svc_echo [] sample_db 3 (ascii ''7'') []))"
      and d' = "fst (snd (finish_route sample_parseInt 99 svc_echo [] sample_db 3 (ascii ''7'') []))"
      and h'' = "snd (snd (finish_route sample_parseInt 99 svc_echo [] sample_db 3 (ascii ''7'') []))"]
  have n3: "length three_cases = 3" by (simp add: three_cases_def sample_cases_def)
  have n2: "length sample_cases = 2" by (simp add: sample_cases_def)
  from inst three_batch_request three_execute_200 obtain rs where
    rs: "get_prop (payload (fst (execute_route svc_echo [] three_body))) ''testResults'' = Inr (JArr rs)"
      "length rs = length three_cases"
      "get_prop (payload (fst (execute_route svc_echo [] three_body))) ''totalTests'' =
         Inr (JNum (of_nat (length three_cases)))"
      "get_prop (payload (fst (execute_route svc_echo [] three_body))) ''passedTests'' =
         Inr (JNum (of_nat (passed_entries rs)))"
      "get_prop (payload (fst (execute_route svc_echo [] three_body))) ''score'' =
         Inr (JNum (percentage (passed_entries rs) (length three_cases)))"
    by blast
  from rs(1) have p1: "passed_entries rs = 1"
    by (auto simp add: execute_eval sample_defs three_body_def three_cases_def passed_entries_def
          ascii_def)
  from inst have third: "percentage 1 3 = 4691249611844266 / 2 ^ 47" by blast
  from finst sample_graded_finish sample_finish_200 obtain fs where
    fs: "get_prop (payload (fst (finish_route sample_parseInt 99 svc_echo [] sample_db 3 (ascii ''7'') [])))
            ''testResults'' = Inr (JArr fs)"
      "length fs = length sample_cases"
      "get_prop (payload (fst (finish_route sample_parseInt 99 svc_echo [] sample_db 3 (ascii ''7'') [])))
            ''puntaje'' = Inr (JNum (percentage (passed_entries fs) (length sample_cases)))"
    by blast
  from fs(1) have p2: "passed_entries fs = 1"
    by (auto simp add: finish_eval sample_defs passed_entries_def ascii_def)
  from inst have half: "percentage 1 2 = 50" by blast
  from rs have A: "\<exists>rs. get_prop (payload (fst (execute_route svc_echo [] three_body))) ''testResults'' = Inr (JArr rs) \<and>
         length rs = 3 \<and> passed_entries rs = 1 \<and>
         get_prop (payload (fst (execute_route svc_echo [] three_body))) ''totalTests'' = Inr (JNum 3) \<and>
         get_prop (payload (fst (execute_route svc_echo [] three_body))) ''passedTests'' = Inr (JNum 1) \<and>
         get_prop (payload (fst (execute_route svc_echo [] three_body))) ''score'' =
           Inr (JNum (4691249611844266 / 2 ^ 47))"
    unfolding p1 n3 third by (intro exI [of _ rs]) (simp add: p1)
  from fs have B: "\<exists>rs. get_prop (payload (fst (finish_route sample_parseInt 99 svc_echo [] sample_db 3 (ascii ''7'') [])))
            ''testResults'' = Inr (JArr rs) \<and>
         length rs = 2 \<and> passed_entries rs = 1 \<and>
         get_prop (payload (fst (finish_route sample_parseInt 99 svc_echo [] sample_db 3 (ascii ''7'') [])))
            ''puntaje'' = Inr (JNum 50)"
    unfolding p2 n2 half by (intro exI [of _ fs]) (simp add: p2)
  from A B show ?thesis ..
qed

text \<open>
  C4, on the code. \<^verbatim>\<open>POST /code-execution/validate\<close> has no check of the language: for
  the language \<^verbatim>\<open>ruby\<close> it calls \<^verbatim>\<open>validateSyntax\<close> of the service and never answers 400.
\<close>

theorem validate_accepts_any_language:
  "snd (validate_route svc h [(''code'', JStr (ascii ''x = 1'')), (''language'', JStr (ascii ''ruby''))]) =
     h @ [ValidateSyntax (JStr (ascii ''x = 1'')) (JStr (ascii ''ruby''))] \<and>
   status (fst (validate_route svc h [(''code'', JStr (ascii ''x = 1'')), (''language'', JStr (ascii ''ruby''))])) \<noteq> 400 \<and>
   \<not> supported (JStr (ascii ''ruby''))"
  by (auto simp: validate_route_def Let_def bind_exn_Inr_iff split: sum.splits prod.splits)

theorem validate_accepts_any_language_witness:
  "snd (validate_route svc_echo [] [(''code'', JStr (ascii ''x = 1'')), (''language'', JStr (ascii ''ruby''))]) =
     [ValidateSyntax (JStr (ascii ''x = 1'')) (JStr (ascii ''ruby''))]"
  using validate_accepts_any_language [of svc_echo "[]"]
  by simp

text \<open>
  C5 (as the code has it). A request to \<^verbatim>\<open>/run\<close>, \<^verbatim>\<open>/execute\<close> or \<^verbatim>\<open>/validate\<close> whose
  \<^verbatim>\<open>code\<close> is the empty string is answered with 400 and the service is not called.
  Empty code is run like any other only where it comes from the saved main file: the
  finish route calls the service with it for every test case.
\<close>

theorem empty_code_rejected_by_routes:
  "(field body ''code'' = JStr [] \<longrightarrow>
      run_route parseInt d svc h body = (bad_request msg_required, h) \<and>
      execute_route svc h body = (bad_request msg_required, h) \<and>
      validate_route svc h body = (bad_request msg_required, h)) \<and>
   (graded_finish parseInt d userId param attempt ex mainFile tcs \<and> content mainFile = JStr [] \<and>
    (\<forall>tc\<in>set tcs. \<not> nullish tc) \<longrightarrow>
      status (fst (finish_route parseInt now svc h d userId param fbody)) = 200 \<and>
      snd (snd (finish_route parseInt now svc h d userId param fbody)) =
        h @ map (finish_call (JStr []) (lenguajeProgramacion ex)) tcs)"
proof (rule conjI; rule impI)
  assume "field body ''code'' = JStr []"
  then have nt: "\<not> truthy (field body ''code'')" by simp
  show "run_route parseInt d svc h body = (bad_request msg_required, h) \<and>
      execute_route svc h body = (bad_request msg_required, h) \<and>
      validate_route svc h body = (bad_request msg_required, h)"
    using rejected_without_code [OF nt] by blast
next
  assume "graded_finish parseInt d userId param attempt ex mainFile tcs \<and> content mainFile = JStr [] \<and>
    (\<forall>tc\<in>set tcs. \<not> nullish tc)"
  then have g: "graded_finish parseInt d userId param attempt ex mainFile tcs"
    and c: "content mainFile = JStr []" and wf: "\<forall>tc\<in>set tcs. \<not> nullish tc"
    by blast+
  from c have code: "codigoParaEvaluar mainFile = JStr []" by (simp add: codigoParaEvaluar_def)
  from finish_route_graded_total [OF g wf, of now svc h fbody]
  show "status (fst (finish_route parseInt now svc h d userId param fbody)) = 200 \<and>
      snd (snd (finish_route parseInt now svc h d userId param fbody)) =
        h @ map (finish_call (JStr []) (lenguajeProgramacion ex)) tcs"
    unfolding code by auto
qed

theorem empty_code_rejected_by_routes_witness:
  "run_route sample_parseInt sample_db_empty_file svc_echo [] [(''code'', JStr []), (''language'', JStr (ascii ''python''))] =
     (bad_request msg_required, []) \<and>
   execute_route svc_echo [] [(''code'', JStr []), (''language'', JStr (ascii ''python''))] =
     (bad_request msg_required, []) \<and>
   validate_route svc_echo [] [(''code'', JStr []), (''language'', JStr (ascii ''python''))] =
     (bad_request msg_required, []) \<and>
   snd (snd (finish_route sample_parseInt 99 svc_echo []
               sample_db_empty_file 3 (ascii ''7'') [])) =
     map (finish_call (JStr []) (JStr (ascii ''python''))) sample_cases"
proof -
  have f: "field [(''code'', JStr []), (''language'', JStr (ascii ''python''))] ''code'' = JStr []" by simp
  have g: "graded_finish sample_parseInt sample_db_empty_file
             3 (ascii ''7'') sample_attempt sample_exam (sample_file\<lparr>content := JStr []\<rparr>) sample_cases"
    by (simp add: graded_finish_def programming_finish_def sample_parseInt_def sample_db_def
        sample_db_empty_file_def
        sample_attempt_def sample_exam_def sample_file_def sample_cases_def attempt_findUnique_def
        examFile_findFirst_def examFile_where_def mainFileName_def)
  have c: "content (sample_file\<lparr>content := JStr []\<rparr>) = JStr []" by simp
  have l: "lenguajeProgramacion sample_exam = JStr (ascii ''python'')" by (simp add: sample_exam_def)
  from empty_code_rejected_by_routes
    [where body = "[(''code'', JStr []), (''language'', JStr (ascii ''python''))]" and parseInt = sample_parseInt
       and d = sample_db_empty_file
       and svc = svc_echo and h = "[]" and userId = 3 and param = "ascii ''7''"
       and attempt = sample_attempt and ex = sample_exam
       and mainFile = "sample_file\<lparr>content := JStr []\<rparr>" and tcs = sample_cases and now = 99
       and fbody = "[]"]
    f g c sample_cases_wf
  show ?thesis unfolding l by simp
qed

text \<open>
  The claim as first stated fails on the routes of \<^verbatim>\<open>codeExecution.route.ts\<close>: empty code
  is answered with 400 before anything is executed.
\<close>

theorem empty_code_not_executed:
  "run_route sample_parseInt sample_db svc_echo [] [(''code'', JStr []), (''language'', JStr (ascii ''python''))] =
     (Json 400 (JObj [(''error'', JStr msg_required)]), []) \<and>
   execute_route svc_echo [] [(''code'', JStr []), (''language'', JStr (ascii ''python''))] =
     (Json 400 (JObj [(''error'', JStr msg_required)]), [])"
  by (simp add: run_route_def execute_route_def Let_def)

text \<open>
  C6. In an answered batch of either route, take a case for which the service resolved
  to a result whose \<^verbatim>\<open>output\<close> is a string, and whose \<^verbatim>\<open>expectedOutput\<close> is a string.
  Whatever white space (any of the code points that \<^verbatim>\<open>trim\<close> strips, the Unicode ones
  among them) surrounds the actual output \<open>a\<close> and the expected output \<open>e\<close>, the
  \<^verbatim>\<open>passed\<close> flag recorded for the case is the same: it tells whether \<open>a\<close> and \<open>e\<close> are
  equal once trimmed (on the finish route, and the exit code is 0). Two strings that
  carry no white space at their ends are equal once trimmed only when they are equal, so a
  difference inside them is never forgiven. \<^verbatim>\<open>"2\n"\<close> matches \<^verbatim>\<open>"2"\<close>, \<^verbatim>\<open>"2 3"\<close> does not
  match \<^verbatim>\<open>"23"\<close>; U+FEFF and U+2003 are stripped, U+200B and U+0085 are not. The last
  two lines list the twenty-five code units that are white space, and some of their
  neighbours, which are not.
\<close>

theorem output_comparison_trims_edges_only:
  "(batch_request body tcs \<and> execute_route svc h body = (Json 200 p, h') \<and> i < length tcs \<and>
    svc (h @ map (request_call body) (take i tcs)) (request_call body (tcs ! i)) = Inr result \<and>
    get_prop result ''output'' = Inr (JStr (l1 @ a @ r1)) \<and>
    get_prop (tcs ! i) ''expectedOutput'' = Inr (JStr (l2 @ e @ r2)) \<and>
    (\<forall>c\<in>set (l1 @ r1 @ l2 @ r2). js_space c) \<longrightarrow>
      (\<exists>rs. get_prop p ''testResults'' = Inr (JArr rs) \<and>
            get_prop (rs ! i) ''passed'' = Inr (JBool (js_trim a = js_trim e)))) \<and>
   (graded_finish parseInt d userId param attempt ex mainFile tcs \<and>
    finish_route parseInt now svc h d userId param fbody = (Json 200 q, d', h'') \<and> i < length tcs \<and>
    svc (h @ map (grading_call ex mainFile) (take i tcs)) (grading_call ex mainFile (tcs ! i)) =
      Inr result \<and>
    get_prop result ''output'' = Inr (JStr (l1 @ a @ r1)) \<and>
    get_prop (tcs ! i) ''expectedOutput'' = Inr (JStr (l2 @ e @ r2)) \<and>
    (\<forall>c\<in>set (l1 @ r1 @ l2 @ r2). js_space c) \<longrightarrow>
      (\<exists>rs. get_prop q ''testResults'' = Inr (JArr rs) \<and>
            get_prop (rs ! i) ''passed'' =
              Inr (JBool (js_trim a = js_trim e \<and> prop_of result ''exitCode'' = JNum 0)))) \<and>
   ((a = [] \<or> \<not> js_space (hd a) \<and> \<not> js_space (last a)) \<and>
    (e = [] \<or> \<not> js_space (hd e) \<and> \<not> js_space (last e))
      \<longrightarrow> (js_trim a = js_trim e) = (a = e)) \<and>
   js_trim (ascii ''2'' @ [0xA]) = js_trim (ascii ''2'') \<and>
   js_trim (ascii ''2 3'') \<noteq> js_trim (ascii ''23'') \<and>
   js_trim ([0xFEFF, 0x2003] @ ascii ''2'' @ [0x3000, 0xA0, 0x2028]) = ascii ''2'' \<and>
   js_trim ([0x200B] @ ascii ''2'' @ [0x85]) = [0x200B] @ ascii ''2'' @ [0x85] \<and>
   filter js_space
     [0x9, 0xA, 0xB, 0xC, 0xD, 0x20, 0xA0, 0x1680, 0x2000, 0x2001, 0x2002, 0x2003, 0x2004,
      0x2005, 0x2006, 0x2007, 0x2008, 0x2009, 0x200A, 0x2028, 0x2029, 0x202F, 0x205F, 0x3000,
      0xFEFF] =
     [0x9, 0xA, 0xB, 0xC, 0xD, 0x20, 0xA0, 0x1680, 0x2000, 0x2001, 0x2002, 0x2003, 0x2004,
      0x2005, 0x2006, 0x2007, 0x2008, 0x2009, 0x200A, 0x2028, 0x2029, 0x202F, 0x205F, 0x3000,
      0xFEFF] \<and>
   filter js_space
     [0x0, 0x8, 0xE, 0x1F, 0x21, 0x85, 0x9F, 0xA1, 0x167F, 0x1681, 0x180E, 0x1FFF, 0x200B,
      0x200C, 0x2027, 0x202A, 0x202E, 0x2030, 0x205E, 0x2060, 0x2FFF, 0x3001, 0xFEFE, 0xFF00,
      0xFFFF] = []"
proof -
  have A: "batch_request body tcs \<and> execute_route svc h body = (Json 200 p, h') \<and> i < length tcs \<and>
    svc (h @ map (request_call body) (take i tcs)) (request_call body (tcs ! i)) = Inr result \<and>
    get_prop result ''output'' = Inr (JStr (l1 @ a @ r1)) \<and>
    get_prop (tcs ! i) ''expectedOutput'' = Inr (JStr (l2 @ e @ r2)) \<and>
    (\<forall>c\<in>set (l1 @ r1 @ l2 @ r2). js_space c) \<longrightarrow>
      (\<exists>rs. get_prop p ''testResults'' = Inr (JArr rs) \<and>
            get_prop (rs ! i) ''passed'' = Inr (JBool (js_trim a = js_trim e)))"
  proof (intro impI, elim conjE)
    assume b: "batch_request body tcs" and ok: "execute_route svc h body = (Json 200 p, h')"
      and i: "i < length tcs"
      and call: "svc (h @ map (request_call body) (take i tcs)) (request_call body (tcs ! i)) = Inr result"
      and out: "get_prop result ''output'' = Inr (JStr (l1 @ a @ r1))"
      and exp: "get_prop (tcs ! i) ''expectedOutput'' = Inr (JStr (l2 @ e @ r2))"
      and ws: "\<forall>c\<in>set (l1 @ r1 @ l2 @ r2). js_space c"
    from ws have ta: "js_trim (l1 @ a @ r1) = js_trim a" and te: "js_trim (l2 @ e @ r2) = js_trim e"
      by (auto intro!: js_trim_edges simp del: js_space.simps js_trim.simps)
    have rc: "request_call body = execute_call (field body ''code'') (field body ''language'')"
      by (rule ext) (simp only: request_call_def)
    from execute_route_batch_200 [OF b ok] obtain rs where
      p: "p = payload (batch_response rs (passed_entries rs) (length tcs))"
      and nth: "\<forall>i<length tcs. \<exists>b.
                 execute_case svc (h @ map (request_call body) (take i tcs))
                     (field body ''code'') (field body ''language'') (tcs ! i) =
                   (Inr (b, rs ! i), h @ map (request_call body) (take (Suc i) tcs))"
      unfolding rc by blast
    from nth i obtain b where
      c: "execute_case svc (h @ map (request_call body) (take i tcs))
             (field body ''code'') (field body ''language'') (tcs ! i) =
            (Inr (b, rs ! i), h @ map (request_call body) (take (Suc i) tcs))"
      by blast
    from execute_case_compared [OF call [unfolded rc] out exp c [unfolded rc]]
    have "get_prop (rs ! i) ''passed'' = Inr (JBool (js_trim a = js_trim e))"
      unfolding ta te .
    with p show "\<exists>rs. get_prop p ''testResults'' = Inr (JArr rs) \<and>
            get_prop (rs ! i) ''passed'' = Inr (JBool (js_trim a = js_trim e))"
      using batch_payload_props(1) by blast
  qed
  have B: "graded_finish parseInt d userId param attempt ex mainFile tcs \<and>
    finish_route parseInt now svc h d userId param fbody = (Json 200 q, d', h'') \<and> i < length tcs \<and>
    svc (h @ map (grading_call ex mainFile) (take i tcs)) (grading_call ex mainFile (tcs ! i)) =
      Inr result \<and>
    get_prop result ''output'' = Inr (JStr (l1 @ a @ r1)) \<and>
    get_prop (tcs ! i) ''expectedOutput'' = Inr (JStr (l2 @ e @ r2)) \<and>
    (\<forall>c\<in>set (l1 @ r1 @ l2 @ r2). js_space c) \<longrightarrow>
      (\<exists>rs. get_prop q ''testResults'' = Inr (JArr rs) \<and>
            get_prop (rs ! i) ''passed'' =
              Inr (JBool (js_trim a = js_trim e \<and> prop_of result ''exitCode'' = JNum 0)))"
  proof (intro impI, elim conjE)
    assume g: "graded_finish parseInt d userId param attempt ex mainFile tcs"
      and ok: "finish_route parseInt now svc h d userId param fbody = (Json 200 q, d', h'')"
      and i: "i < length tcs"
      and call: "svc (h @ map (grading_call ex mainFile) (take i tcs)) (grading_call ex mainFile (tcs ! i)) =
                   Inr result"
      and out: "get_prop result ''output'' = Inr (JStr (l1 @ a @ r1))"
      and exp: "get_prop (tcs ! i) ''expectedOutput'' = Inr (JStr (l2 @ e @ r2))"
      and ws: "\<forall>c\<in>set (l1 @ r1 @ l2 @ r2). js_space c"
    from ws have ta: "js_trim (l1 @ a @ r1) = js_trim a" and te: "js_trim (l2 @ e @ r2) = js_trim e"
      by (auto intro!: js_trim_edges simp del: js_space.simps js_trim.simps)
    have gc: "grading_call ex mainFile = finish_call (codigoParaEvaluar mainFile) (lenguajeProgramacion ex)"
      by (rule ext) (simp only: grading_call_def)
    from finish_route_graded_200 [OF g ok] obtain rs where
      q: "q = attempt_json (apply_update
             (graded_update now (codigoParaEvaluar mainFile) (passed_entries rs) (length tcs) rs) attempt)"
      and nth: "\<forall>i<length tcs. \<exists>b.
                 finish_case svc (h @ map (grading_call ex mainFile) (take i tcs))
                     (codigoParaEvaluar mainFile) (lenguajeProgramacion ex) (tcs ! i) =
                   (Inr (b, rs ! i), h @ map (grading_call ex mainFile) (take (Suc i) tcs))"
      unfolding gc by blast
    from nth i obtain b where
      c: "finish_case svc (h @ map (grading_call ex mainFile) (take i tcs))
             (codigoParaEvaluar mainFile) (lenguajeProgramacion ex) (tcs ! i) =
            (Inr (b, rs ! i), h @ map (grading_call ex mainFile) (take (Suc i) tcs))"
      by blast
    from finish_case_compared [OF call [unfolded gc] out exp c [unfolded gc]]
    have "get_prop (rs ! i) ''passed'' =
            Inr (JBool (js_trim a = js_trim e \<and> prop_of result ''exitCode'' = JNum 0))"
      unfolding ta te .
    with q show "\<exists>rs. get_prop q ''testResults'' = Inr (JArr rs) \<and>
            get_prop (rs ! i) ''passed'' =
              Inr (JBool (js_trim a = js_trim e \<and> prop_of result ''exitCode'' = JNum 0))"
      using graded_payload_props(1) by blast
  qed
  have C: "(a = [] \<or> \<not> js_space (hd a) \<and> \<not> js_space (last a)) \<and>
          (e = [] \<or> \<not> js_space (hd e) \<and> \<not> js_space (last e))
            \<longrightarrow> (js_trim a = js_trim e) = (a = e)"
    using js_trim_fixed [of a] js_trim_fixed [of e] by (auto simp del: js_trim.simps js_space.simps)
  have D: "js_trim (ascii ''2'' @ [0xA]) = js_trim (ascii ''2'')" by (simp add: ascii_def)
  have E: "js_trim (ascii ''2 3'') \<noteq> js_trim (ascii ''23'')" by (simp add: ascii_def)
  have F: "js_trim ([0xFEFF, 0x2003] @ ascii ''2'' @ [0x3000, 0xA0, 0x2028]) = ascii ''2''"
    by (simp add: ascii_def)
  have G: "js_trim ([0x200B] @ ascii ''2'' @ [0x85]) = [0x200B] @ ascii ''2'' @ [0x85]"
    by (simp add: ascii_def)
  have H: "filter js_space
     [0x9, 0xA, 0xB, 0xC, 0xD, 0x20, 0xA0, 0x1680, 0x2000, 0x2001, 0x2002, 0x2003, 0x2004,
      0x2005, 0x2006, 0x2007, 0x2008, 0x2009, 0x200A, 0x2028, 0x2029, 0x202F, 0x205F, 0x3000,
      0xFEFF] =
     [0x9, 0xA, 0xB, 0xC, 0xD, 0x20, 0xA0, 0x1680, 0x2000, 0x2001, 0x2002, 0x2003, 0x2004,
      0x2005, 0x2006, 0x2007, 0x2008, 0x2009, 0x200A, 0x2028, 0x2029, 0x202F, 0x205F, 0x3000,
      0xFEFF]"
    by simp
  have I: "filter js_space
     [0x0, 0x8, 0xE, 0x1F, 0x21, 0x85, 0x9F, 0xA1, 0x167F, 0x1681, 0x180E, 0x1FFF, 0x200B,
      0x200C, 0x2027, 0x202A, 0x202E, 0x2030, 0x205E, 0x2060, 0x2FFF, 0x3001, 0xFEFE, 0xFF00,
      0xFFFF] = []"
    by simp
  from A B C D E F G H I show ?thesis by blast
qed

theorem output_comparison_trims_edges_only_witness:
  "(\<exists>rs. get_prop (payload (fst (execute_route (svc_returning padded_result) [] sample_body)))
            ''testResults'' = Inr (JArr rs) \<and>
         get_prop (rs ! 0) ''passed'' = Inr (JBool True)) \<and>
   (\<exists>rs. get_prop (payload (fst (finish_route sample_parseInt 99 (svc_returning padded_result) []
                                    sample_db 3 (ascii ''7'') [])))
            ''testResults'' = Inr (JArr rs) \<and>
         get_prop (rs ! 0) ''passed'' = Inr (JBool True))"
proof -
  note inst = output_comparison_trims_edges_only
     [where body = sample_body and tcs = sample_cases and svc = "svc_returning padded_result"
      and h = "[]" and i = 0 and result = padded_result
      and ?l1.0 = "[0xFEFF]" and a = "ascii ''a''" and ?r1.0 = "[0xA]"
      and ?l2.0 = "[]" and e = "ascii ''a''" and ?r2.0 = "[]"
      and p = "payload (fst (execute_route (svc_returning padded_result) [] sample_body))"
      and h' = "snd (execute_route (svc_returning padded_result) [] sample_body)"
      and parseInt = sample_parseInt and d = sample_db and userId = 3 and param = "ascii ''7''"
      and attempt = sample_attempt and ex = sample_exam and mainFile = sample_file and now = 99
      and fbody = "[]"
      and q = "payload (fst (finish_route sample_parseInt 99 (svc_returning padded_result) []
                               sample_db 3 (ascii ''7'') []))"
      and d' = "fst (snd (finish_route sample_parseInt 99 (svc_returning padded_result) []
                            sample_db 3 (ascii ''7'') []))"
      and h'' = "snd (snd (finish_route sample_parseInt 99 (svc_returning padded_result) []
                             sample_db 3 (ascii ''7'') []))"]
  have ok1: "execute_route (svc_returning padded_result) [] sample_body =
     (Json 200 (payload (fst (execute_route (svc_returning padded_result) [] sample_body))),
      snd (execute_route (svc_returning padded_result) [] sample_body))"
    by (simp add: execute_eval sample_defs padded_result_def)
  have ok2: "finish_route sample_parseInt 99 (svc_returning padded_result) [] sample_db 3 (ascii ''7'') [] =
     (Json 200 (payload (fst (finish_route sample_parseInt 99 (svc_returning padded_result) []
                                sample_db 3 (ascii ''7'') []))),
      fst (snd (finish_route sample_parseInt 99 (svc_returning padded_result) []
                  sample_db 3 (ascii ''7'') [])),
      snd (snd (finish_route sample_parseInt 99 (svc_returning padded_result) []
                  sample_db 3 (ascii ''7'') [])))"
    by (simp add: finish_eval sample_defs padded_result_def)
  have pos: "0 < length sample_cases" by (simp add: sample_cases_def)
  have call1: "svc_returning padded_result ([] @ map (request_call sample_body) (take 0 sample_cases))
                 (request_call sample_body (sample_cases ! 0)) = Inr padded_result"
    and call2: "svc_returning padded_result ([] @ map (grading_call sample_exam sample_file) (take 0 sample_cases))
                 (grading_call sample_exam sample_file (sample_cases ! 0)) = Inr padded_result"
    by (simp_all add: svc_returning_def)
  have out: "get_prop padded_result ''output'' = Inr (JStr ([0xFEFF] @ ascii ''a'' @ [0xA]))"
    by (simp add: padded_result_def)
  have exp: "get_prop (sample_cases ! 0) ''expectedOutput'' = Inr (JStr ([] @ ascii ''a'' @ []))"
    by (simp add: sample_cases_def)
  have ws: "\<forall>c\<in>set ([0xFEFF] @ [0xA] @ [] @ []). js_space c" by simp
  have ec: "prop_of padded_result ''exitCode'' = JNum 0" by (simp add: padded_result_def prop_of_def)
  from inst sample_batch_request ok1 pos call1 out exp ws
  have A: "\<exists>rs. get_prop (payload (fst (execute_route (svc_returning padded_result) [] sample_body)))
            ''testResults'' = Inr (JArr rs) \<and>
         get_prop (rs ! 0) ''passed'' = Inr (JBool (js_trim (ascii ''a'') = js_trim (ascii ''a'')))"
    by blast
  from inst sample_graded_finish ok2 pos call2 out exp ws
  have B: "\<exists>rs. get_prop (payload (fst (finish_route sample_parseInt 99 (svc_returning padded_result) []
                                    sample_db 3 (ascii ''7'') [])))
            ''testResults'' = Inr (JArr rs) \<and>
         get_prop (rs ! 0) ''passed'' =
           Inr (JBool (js_trim (ascii ''a'') = js_trim (ascii ''a'') \<and>
                       prop_of padded_result ''exitCode'' = JNum 0))"
    by blast
  from A B show ?thesis unfolding ec by simp
qed

text \<open>
  C7. The entries of an answered batch stand in the order of the test cases: entry
  \<open>i\<close> is the one made for test case \<open>i\<close>, run after the \<open>i\<close> cases before it, and it
  carries that case's \<^verbatim>\<open>input\<close> and \<^verbatim>\<open>expectedOutput\<close> (its \<^verbatim>\<open>description\<close> on the finish
  route).
\<close>

theorem results_follow_case_order:
  "(batch_request body tcs \<and> execute_route svc h body = (Json 200 p, h') \<longrightarrow>
      (\<exists>rs. get_prop p ''testResults'' = Inr (JArr rs) \<and> length rs = length tcs \<and>
            (\<forall>i<length tcs.
               get_prop (rs ! i) ''input'' = get_prop (tcs ! i) ''input'' \<and>
               get_prop (rs ! i) ''expectedOutput'' = get_prop (tcs ! i) ''expectedOutput'' \<and>
               (\<exists>b. execute_case svc (h @ map (request_call body) (take i tcs))
                        (field body ''code'') (field body ''language'') (tcs ! i) =
                      (Inr (b, rs ! i), h @ map (request_call body) (take (Suc i) tcs)))))) \<and>
   (graded_finish parseInt d userId param attempt ex mainFile tcs \<and>
    finish_route parseInt now svc h d userId param fbody = (Json 200 q, d', h'') \<longrightarrow>
      (\<exists>rs. get_prop q ''testResults'' = Inr (JArr rs) \<and> length rs = length tcs \<and>
            (\<forall>i<length tcs.
               get_prop (rs ! i) ''description'' =
                 Inr (or_else (prop_of (tcs ! i) ''description'') (JStr msg_sin_descripcion)) \<and>
               (\<exists>b. finish_case svc (h @ map (grading_call ex mainFile) (take i tcs))
                        (codigoParaEvaluar mainFile) (lenguajeProgramacion ex) (tcs ! i) =
                      (Inr (b, rs ! i), h @ map (grading_call ex mainFile) (take (Suc i) tcs))))))"
proof (intro conjI impI; elim conjE)
  assume b: "batch_request body tcs" and ok: "execute_route svc h body = (Json 200 p, h')"
  have rc: "request_call body = execute_call (field body ''code'') (field body ''language'')"
    by (rule ext) (simp only: request_call_def)
  from execute_route_batch_200 [OF b ok] obtain rs where
    p: "p = payload (batch_response rs (passed_entries rs) (length tcs))"
    and len: "length rs = length tcs"
    and nth: "\<forall>i<length tcs. \<exists>b.
                 execute_case svc (h @ map (request_call body) (take i tcs))
                     (field body ''code'') (field body ''language'') (tcs ! i) =
                   (Inr (b, rs ! i), h @ map (request_call body) (take (Suc i) tcs))"
    unfolding rc by blast
  have "\<forall>i<length tcs.
               get_prop (rs ! i) ''input'' = get_prop (tcs ! i) ''input'' \<and>
               get_prop (rs ! i) ''expectedOutput'' = get_prop (tcs ! i) ''expectedOutput'' \<and>
               (\<exists>b. execute_case svc (h @ map (request_call body) (take i tcs))
                        (field body ''code'') (field body ''language'') (tcs ! i) =
                      (Inr (b, rs ! i), h @ map (request_call body) (take (Suc i) tcs)))"
    using nth execute_case_fields(1,2) by blast
  with p len show "\<exists>rs. get_prop p ''testResults'' = Inr (JArr rs) \<and> length rs = length tcs \<and>
            (\<forall>i<length tcs.
               get_prop (rs ! i) ''input'' = get_prop (tcs ! i) ''input'' \<and>
               get_prop (rs ! i) ''expectedOutput'' = get_prop (tcs ! i) ''expectedOutput'' \<and>
               (\<exists>b. execute_case svc (h @ map (request_call body) (take i tcs))
                        (field body ''code'') (field body ''language'') (tcs ! i) =
                      (Inr (b, rs ! i), h @ map (request_call body) (take (Suc i) tcs))))"
    using batch_payload_props(1) by blast
next
  assume g: "graded_finish parseInt d userId param attempt ex mainFile tcs"
    and ok: "finish_route parseInt now svc h d userId param fbody = (Json 200 q, d', h'')"
  have gc: "grading_call ex mainFile = finish_call (codigoParaEvaluar mainFile) (lenguajeProgramacion ex)"
    by (rule ext) (simp only: grading_call_def)
  from finish_route_graded_200 [OF g ok] obtain rs where
    q: "q = attempt_json (apply_update
           (graded_update now (codigoParaEvaluar mainFile) (passed_entries rs) (length tcs) rs) attempt)"
    and len: "length rs = length tcs"
    and nth: "\<forall>i<length tcs. \<exists>b.
                 finish_case svc (h @ map (grading_call ex mainFile) (take i tcs))
                     (codigoParaEvaluar mainFile) (lenguajeProgramacion ex) (tcs ! i) =
                   (Inr (b, rs ! i), h @ map (grading_call ex mainFile) (take (Suc i) tcs))"
    unfolding gc by blast
  have "\<forall>i<length tcs.
               get_prop (rs ! i) ''description'' =
                 Inr (or_else (prop_of (tcs ! i) ''description'') (JStr msg_sin_descripcion)) \<and>
               (\<exists>b. finish_case svc (h @ map (grading_call ex mainFile) (take i tcs))
                        (codigoParaEvaluar mainFile) (lenguajeProgramacion ex) (tcs ! i) =
                      (Inr (b, rs ! i), h @ map (grading_call ex mainFile) (take (Suc i) tcs)))"
    using nth finish_case_fields(1) by blast
  with q len show "\<exists>rs. get_prop q ''testResults'' = Inr (JArr rs) \<and> length rs = length tcs \<and>
            (\<forall>i<length tcs.
               get_prop (rs ! i) ''description'' =
                 Inr (or_else (prop_of (tcs ! i) ''description'') (JStr msg_sin_descripcion)) \<and>
               (\<exists>b. finish_case svc (h @ map (grading_call ex mainFile) (take i tcs))
                        (codigoParaEvaluar mainFile) (lenguajeProgramacion ex) (tcs ! i) =
                      (Inr (b, rs ! i), h @ map (grading_call ex mainFile) (take (Suc i) tcs))))"
    using graded_payload_props(1) by blast
qed

theorem results_follow_case_order_witness:
  "(\<exists>rs. get_prop (payload (fst (execute_route svc_echo [] sample_body))) ''testResults'' = Inr (JArr rs) \<and>
         length rs = length sample_cases \<and>
         get_prop (rs ! 1) ''input'' = get_prop (sample_cases ! 1) ''input'' \<and>
         get_prop (rs ! 1) ''expectedOutput'' = get_prop (sample_cases ! 1) ''expectedOutput'') \<and>
   (\<exists>rs. get_prop (payload (fst (finish_route sample_parseInt 99 svc_echo [] sample_db 3 (ascii ''7'') [])))
            ''testResults'' = Inr (JArr rs) \<and>
         length rs = length sample_cases \<and>
         get_prop (rs ! 1) ''description'' =
           Inr (or_else (prop_of (sample_cases ! 1) ''description'') (JStr msg_sin_descripcion)))"
proof -
  note inst = results_follow_case_order
     [where body = sample_body and tcs = sample_cases and svc = svc_echo and h = "[]"
      and p = "payload (fst (execute_route svc_echo [] sample_body))"
      and h' = "snd (execute_route svc_echo [] sample_body)"
      and parseInt = sample_parseInt and d = sample_db and userId = 3 and param = "ascii ''7''"
      and attempt = sample_attempt and ex = sample_exam and mainFile = sample_file and now = 99
      and fbody = "[]"
      and q = "payload (fst (finish_route sample_parseInt 99 svc_echo [] sample_db 3 (ascii ''7'') []))"
      and d' = "fst (snd (finish_route sample_parseInt 99 svc_echo [] sample_db 3 (ascii ''7'') []))"
      and h'' = "snd (snd (finish_route sample_parseInt 99 svc_echo [] sample_db 3 (ascii ''7'') []))"]
  have one: "1 < length sample_cases" by (simp add: sample_cases_def)
  from inst sample_batch_request sample_execute_200 one
  have A: "\<exists>rs. get_prop (payload (fst (execute_route svc_echo [] sample_body))) ''testResults'' = Inr (JArr rs) \<and>
         length rs = length sample_cases \<and>
         get_prop (rs ! 1) ''input'' = get_prop (sample_cases ! 1) ''input'' \<and>
         get_prop (rs ! 1) ''expectedOutput'' = get_prop (sample_cases ! 1) ''expectedOutput''"
    by blast
  from inst sample_graded_finish sample_finish_200 one
  have B: "\<exists>rs. get_prop (payload (fst (finish_route sample_parseInt 99 svc_echo [] sample_db 3 (ascii ''7'') [])))
            ''testResults'' = Inr (JArr rs) \<and>
         length rs = length sample_cases \<and>
         get_prop (rs ! 1) ''description'' =
           Inr (or_else (prop_of (sample_cases ! 1) ''description'') (JStr msg_sin_descripcion))"
    by blast
  from A B show ?thesis ..
qed

text \<open>
  C8, on the code. In an answered batch of \<^verbatim>\<open>/execute\<close>, the entry of a test case whose
  call of the service threw is the one the \<^verbatim>\<open>catch\<close> block pushes: it has \<^verbatim>\<open>input\<close>,
  \<^verbatim>\<open>expectedOutput\<close>, \<^verbatim>\<open>passed\<close> and \<^verbatim>\<open>error\<close>, and neither \<^verbatim>\<open>actualOutput\<close> nor
  \<^verbatim>\<open>executionTime\<close>. The \<^verbatim>\<open>catch\<close> block of the finish route does fill in the two: its
  entry has \<^verbatim>\<open>actual\<close> with the empty string and \<^verbatim>\<open>executionTime\<close> with 0 (that route
  names its fields \<^verbatim>\<open>description\<close>, \<^verbatim>\<open>passed\<close>, \<^verbatim>\<open>expected\<close>, \<^verbatim>\<open>actual\<close>, \<^verbatim>\<open>error\<close>,
  \<^verbatim>\<open>executionTime\<close>). A field whose value is undefined is not sent: \<^verbatim>\<open>input\<close> is in the
  entry only when the test case has one.
\<close>

theorem execute_thrown_entry_lacks_fields:
  "(batch_request body tcs \<and> execute_route svc h body = (Json 200 p, h') \<and> i < length tcs \<and>
    svc (h @ map (request_call body) (take i tcs)) (request_call body (tcs ! i)) = Inl err \<longrightarrow>
      (\<exists>rs. get_prop p ''testResults'' = Inr (JArr rs) \<and>
            rs ! i =
              JObj [(''input'', prop_of (tcs ! i) ''input''),
                    (''expectedOutput'', prop_of (tcs ! i) ''expectedOutput''),
                    (''passed'', JBool False),
                    (''error'',
                     JStr (if message err = [] then ascii ''Error desconocido'' else message err))] \<and>
            ''actualOutput'' \<notin> set (json_fields (rs ! i)) \<and>
            ''executionTime'' \<notin> set (json_fields (rs ! i)) \<and>
            ''passed'' \<in> set (json_fields (rs ! i)) \<and> ''error'' \<in> set (json_fields (rs ! i)) \<and>
            (''input'' \<in> set (json_fields (rs ! i))) = (prop_of (tcs ! i) ''input'' \<noteq> JUndefined))) \<and>
   (graded_finish parseInt d userId param attempt ex mainFile tcs \<and>
    finish_route parseInt now svc h d userId param fbody = (Json 200 q, d', h'') \<and> i < length tcs \<and>
    svc (h @ map (grading_call ex mainFile) (take i tcs)) (grading_call ex mainFile (tcs ! i)) =
      Inl err \<longrightarrow>
      (\<exists>rs. get_prop q ''testResults'' = Inr (JArr rs) \<and>
            rs ! i =
              JObj [(''description'',
                     or_else (prop_of (tcs ! i) ''description'') (JStr msg_sin_descripcion)),
                    (''passed'', JBool False),
                    (''expected'', prop_of (tcs ! i) ''expectedOutput''),
                    (''actual'', JStr []), (''error'', JStr (message err)),
                    (''executionTime'', JNum 0)] \<and>
            ''actual'' \<in> set (json_fields (rs ! i)) \<and>
            ''executionTime'' \<in> set (json_fields (rs ! i)) \<and>
            ''description'' \<in> set (json_fields (rs ! i)) \<and>
            ''passed'' \<in> set (json_fields (rs ! i)) \<and> ''error'' \<in> set (json_fields (rs ! i)) \<and>
            (''expected'' \<in> set (json_fields (rs ! i))) =
              (prop_of (tcs ! i) ''expectedOutput'' \<noteq> JUndefined)))"
proof (rule conjI; intro impI; elim conjE)
  assume b: "batch_request body tcs" and ok: "execute_route svc h body = (Json 200 p, h')"
    and i: "i < length tcs"
    and thrown: "svc (h @ map (request_call body) (take i tcs)) (request_call body (tcs ! i)) = Inl err"
  have rc: "request_call body = execute_call (field body ''code'') (field body ''language'')"
    by (rule ext) (simp only: request_call_def)
  from execute_route_batch_200 [OF b ok] obtain rs where
    p: "p = payload (batch_response rs (passed_entries rs) (length tcs))"
    and nth: "\<forall>i<length tcs. \<exists>b.
                 execute_case svc (h @ map (request_call body) (take i tcs))
                     (field body ''code'') (field body ''language'') (tcs ! i) =
                   (Inr (b, rs ! i), h @ map (request_call body) (take (Suc i) tcs))"
    unfolding rc by blast
  from nth i obtain b where
    c: "execute_case svc (h @ map (request_call body) (take i tcs))
           (field body ''code'') (field body ''language'') (tcs ! i) =
          (Inr (b, rs ! i), h @ map (request_call body) (take (Suc i) tcs))"
    by blast
  from c have nn: "\<not> nullish (tcs ! i)" by (rule execute_case_Inr_not_nullish)
  from execute_case_thrown
         [where svc = svc
            and h = "h @ map (execute_call (field body ''code'') (field body ''language'')) (take i tcs)"
            and code = "field body ''code''" and language = "field body ''language''",
          OF nn thrown [unfolded rc]] c
  have e: "rs ! i = JObj [(''input'', prop_of (tcs ! i) ''input''),
                       (''expectedOutput'', prop_of (tcs ! i) ''expectedOutput''),
                       (''passed'', JBool False),
                       (''error'', JStr (if message err = [] then ascii ''Error desconocido'' else message err))]"
    unfolding rc by simp
  have "''actualOutput'' \<notin> set (json_fields (rs ! i)) \<and>
        ''executionTime'' \<notin> set (json_fields (rs ! i)) \<and>
        ''passed'' \<in> set (json_fields (rs ! i)) \<and> ''error'' \<in> set (json_fields (rs ! i)) \<and>
        (''input'' \<in> set (json_fields (rs ! i))) = (prop_of (tcs ! i) ''input'' \<noteq> JUndefined)"
    unfolding e by simp
  with p e show "\<exists>rs. get_prop p ''testResults'' = Inr (JArr rs) \<and>
            rs ! i =
              JObj [(''input'', prop_of (tcs ! i) ''input''),
                    (''expectedOutput'', prop_of (tcs ! i) ''expectedOutput''),
                    (''passed'', JBool False),
                    (''error'',
                     JStr (if message err = [] then ascii ''Error desconocido'' else message err))] \<and>
            ''actualOutput'' \<notin> set (json_fields (rs ! i)) \<and>
            ''executionTime'' \<notin> set (json_fields (rs ! i)) \<and>
            ''passed'' \<in> set (json_fields (rs ! i)) \<and> ''error'' \<in> set (json_fields (rs ! i)) \<and>
            (''input'' \<in> set (json_fields (rs ! i))) = (prop_of (tcs ! i) ''input'' \<noteq> JUndefined)"
    using batch_payload_props(1) by blast
next
  assume g: "graded_finish parseInt d userId param attempt ex mainFile tcs"
    and ok: "finish_route parseInt now svc h d userId param fbody = (Json 200 q, d', h'')"
    and i: "i < length tcs"
    and thrown: "svc (h @ map (grading_call ex mainFile) (take i tcs)) (grading_call ex mainFile (tcs ! i)) =
                   Inl err"
  have gc: "grading_call ex mainFile = finish_call (codigoParaEvaluar mainFile) (lenguajeProgramacion ex)"
    by (rule ext) (simp only: grading_call_def)
  from finish_route_graded_200 [OF g ok] obtain rs where
    q: "q = attempt_json (apply_update
           (graded_update now (codigoParaEvaluar mainFile) (passed_entries rs) (length tcs) rs) attempt)"
    and nth: "\<forall>i<length tcs. \<exists>b.
                 finish_case svc (h @ map (grading_call ex mainFile) (take i tcs))
                     (codigoParaEvaluar mainFile) (lenguajeProgramacion ex) (tcs ! i) =
                   (Inr (b, rs ! i), h @ map (grading_call ex mainFile) (take (Suc i) tcs))"
    unfolding gc by blast
  from nth i obtain b where
    c: "finish_case svc (h @ map (grading_call ex mainFile) (take i tcs))
           (codigoParaEvaluar mainFile) (lenguajeProgramacion ex) (tcs ! i) =
          (Inr (b, rs ! i), h @ map (grading_call ex mainFile) (take (Suc i) tcs))"
    by blast
  from c have nn: "\<not> nullish (tcs ! i)" by (rule finish_case_Inr_not_nullish)
  from finish_case_thrown
         [where svc = svc
            and h = "h @ map (finish_call (codigoParaEvaluar mainFile) (lenguajeProgramacion ex)) (take i tcs)"
            and code = "codigoParaEvaluar mainFile" and language = "lenguajeProgramacion ex",
          OF nn thrown [unfolded gc]] c
  have e: "rs ! i = JObj [(''description'', or_else (prop_of (tcs ! i) ''description'') (JStr msg_sin_descripcion)),
                 (''passed'', JBool False), (''expected'', prop_of (tcs ! i) ''expectedOutput''),
                 (''actual'', JStr []), (''error'', JStr (message err)),
                 (''executionTime'', JNum 0)]"
    unfolding gc by simp
  have "''actual'' \<in> set (json_fields (rs ! i)) \<and>
        ''executionTime'' \<in> set (json_fields (rs ! i)) \<and>
        ''description'' \<in> set (json_fields (rs ! i)) \<and>
        ''passed'' \<in> set (json_fields (rs ! i)) \<and> ''error'' \<in> set (json_fields (rs ! i)) \<and>
        (''expected'' \<in> set (json_fields (rs ! i))) =
          (prop_of (tcs ! i) ''expectedOutput'' \<noteq> JUndefined)"
    unfolding e by (auto simp add: msg_sin_descripcion_def)
  with q e show "\<exists>rs. get_prop q ''testResults'' = Inr (JArr rs) \<and>
            rs ! i =
              JObj [(''description'',
                     or_else (prop_of (tcs ! i) ''description'') (JStr msg_sin_descripcion)),
                    (''passed'', JBool False),
                    (''expected'', prop_of (tcs ! i) ''expectedOutput''),
                    (''actual'', JStr []), (''error'', JStr (message err)),
                    (''executionTime'', JNum 0)] \<and>
            ''actual'' \<in> set (json_fields (rs ! i)) \<and>
            ''executionTime'' \<in> set (json_fields (rs ! i)) \<and>
            ''description'' \<in> set (json_fields (rs ! i)) \<and>
            ''passed'' \<in> set (json_fields (rs ! i)) \<and> ''error'' \<in> set (json_fields (rs ! i)) \<and>
            (''expected'' \<in> set (json_fields (rs ! i))) =
              (prop_of (tcs ! i) ''expectedOutput'' \<noteq> JUndefined)"
    using graded_payload_props(1) by blast
qed

text \<open>
  A batch of two cases over a service that throws \<^verbatim>\<open>boom\<close>: the fields of the first entry
  as \<^verbatim>\<open>/execute\<close> sends it, and as the finish route stores it.
\<close>

theorem execute_thrown_entry_lacks_fields_witness:
  "(\<exists>rs. get_prop (payload (fst (execute_route (svc_throwing (ascii ''boom'')) [] sample_body)))
            ''testResults'' = Inr (JArr rs) \<and>
         rs ! 0 = JObj [(''input'', JStr (ascii ''a'')), (''expectedOutput'', JStr (ascii ''a'')),
                        (''passed'', JBool False), (''error'', JStr (ascii ''boom''))] \<and>
         json_fields (rs ! 0) = [''input'', ''expectedOutput'', ''passed'', ''error'']) \<and>
   (\<exists>rs. get_prop (payload (fst (finish_route sample_parseInt 99 (svc_throwing (ascii ''boom'')) []
                                    sample_db 3 (ascii ''7'') [])))
            ''testResults'' = Inr (JArr rs) \<and>
         rs ! 0 = JObj [(''description'', JStr msg_sin_descripcion), (''passed'', JBool False),
                        (''expected'', JStr (ascii ''a'')), (''actual'', JStr []),
                        (''error'', JStr (ascii ''boom'')), (''executionTime'', JNum 0)] \<and>
         json_fields (rs ! 0) =
           [''description'', ''passed'', ''expected'', ''actual'', ''error'', ''executionTime''])"
proof -
  note inst = execute_thrown_entry_lacks_fields
     [where body = sample_body and tcs = sample_cases and svc = "svc_throwing (ascii ''boom'')"
      and h = "[]" and i = 0 and err = "JsError (ascii ''boom'')"
      and p = "payload (fst (execute_route (svc_throwing (ascii ''boom'')) [] sample_body))"
      and h' = "snd (execute_route (svc_throwing (ascii ''boom'')) [] sample_body)"
      and parseInt = sample_parseInt and d = sample_db and userId = 3 and param = "ascii ''7''"
      and attempt = sample_attempt and ex = sample_exam and mainFile = sample_file and now = 99
      and fbody = "[]"
      and q = "payload (fst (finish_route sample_parseInt 99 (svc_throwing (ascii ''boom'')) []
                               sample_db 3 (ascii ''7'') []))"
      and d' = "fst (snd (finish_route sample_parseInt 99 (svc_throwing (ascii ''boom'')) []
                            sample_db 3 (ascii ''7'') []))"
      and h'' = "snd (snd (finish_route sample_parseInt 99 (svc_throwing (ascii ''boom'')) []
                             sample_db 3 (ascii ''7'') []))"]
  have ok1: "execute_route (svc_throwing (ascii ''boom'')) [] sample_body =
     (Json 200 (payload (fst (execute_route (svc_throwing (ascii ''boom'')) [] sample_body))),
      snd (execute_route (svc_throwing (ascii ''boom'')) [] sample_body))"
    by (simp add: execute_eval sample_defs)
  have ok2: "finish_route sample_parseInt 99 (svc_throwing (ascii ''boom'')) [] sample_db 3 (ascii ''7'') [] =
     (Json 200 (payload (fst (finish_route sample_parseInt 99 (svc_throwing (ascii ''boom'')) []
                                sample_db 3 (ascii ''7'') []))),
      fst (snd (finish_route sample_parseInt 99 (svc_throwing (ascii ''boom'')) []
                  sample_db 3 (ascii ''7'') [])),
      snd (snd (finish_route sample_parseInt 99 (svc_throwing (ascii ''boom'')) []
                  sample_db 3 (ascii ''7'') [])))"
    by (simp add: finish_eval sample_defs)
  have pos: "0 < length sample_cases" by (simp add: sample_cases_def)
  have t1: "svc_throwing (ascii ''boom'') ([] @ map (request_call sample_body) (take 0 sample_cases))
              (request_call sample_body (sample_cases ! 0)) = Inl (JsError (ascii ''boom''))"
    and t2: "svc_throwing (ascii ''boom'') ([] @ map (grading_call sample_exam sample_file) (take 0 sample_cases))
              (grading_call sample_exam sample_file (sample_cases ! 0)) = Inl (JsError (ascii ''boom''))"
    by (simp_all add: svc_throwing_def)
  from inst sample_batch_request ok1 pos t1 obtain rs where
    1: "get_prop (payload (fst (execute_route (svc_throwing (ascii ''boom'')) [] sample_body)))
            ''testResults'' = Inr (JArr rs)"
       "rs ! 0 = JObj [(''input'', prop_of (sample_cases ! 0) ''input''),
                    (''expectedOutput'', prop_of (sample_cases ! 0) ''expectedOutput''),
                    (''passed'', JBool False),
                    (''error'',
                     JStr (if message (JsError (ascii ''boom'')) = [] then ascii ''Error desconocido''
                           else message (JsError (ascii ''boom''))))]"
    by blast
  from inst sample_graded_finish ok2 pos t2 obtain fs where
    2: "get_prop (payload (fst (finish_route sample_parseInt 99 (svc_throwing (ascii ''boom'')) []
                                    sample_db 3 (ascii ''7'') [])))
            ''testResults'' = Inr (JArr fs)"
       "fs ! 0 = JObj [(''description'',
                     or_else (prop_of (sample_cases ! 0) ''description'') (JStr msg_sin_descripcion)),
                    (''passed'', JBool False),
                    (''expected'', prop_of (sample_cases ! 0) ''expectedOutput''),
                    (''actual'', JStr []), (''error'', JStr (message (JsError (ascii ''boom'')))),
                    (''executionTime'', JNum 0)]"
    by blast
  from 1 have A: "\<exists>rs. get_prop (payload (fst (execute_route (svc_throwing (ascii ''boom'')) [] sample_body)))
            ''testResults'' = Inr (JArr rs) \<and>
         rs ! 0 = JObj [(''input'', JStr (ascii ''a'')), (''expectedOutput'', JStr (ascii ''a'')),
                        (''passed'', JBool False), (''error'', JStr (ascii ''boom''))] \<and>
         json_fields (rs ! 0) = [''input'', ''expectedOutput'', ''passed'', ''error'']"
    by (intro exI [of _ rs]) (simp add: sample_cases_def prop_of_def)
  from 2 have B: "\<exists>rs. get_prop (payload (fst (finish_route sample_parseInt 99 (svc_throwing (ascii ''boom'')) []
                                    sample_db 3 (ascii ''7'') [])))
            ''testResults'' = Inr (JArr rs) \<and>
         rs ! 0 = JObj [(''description'', JStr msg_sin_descripcion), (''passed'', JBool False),
                        (''expected'', JStr (ascii ''a'')), (''actual'', JStr []),
                        (''error'', JStr (ascii ''boom'')), (''executionTime'', JNum 0)] \<and>
         json_fields (rs ! 0) =
           [''description'', ''passed'', ''expected'', ''actual'', ''error'', ''executionTime'']"
    by (intro exI [of _ fs]) (simp add: sample_cases_def prop_of_def msg_sin_descripcion_def)
  from A B show ?thesis ..
qed

text \<open>
  C9 (as the code has it). A request to \<^verbatim>\<open>/execute\<close> that passes the validation (code
  present, language \<^verbatim>\<open>python\<close> or \<^verbatim>\<open>javascript\<close>) and whose \<^verbatim>\<open>customInput\<close> is neither
  undefined nor null makes exactly one call of \<^verbatim>\<open>executeCode\<close>, with \<^verbatim>\<open>customInput\<close> as
  input. When the call resolves to a result object the single-run result is the
  response, when it throws the response is 500. \<^verbatim>\<open>testCases\<close> plays no part: any request
  with the same code, language and custom input is answered alike, and the response has
  no score.
\<close>

theorem custom_input_runs_once:
  assumes "truthy (field body ''code'')" and "supported (field body ''language'')"
      and "\<not> nullish (field body ''customInput'')"
  shows "snd (execute_route svc h body) =
           h @ [ExecuteCode (field body ''code'') (field body ''language'')
                  (route_options (field body ''customInput''))] \<and>
         (\<forall>result.
            svc h (ExecuteCode (field body ''code'') (field body ''language'')
                     (route_options (field body ''customInput''))) = Inr result \<and> \<not> nullish result \<longrightarrow>
            fst (execute_route svc h body) =
              Json 200 (JObj [(''success'', JBool (\<not> truthy (prop_of result ''error''))),
                              (''output'', prop_of result ''output''),
                              (''error'', prop_of result ''error''),
                              (''exitCode'', prop_of result ''exitCode''),
                              (''executionTime'', prop_of result ''executionTime'')])) \<and>
         (\<forall>err.
            svc h (ExecuteCode (field body ''code'') (field body ''language'')
                     (route_options (field body ''customInput''))) = Inl err \<longrightarrow>
            fst (execute_route svc h body) = internal_error msg_internal_run err) \<and>
         (\<forall>body'.
            field body' ''code'' = field body ''code'' \<and>
            field body' ''language'' = field body ''language'' \<and>
            field body' ''customInput'' = field body ''customInput'' \<longrightarrow>
            execute_route svc h body' = execute_route svc h body)"
proof -
  note r = execute_route_custom [OF assms]
  have 1: "snd (execute_route svc h body) =
           h @ [ExecuteCode (field body ''code'') (field body ''language'')
                  (route_options (field body ''customInput''))]"
    unfolding r by (rule execute_once_history)
  have 2: "\<forall>result.
            svc h (ExecuteCode (field body ''code'') (field body ''language'')
                     (route_options (field body ''customInput''))) = Inr result \<and> \<not> nullish result \<longrightarrow>
            fst (execute_route svc h body) =
              Json 200 (JObj [(''success'', JBool (\<not> truthy (prop_of result ''error''))),
                              (''output'', prop_of result ''output''),
                              (''error'', prop_of result ''error''),
                              (''exitCode'', prop_of result ''exitCode''),
                              (''executionTime'', prop_of result ''executionTime'')])"
    unfolding r
    by (auto simp: execute_once_def get_prop_total result_payload_total
             simp del: field.simps route_options.simps)
  have 3: "\<forall>err.
            svc h (ExecuteCode (field body ''code'') (field body ''language'')
                     (route_options (field body ''customInput''))) = Inl err \<longrightarrow>
            fst (execute_route svc h body) = internal_error msg_internal_run err"
    unfolding r
    by (auto simp: execute_once_def simp del: field.simps route_options.simps internal_error.simps)
  have 4: "\<forall>body'.
            field body' ''code'' = field body ''code'' \<and>
            field body' ''language'' = field body ''language'' \<and>
            field body' ''customInput'' = field body ''customInput'' \<longrightarrow>
            execute_route svc h body' = execute_route svc h body"
  proof (intro allI impI, elim conjE)
    fix body'
    assume e: "field body' ''code'' = field body ''code''"
      "field body' ''language'' = field body ''language''"
      "field body' ''customInput'' = field body ''customInput''"
    have a': "truthy (field body' ''code'')" by (simp only: e assms)
    have b': "supported (field body' ''language'')" by (simp only: e assms)
    have c': "\<not> nullish (field body' ''customInput'')" by (simp only: e assms not_False_eq_True)
    from execute_route_custom [OF a' b' c'] show "execute_route svc h body' = execute_route svc h body"
      unfolding r by (simp only: e)
  qed
  from 1 2 3 4 show ?thesis by blast
qed

theorem custom_input_runs_once_witness:
  "snd (execute_route svc_echo [] ((''customInput'', JStr (ascii ''5'')) # sample_body)) =
     [ExecuteCode (JStr (ascii ''print(input())'')) (JStr (ascii ''python'')) (route_options (JStr (ascii ''5'')))] \<and>
   fst (execute_route svc_echo [] ((''customInput'', JStr (ascii ''5'')) # sample_body)) =
     Json 200 (JObj [(''success'', JBool True), (''output'', JStr (ascii ''5'')), (''error'', JNull),
                     (''exitCode'', JNum 0), (''executionTime'', JNum 1)])"
proof -
  have a: "truthy (field ((''customInput'', JStr (ascii ''5'')) # sample_body) ''code'')"
    and b: "supported (field ((''customInput'', JStr (ascii ''5'')) # sample_body) ''language'')"
    and c: "\<not> nullish (field ((''customInput'', JStr (ascii ''5'')) # sample_body) ''customInput'')"
    by (simp_all add: sample_body_def)
  have f: "field ((''customInput'', JStr (ascii ''5'')) # sample_body) ''code'' = JStr (ascii ''print(input())'')"
      "field ((''customInput'', JStr (ascii ''5'')) # sample_body) ''language'' = JStr (ascii ''python'')"
      "field ((''customInput'', JStr (ascii ''5'')) # sample_body) ''customInput'' = JStr (ascii ''5'')"
    by (simp_all add: sample_body_def)
  have s: "svc_echo [] (ExecuteCode (JStr (ascii ''print(input())'')) (JStr (ascii ''python'')) (route_options (JStr (ascii ''5'')))) =
             Inr (JObj [(''output'', JStr (ascii ''5'')), (''error'', JNull), (''exitCode'', JNum 0),
                        (''executionTime'', JNum 1)])"
    by (simp add: svc_echo_def prop_of_def)
  from custom_input_runs_once [OF a b c, of svc_echo "[]", unfolded f] s
  show ?thesis by (simp add: prop_of_def)
qed

text \<open>
  The claim as first stated fails for a request that does not pass the validation: with
  a custom input and empty code, or with a custom input and the language \<^verbatim>\<open>ruby\<close>,
  nothing is executed.
\<close>

theorem custom_input_not_run_when_invalid:
  "execute_route svc_echo []
     [(''code'', JStr []), (''language'', JStr (ascii ''python'')), (''customInput'', JStr (ascii ''5''))] =
   (Json 400 (JObj [(''error'', JStr msg_required)]), []) \<and>
   execute_route svc_echo []
     [(''code'', JStr (ascii ''print(1)'')), (''language'', JStr (ascii ''ruby'')), (''customInput'', JStr (ascii ''5''))] =
   (Json 400 (JObj [(''error'', JStr msg_unsupported)]), [])"
  by (simp add: execute_route_def Let_def)

text \<open>
  C10. For a finish request of a student on their own attempt, in progress, of a
  programming exam:
  when the student has no saved file of version \<^verbatim>\<open>manual\<close> named after the exam's language
  (\<^verbatim>\<open>main.py\<close> for python, \<^verbatim>\<open>main.js\<close> otherwise, so for javascript), the answer is 400,
  nothing is executed and the database is as before, the attempt still in progress;
  otherwise the most recently updated of these files is chosen, every call of the
  service is a call of \<^verbatim>\<open>executeCode\<close> with the \<^verbatim>\<open>content\<close> of that file (the empty string
  for no content) and the exam's language, one call for each test case when the test
  cases are objects, and an attempt that is finished is stored with that content as its
  code. The request body plays no part.
\<close>

theorem graded_code_is_saved_main_file:
  assumes pf: "programming_finish parseInt d userId param attempt ex"
  shows "(main_files d userId attempt ex = [] \<longrightarrow>
            finish_route parseInt now svc h d userId param body =
              (Json 400 (JObj [(''error'', JStr (msg_must_save (mainFileName ex)))]), d, h) \<and>
            attempt_findUnique d (attempt_id attempt) = Inr (Some (attempt, ex)) \<and>
            estado attempt = ''en_progreso'') \<and>
         (main_files d userId attempt ex \<noteq> [] \<longrightarrow>
            (\<exists>mainFile.
               mainFile \<in> set (examFiles d) \<and> file_examId mainFile = attempt_examId attempt \<and>
               file_userId mainFile = userId \<and> version mainFile = ''manual'' \<and>
               filename mainFile = mainFileName ex \<and>
               (\<forall>g\<in>set (main_files d userId attempt ex). updatedAt g \<le> updatedAt mainFile) \<and>
               (\<exists>cs. snd (snd (finish_route parseInt now svc h d userId param body)) = h @ cs \<and>
                     (\<forall>c\<in>set cs. \<exists>opts.
                        c = ExecuteCode (or_else (content mainFile) (JStr []))
                              (lenguajeProgramacion ex) opts)) \<and>
               (\<forall>tcs. testCases ex = JArr tcs \<and> tcs \<noteq> [] \<and> (\<forall>tc\<in>set tcs. \<not> nullish tc) \<longrightarrow>
                  snd (snd (finish_route parseInt now svc h d userId param body)) =
                    h @ map (\<lambda>tc. ExecuteCode (or_else (content mainFile) (JStr []))
                                     (lenguajeProgramacion ex)
                                     (finish_options (or_else (prop_of tc ''input'') (JStr [])))) tcs) \<and>
               (\<forall>p d' h'. finish_route parseInt now svc h d userId param body = (Json 200 p, d', h') \<longrightarrow>
                  get_prop p ''codigoProgramacion'' = Inr (or_else (content mainFile) (JStr []))))) \<and>
         (lenguajeProgramacion ex = JStr (ascii ''python'') \<longrightarrow> mainFileName ex = ''main.py'') \<and>
         (lenguajeProgramacion ex = JStr (ascii ''javascript'') \<longrightarrow> mainFileName ex = ''main.js'') \<and>
         finish_route parseInt now svc h d userId param body =
           finish_route parseInt now svc h d userId param []"
proof -
  from pf have f: "attempt_findUnique d (attempt_id attempt) = Inr (Some (attempt, ex))"
    and ep: "estado attempt = ''en_progreso''"
    by (simp_all add: programming_finish_def)
  note fe = attempt_findUnique_SomeD(2) [OF f]
  note route = finish_route_programming [OF pf]
  have A: "main_files d userId attempt ex = [] \<longrightarrow>
            finish_route parseInt now svc h d userId param body =
              (Json 400 (JObj [(''error'', JStr (msg_must_save (mainFileName ex)))]), d, h) \<and>
            attempt_findUnique d (attempt_id attempt) = Inr (Some (attempt, ex)) \<and>
            estado attempt = ''en_progreso''"
    using finish_programming_no_file [OF pf] f ep by (simp add: route)
  have B: "main_files d userId attempt ex \<noteq> [] \<longrightarrow>
            (\<exists>mainFile.
               mainFile \<in> set (examFiles d) \<and> file_examId mainFile = attempt_examId attempt \<and>
               file_userId mainFile = userId \<and> version mainFile = ''manual'' \<and>
               filename mainFile = mainFileName ex \<and>
               (\<forall>g\<in>set (main_files d userId attempt ex). updatedAt g \<le> updatedAt mainFile) \<and>
               (\<exists>cs. snd (snd (finish_route parseInt now svc h d userId param body)) = h @ cs \<and>
                     (\<forall>c\<in>set cs. \<exists>opts.
                        c = ExecuteCode (or_else (content mainFile) (JStr []))
                              (lenguajeProgramacion ex) opts)) \<and>
               (\<forall>tcs. testCases ex = JArr tcs \<and> tcs \<noteq> [] \<and> (\<forall>tc\<in>set tcs. \<not> nullish tc) \<longrightarrow>
                  snd (snd (finish_route parseInt now svc h d userId param body)) =
                    h @ map (\<lambda>tc. ExecuteCode (or_else (content mainFile) (JStr []))
                                     (lenguajeProgramacion ex)
                                     (finish_options (or_else (prop_of tc ''input'') (JStr [])))) tcs) \<and>
               (\<forall>p d' h'. finish_route parseInt now svc h d userId param body = (Json 200 p, d', h') \<longrightarrow>
                  get_prop p ''codigoProgramacion'' = Inr (or_else (content mainFile) (JStr []))))"
  proof
    assume ne: "main_files d userId attempt ex \<noteq> []"
    then obtain mainFile where
      m: "examFile_findFirst d (attempt_examId attempt) userId (mainFileName ex) ''manual'' = Some mainFile"
      using examFile_findFirst_None [of d "attempt_examId attempt" userId "mainFileName ex" "''manual''"]
      by (auto simp: main_files_def)
    have code: "codigoParaEvaluar mainFile = or_else (content mainFile) (JStr [])"
      by (simp only: codigoParaEvaluar_def)
    note sel = examFile_findFirst_Some [OF m]
    from sel(1) have 1: "mainFile \<in> set (examFiles d)" "file_examId mainFile = attempt_examId attempt"
      "file_userId mainFile = userId" "version mainFile = ''manual''" "filename mainFile = mainFileName ex"
      by (simp_all add: examFile_where_iff)
    from sel(2) have 2: "\<forall>g\<in>set (main_files d userId attempt ex). updatedAt g \<le> updatedAt mainFile"
      by (simp add: main_files_def)
    note prog = finish_programming_file [OF fe m, of svc h "initial_update now"]
    obtain res h1 where fp: "finish_programming svc h d userId attempt (initial_update now) = (res, h1)"
      by (cases "finish_programming svc h d userId attempt (initial_update now)")
    have snd_eq: "snd (snd (finish_route parseInt now svc h d userId param body)) = h1"
      unfolding route fp by (simp split: sum.splits)
    from prog(1) fp have 3: "\<exists>cs. snd (snd (finish_route parseInt now svc h d userId param body)) = h @ cs \<and>
                     (\<forall>c\<in>set cs. \<exists>opts.
                        c = ExecuteCode (or_else (content mainFile) (JStr []))
                              (lenguajeProgramacion ex) opts)"
      unfolding snd_eq code by (simp add: list_all_iff)
    have 4: "\<forall>p d' h'. finish_route parseInt now svc h d userId param body = (Json 200 p, d', h') \<longrightarrow>
                  get_prop p ''codigoProgramacion'' = Inr (or_else (content mainFile) (JStr []))"
    proof (intro allI impI)
      fix p d' h'
      assume ok: "finish_route parseInt now svc h d userId param body = (Json 200 p, d', h')"
      show "get_prop p ''codigoProgramacion'' = Inr (or_else (content mainFile) (JStr []))"
      proof (cases res)
        case (Inl e)
        with ok fp show ?thesis by (simp add: route finish_failed_def)
      next
        case (Inr x)
        show ?thesis
        proof (cases x)
          case (Inl r)
          with Inr fp prog(2) [of r] show ?thesis by simp
        next
          case u: (Inr u)
          with Inr fp prog(3) [of u]
          have c: "upd_codigoProgramacion u = Some (or_else (content mainFile) (JStr []))"
            unfolding code by simp
          from ok fp Inr u have "p = attempt_json (apply_update u attempt)" by (simp add: route)
          with attempt_json_codigo [OF c] show ?thesis by simp
        qed
      qed
    qed
    have 5: "\<forall>tcs. testCases ex = JArr tcs \<and> tcs \<noteq> [] \<and> (\<forall>tc\<in>set tcs. \<not> nullish tc) \<longrightarrow>
                  snd (snd (finish_route parseInt now svc h d userId param body)) =
                    h @ map (\<lambda>tc. ExecuteCode (or_else (content mainFile) (JStr []))
                                     (lenguajeProgramacion ex)
                                     (finish_options (or_else (prop_of tc ''input'') (JStr [])))) tcs"
    proof (intro allI impI, elim conjE)
      fix tcs
      assume t: "testCases ex = JArr tcs" "tcs \<noteq> []" and wf: "\<forall>tc\<in>set tcs. \<not> nullish tc"
      from pf m t have g: "graded_finish parseInt d userId param attempt ex mainFile tcs"
        by (simp add: graded_finish_def)
      have fc: "finish_call (codigoParaEvaluar mainFile) (lenguajeProgramacion ex) =
                  (\<lambda>tc. ExecuteCode (or_else (content mainFile) (JStr []))
                                     (lenguajeProgramacion ex)
                                     (finish_options (or_else (prop_of tc ''input'') (JStr []))))"
        by (rule ext) (simp only: finish_call_def code)
      from finish_route_graded_total [OF g wf, of now svc h body]
      show "snd (snd (finish_route parseInt now svc h d userId param body)) =
                    h @ map (\<lambda>tc. ExecuteCode (or_else (content mainFile) (JStr []))
                                     (lenguajeProgramacion ex)
                                     (finish_options (or_else (prop_of tc ''input'') (JStr [])))) tcs"
        unfolding fc by auto
    qed
    from 1 2 3 4 5 show "\<exists>mainFile.
               mainFile \<in> set (examFiles d) \<and> file_examId mainFile = attempt_examId attempt \<and>
               file_userId mainFile = userId \<and> version mainFile = ''manual'' \<and>
               filename mainFile = mainFileName ex \<and>
               (\<forall>g\<in>set (main_files d userId attempt ex). updatedAt g \<le> updatedAt mainFile) \<and>
               (\<exists>cs. snd (snd (finish_route parseInt now svc h d userId param body)) = h @ cs \<and>
                     (\<forall>c\<in>set cs. \<exists>opts.
                        c = ExecuteCode (or_else (content mainFile) (JStr []))
                              (lenguajeProgramacion ex) opts)) \<and>
               (\<forall>tcs. testCases ex = JArr tcs \<and> tcs \<noteq> [] \<and> (\<forall>tc\<in>set tcs. \<not> nullish tc) \<longrightarrow>
                  snd (snd (finish_route parseInt now svc h d userId param body)) =
                    h @ map (\<lambda>tc. ExecuteCode (or_else (content mainFile) (JStr []))
                                     (lenguajeProgramacion ex)
                                     (finish_options (or_else (prop_of tc ''input'') (JStr [])))) tcs) \<and>
               (\<forall>p d' h'. finish_route parseInt now svc h d userId param body = (Json 200 p, d', h') \<longrightarrow>
                  get_prop p ''codigoProgramacion'' = Inr (or_else (content mainFile) (JStr [])))"
      by (intro exI [of _ mainFile] conjI)
  qed
  have C: "(lenguajeProgramacion ex = JStr (ascii ''python'') \<longrightarrow> mainFileName ex = ''main.py'') \<and>
         (lenguajeProgramacion ex = JStr (ascii ''javascript'') \<longrightarrow> mainFileName ex = ''main.js'')"
    by (simp add: mainFileName_def)
  have D: "finish_route parseInt now svc h d userId param body =
           finish_route parseInt now svc h d userId param []"
    by (simp only: route)
  from A B C D show ?thesis by blast
qed

text \<open>
  The sample student has saved \<^verbatim>\<open>main.py\<close> twice: \<^verbatim>\<open>pass\<close> at time 10 and
  \<^verbatim>\<open>print(input())\<close> at time 20. The request body carries other code. What runs, and
  what is stored, is the later file.
\<close>

theorem graded_code_is_saved_main_file_witness:
  "finish_route sample_parseInt 99 svc_echo [] sample_db_no_files 3 (ascii ''7'')
       [(''codigoProgramacion'', JStr (ascii ''print(1)''))] =
     (Json 400 (JObj [(''error'', JStr (msg_must_save ''main.py''))]), sample_db_no_files, []) \<and>
   snd (snd (finish_route sample_parseInt 99 svc_echo [] sample_db 3 (ascii ''7'')
               [(''codigoProgramacion'', JStr (ascii ''print(1)''))])) =
     [ExecuteCode (JStr (ascii ''print(input())'')) (JStr (ascii ''python''))
        (finish_options (JStr (ascii ''a''))),
      ExecuteCode (JStr (ascii ''print(input())'')) (JStr (ascii ''python''))
        (finish_options (JStr (ascii ''b'')))] \<and>
   get_prop (payload (fst (finish_route sample_parseInt 99 svc_echo [] sample_db 3 (ascii ''7'')
                             [(''codigoProgramacion'', JStr (ascii ''print(1)''))])))
      ''codigoProgramacion'' = Inr (JStr (ascii ''print(input())''))"
proof -
  have pf0: "programming_finish sample_parseInt sample_db_no_files 3 (ascii ''7'') sample_attempt sample_exam"
    by (simp add: programming_finish_def sample_parseInt_def sample_db_def sample_db_no_files_def
        sample_attempt_def sample_exam_def attempt_findUnique_def)
  have pf1: "programming_finish sample_parseInt sample_db 3 (ascii ''7'') sample_attempt sample_exam"
    using sample_graded_finish by (simp add: graded_finish_def)
  have none: "main_files sample_db_no_files 3 sample_attempt sample_exam = []"
    by (simp add: main_files_def examFile_where_def sample_db_no_files_def)
  have files: "main_files sample_db 3 sample_attempt sample_exam =
                 [sample_file\<lparr>content := JStr (ascii ''pass''), updatedAt := 10\<rparr>, sample_file]"
    by (simp add: main_files_def examFile_where_def sample_db_def sample_file_def sample_attempt_def
        sample_exam_def mainFileName_def)
  then have some: "main_files sample_db 3 sample_attempt sample_exam \<noteq> []" by simp
  have name: "mainFileName sample_exam = ''main.py''"
    by (simp add: mainFileName_def sample_exam_def)
  have lang: "lenguajeProgramacion sample_exam = JStr (ascii ''python'')"
    and tcs: "testCases sample_exam = JArr sample_cases"
    by (simp_all add: sample_exam_def)
  have ne: "sample_cases \<noteq> []" by (simp add: sample_cases_def)
  from graded_code_is_saved_main_file
         [OF pf0, of 99 svc_echo "[]" "[(''codigoProgramacion'', JStr (ascii ''print(1)''))]"] none
  have A: "finish_route sample_parseInt 99 svc_echo [] sample_db_no_files 3 (ascii ''7'')
       [(''codigoProgramacion'', JStr (ascii ''print(1)''))] =
     (Json 400 (JObj [(''error'', JStr (msg_must_save ''main.py''))]), sample_db_no_files, [])"
    unfolding name by blast
  from graded_code_is_saved_main_file
         [OF pf1, of 99 svc_echo "[]" "[(''codigoProgramacion'', JStr (ascii ''print(1)''))]"] some
  obtain mainFile where
    m: "mainFile \<in> set (examFiles sample_db)"
       "\<forall>g\<in>set (main_files sample_db 3 sample_attempt sample_exam). updatedAt g \<le> updatedAt mainFile"
    and calls: "\<forall>tcs. testCases sample_exam = JArr tcs \<and> tcs \<noteq> [] \<and> (\<forall>tc\<in>set tcs. \<not> nullish tc) \<longrightarrow>
                  snd (snd (finish_route sample_parseInt 99 svc_echo [] sample_db 3 (ascii ''7'')
                              [(''codigoProgramacion'', JStr (ascii ''print(1)''))])) =
                    [] @ map (\<lambda>tc. ExecuteCode (or_else (content mainFile) (JStr []))
                                     (lenguajeProgramacion sample_exam)
                                     (finish_options (or_else (prop_of tc ''input'') (JStr [])))) tcs"
    and stored: "\<forall>p d' h'. finish_route sample_parseInt 99 svc_echo [] sample_db 3 (ascii ''7'')
                              [(''codigoProgramacion'', JStr (ascii ''print(1)''))] = (Json 200 p, d', h') \<longrightarrow>
                  get_prop p ''codigoProgramacion'' = Inr (or_else (content mainFile) (JStr []))"
    by blast
  from m(2) have "updatedAt sample_file \<le> updatedAt mainFile" unfolding files by simp
  with m(1) have mf: "mainFile = sample_file"
    by (auto simp add: sample_db_def sample_file_def)
  have code: "or_else (content mainFile) (JStr []) = JStr (ascii ''print(input())'')"
    unfolding mf by (simp add: sample_file_def)
  from calls tcs ne sample_cases_wf
  have B: "snd (snd (finish_route sample_parseInt 99 svc_echo [] sample_db 3 (ascii ''7'')
               [(''codigoProgramacion'', JStr (ascii ''print(1)''))])) =
     [ExecuteCode (JStr (ascii ''print(input())'')) (JStr (ascii ''python''))
        (finish_options (JStr (ascii ''a''))),
      ExecuteCode (JStr (ascii ''print(input())'')) (JStr (ascii ''python''))
        (finish_options (JStr (ascii ''b'')))]"
    unfolding code lang by (simp add: sample_cases_def prop_of_def)
  have ok: "finish_route sample_parseInt 99 svc_echo [] sample_db 3 (ascii ''7'')
              [(''codigoProgramacion'', JStr (ascii ''print(1)''))] =
     (Json 200 (payload (fst (finish_route sample_parseInt 99 svc_echo [] sample_db 3 (ascii ''7'')
                                [(''codigoProgramacion'', JStr (ascii ''print(1)''))]))),
      fst (snd (finish_route sample_parseInt 99 svc_echo [] sample_db 3 (ascii ''7'')
                  [(''codigoProgramacion'', JStr (ascii ''print(1)''))])),
      snd (snd (finish_route sample_parseInt 99 svc_echo [] sample_db 3 (ascii ''7'')
                  [(''codigoProgramacion'', JStr (ascii ''print(1)''))])))"
    by (simp add: finish_eval sample_defs)
  from stored ok
  have C: "get_prop (payload (fst (finish_route sample_parseInt 99 svc_echo [] sample_db 3 (ascii ''7'')
                             [(''codigoProgramacion'', JStr (ascii ''print(1)''))])))
      ''codigoProgramacion'' = Inr (JStr (ascii ''print(input())''))"
    unfolding code by blast
  from A B C show ?thesis by blast
qed

end
